theory Spec2Isabelle
  imports Complex_Main
begin

section \<open>JavaScript strings and numbers used by the worker\<close>

text \<open>
  The worker is \<^verbatim>\<open>src/worker/src/index.js\<close>, second version of the file (the one with
  the authenticated exchange client, lines 211-560).  Strings are ASCII text.
\<close>

definition is_digit :: "char \<Rightarrow> bool" where
  "is_digit c = (c \<in> set ''0123456789'')"

definition digit_val :: "char \<Rightarrow> nat" where
  "digit_val c = of_char c - 48"

definition digit_char :: "nat \<Rightarrow> char" where
  "digit_char n = ''0123456789'' ! (n mod 10)"

text \<open>\<^verbatim>\<open>String(n)\<close> for a non-negative integer \<open>n\<close>: its decimal digits.\<close>

fun dec :: "nat \<Rightarrow> string" where
  "dec n = (if n < 10 then [digit_char n] else dec (n div 10) @ [digit_char (n mod 10)])"

declare dec.simps [simp del]

text \<open>\<^verbatim>\<open>String(i)\<close> for an integer.\<close>

definition String_int :: "int \<Rightarrow> string" where
  "String_int i = (if i < 0 then CHR ''-'' # dec (nat (- i)) else dec (nat i))"

text \<open>The value of a run of decimal digits.\<close>

definition num_of :: "string \<Rightarrow> nat" where
  "num_of ds = foldl (\<lambda>a c. 10 * a + digit_val c) 0 ds"

text \<open>\<^verbatim>\<open>s.slice(-2)\<close>: the last two characters, the whole string when it is shorter.\<close>

definition slice_last2 :: "string \<Rightarrow> string" where
  "slice_last2 s = drop (length s - 2) s"

text \<open>\<^verbatim>\<open>s.padStart(2, "0")\<close>.\<close>

definition padStart2 :: "string \<Rightarrow> string" where
  "padStart2 s = replicate (2 - length s) (CHR ''0'') @ s"

text \<open>\<^verbatim>\<open>s.startsWith(p)\<close>.\<close>

definition startsWith :: "string \<Rightarrow> string \<Rightarrow> bool" where
  "startsWith s p = (take (length p) s = p)"

text \<open>\<^verbatim>\<open>s.includes(t)\<close>: \<open>t\<close> occurs in \<open>s\<close> as a contiguous run.\<close>

fun str_includes :: "string \<Rightarrow> string \<Rightarrow> bool" where
  "str_includes [] t = (t = [])"
| "str_includes (c # s) t = (startsWith (c # s) t \<or> str_includes s t)"

section \<open>The ticker-date token\<close>

text \<open>
  The test \<^verbatim>\<open>/^\d{4}-\d{2}-\d{2}$/\<close>: ten characters, digits around two hyphens.
  The handler applies it to the \<^verbatim>\<open>date\<close> parameter; the same shape is the date part of
  the ISO format that \<^verbatim>\<open>Date\<close> parses.
\<close>

definition matches_date_regex :: "string \<Rightarrow> bool" where
  "matches_date_regex s =
     (length s = 10 \<and> list_all is_digit (take 4 s) \<and> s ! 4 = CHR ''-'' \<and>
      list_all is_digit (take 2 (drop 5 s)) \<and> s ! 7 = CHR ''-'' \<and>
      list_all is_digit (drop 8 s))"

text \<open>
  A \<^verbatim>\<open>Date\<close> object read through its UTC getters: an invalid date (every getter gives
  \<^verbatim>\<open>NaN\<close>), or the year, the month index from 0 and the day of the month.
\<close>

datatype js_date = InvalidDate | UTCDate int nat nat

definition leap_year :: "nat \<Rightarrow> bool" where
  "leap_year y = (y mod 4 = 0 \<and> (y mod 100 \<noteq> 0 \<or> y mod 400 = 0))"

definition days_in_month :: "nat \<Rightarrow> nat \<Rightarrow> nat" where
  "days_in_month y m =
     (if m = 2 then (if leap_year y then 29 else 28)
      else if m = 4 \<or> m = 6 \<or> m = 9 \<or> m = 11 then 30 else 31)"

text \<open>
  The day \<open>d\<close> (1 to 31) of month \<open>m\<close> (1 to 12) of year \<open>y\<close> at 12:00 UTC.  The runtime
  of the worker (V8) accepts every day from 1 to 31 in an ISO string and counts a day past
  the end of the month into the next month; December has 31 days, so the year never
  changes.
\<close>

definition make_day :: "nat \<Rightarrow> nat \<Rightarrow> nat \<Rightarrow> js_date" where
  "make_day y m d =
     (if d \<le> days_in_month y m then UTCDate (int y) (m - 1) d
      else UTCDate (int y) m (d - days_in_month y m))"

text \<open>
  \<^verbatim>\<open>new Date(s)\<close>.  A string \<^verbatim>\<open>YYYY-MM-DDT12:00:00Z\<close> is read as ISO: its year, its
  month (01 to 12) and its day (01 to 31); with a month or a day out of these ranges the
  date is invalid.  What the engine makes of a string
  of any other shape (its fallback parser) is the parameter \<open>engine\<close>.
\<close>

definition iso_year :: "string \<Rightarrow> nat" where
  "iso_year s = num_of (take 4 s)"

definition iso_month :: "string \<Rightarrow> nat" where
  "iso_month s = num_of (take 2 (drop 5 s))"

definition iso_day :: "string \<Rightarrow> nat" where
  "iso_day s = num_of (take 2 (drop 8 s))"

definition new_Date :: "(string \<Rightarrow> js_date) \<Rightarrow> string \<Rightarrow> js_date" where
  "new_Date engine s =
     (if drop 10 s = ''T12:00:00Z'' \<and> matches_date_regex (take 10 s) then
        (if 1 \<le> iso_month s \<and> iso_month s \<le> 12 \<and> 1 \<le> iso_day s \<and> iso_day s \<le> 31
         then make_day (iso_year s) (iso_month s) (iso_day s) else InvalidDate)
      else engine s)"

definition months :: "string list" where
  "months = [''JAN'', ''FEB'', ''MAR'', ''APR'', ''MAY'', ''JUN'',
             ''JUL'', ''AUG'', ''SEP'', ''OCT'', ''NOV'', ''DEC'']"

text \<open>
  \<^verbatim>\<open>toTickerDate\<close> (lines 230-237).  On an invalid date the getters give \<^verbatim>\<open>NaN\<close>:
  \<^verbatim>\<open>String(NaN).slice(-2)\<close> is \<^verbatim>\<open>aN\<close>, \<^verbatim>\<open>months[NaN]\<close> is \<^verbatim>\<open>undefined\<close> and
  \<^verbatim>\<open>String(NaN).padStart(2, "0")\<close> is \<^verbatim>\<open>NaN\<close>.  No step of the function can throw.
\<close>

definition toTickerDate :: "(string \<Rightarrow> js_date) \<Rightarrow> string \<Rightarrow> string" where
  "toTickerDate engine dateStr =
     (case new_Date engine (dateStr @ ''T12:00:00Z'') of
        InvalidDate \<Rightarrow> slice_last2 ''NaN'' @ ''undefined'' @ padStart2 ''NaN''
      | UTCDate year month day \<Rightarrow>
          (let yy = slice_last2 (String_int year);
               mmm = (if month < length months then months ! month else ''undefined'');
               dd = padStart2 (dec day)
           in yy @ mmm @ dd))"

section \<open>JSON values\<close>

text \<open>
  A parsed JSON value.  An object holds its properties in the order \<^verbatim>\<open>Object.keys\<close>
  lists them, each key once; reading a property takes the first entry with that key.
  A property that is \<^verbatim>\<open>undefined\<close> is not in the list, as \<^verbatim>\<open>JSON.stringify\<close> leaves
  it out.
\<close>

datatype json = JNull | JBool bool | JNum rat | JStr string | JArr "json list"
  | JObj "(string \<times> json) list"

text \<open>Truthiness, as \<^verbatim>\<open>||\<close> and \<^verbatim>\<open>&&\<close> test it.\<close>

fun truthy :: "json \<Rightarrow> bool" where
  "truthy JNull = False"
| "truthy (JBool b) = b"
| "truthy (JNum n) = (n \<noteq> 0)"
| "truthy (JStr s) = (s \<noteq> [])"
| "truthy (JArr _) = True"
| "truthy (JObj _) = True"

text \<open>
  Reading the property \<open>k\<close> of a value \<open>v\<close> (\<^verbatim>\<open>v.k\<close>, for a key that no array, string,
  number or boolean has): \<open>Inl\<close> is the message of the TypeError that reading a
  property of \<^verbatim>\<open>null\<close> throws, \<open>Inr None\<close> is \<^verbatim>\<open>undefined\<close>.
\<close>

fun get_prop :: "json \<Rightarrow> string \<Rightarrow> string + json option" where
  "get_prop JNull k = Inl (''Cannot read properties of null (reading '' @ [CHR 0x27] @ k @ [CHR 0x27] @ '')'')"
| "get_prop (JObj kvs) k = Inr (map_of kvs k)"
| "get_prop _ k = Inr None"

text \<open>The same on a value that is known not to be \<^verbatim>\<open>null\<close>: \<open>None\<close> is \<^verbatim>\<open>undefined\<close>.\<close>

fun field :: "json \<Rightarrow> string \<Rightarrow> json option" where
  "field (JObj kvs) k = map_of kvs k"
| "field _ k = None"

text \<open>\<^verbatim>\<open>obj[k] = v\<close> on an object: an existing key keeps its place, a new one goes last.\<close>

fun set_prop :: "(string \<times> json) list \<Rightarrow> string \<Rightarrow> json \<Rightarrow> (string \<times> json) list" where
  "set_prop [] k v = [(k, v)]"
| "set_prop ((k', v') # kvs) k v = (if k' = k then (k, v) # kvs else (k', v') # set_prop kvs k v)"

text \<open>A nullable value in JSON: \<open>None\<close> is \<^verbatim>\<open>null\<close>.\<close>

definition nullable :: "('a \<Rightarrow> json) \<Rightarrow> 'a option \<Rightarrow> json" where
  "nullable f x = (case x of None \<Rightarrow> JNull | Some v \<Rightarrow> f v)"

section \<open>Fetch helpers\<close>

text \<open>
  One attempt of \<^verbatim>\<open>fetch(url, ...)\<close>: the call itself rejects with a message (no
  connection), or a response arrives with its status and what \<^verbatim>\<open>resp.json()\<close> settles to
  (\<open>Inl\<close>: it rejects with that message).  \<^verbatim>\<open>resp.ok\<close> is a status from 200 to 299.
\<close>

datatype 'b attempt = FetchThrows string | Response nat "string + 'b"

definition ok :: "nat \<Rightarrow> bool" where
  "ok status = (200 \<le> status \<and> status \<le> 299)"

text \<open>
  What an \<^verbatim>\<open>async\<close> function settles to: it throws (the message of the error), it
  returns a value, or it ends without a \<^verbatim>\<open>return\<close> (\<^verbatim>\<open>undefined\<close>).
\<close>

datatype 'a settled = Rejected string | Resolved 'a | ResolvedUndefined

type_synonym headers = "(string \<times> string) list"

text \<open>What a fetch helper does besides settling: requests and timer delays, in order.\<close>

datatype event = Request string headers | Sleep nat

text \<open>\<^verbatim>\<open>resp.json()\<close> of a response, returned from an \<^verbatim>\<open>async\<close> function.\<close>

definition resp_json :: "string + 'b \<Rightarrow> 'b settled" where
  "resp_json body = (case body of Inl m \<Rightarrow> Rejected m | Inr j \<Rightarrow> Resolved j)"

definition http_error :: "nat \<Rightarrow> string \<Rightarrow> string" where
  "http_error status url = ''HTTP '' @ dec status @ '' from '' @ url"

text \<open>
  \<^verbatim>\<open>safeFetch\<close> (lines 308-318): the loop from the value \<open>attempt\<close> of its counter on.
  \<open>replies k\<close> is what the \<open>k\<close>-th attempt of this call (from 0) meets.
\<close>

function safeFetch_from :: "nat \<Rightarrow> string \<Rightarrow> headers \<Rightarrow> (nat \<Rightarrow> 'b attempt) \<Rightarrow> 'b settled \<times> event list" where
  "safeFetch_from attempt url hdrs replies =
     (if attempt < 3 then
        (case replies attempt of
           FetchThrows m \<Rightarrow> (Rejected m, [Request url hdrs])
         | Response status body \<Rightarrow>
             if ok status then (resp_json body, [Request url hdrs])
             else if status = 429 \<and> attempt < 2 then
               (case safeFetch_from (attempt + 1) url hdrs replies of
                  (r, evs) \<Rightarrow> (r, Request url hdrs # Sleep (1500 * (attempt + 1)) # evs))
             else (Rejected (http_error status url), [Request url hdrs]))
      else (ResolvedUndefined, []))"
  by pat_completeness auto
termination
  by (relation "measure (\<lambda>(attempt, url, hdrs, replies). 3 - attempt)") auto

declare safeFetch_from.simps [simp del]

definition safeFetch :: "string \<Rightarrow> headers \<Rightarrow> (nat \<Rightarrow> 'b attempt) \<Rightarrow> 'b settled \<times> event list" where
  "safeFetch url hdrs replies = safeFetch_from 0 url hdrs replies"

subsection \<open>Signed requests to the exchange\<close>

definition KALSHI_BASE :: string where
  "KALSHI_BASE = ''https://api.elections.kalshi.com/trade-api/v2''"

record env =
  KALSHI_API_KEY_ID :: "string option"
  KALSHI_PRIVATE_KEY :: "string option"

text \<open>
  What the runtime supplies to the signer: whether \<^verbatim>\<open>atob\<close> throws on the stripped PEM
  text (and with which message), whether \<^verbatim>\<open>crypto.subtle.importKey\<close> accepts the key as
  PKCS#8, the base64 of the RSA-PSS signature of a message made at a given attempt,
  \<^verbatim>\<open>Date.now()\<close> at a given attempt, and what \<^verbatim>\<open>new Date\<close> makes of a string that is
  not of the ISO shape.  The key cache \<^verbatim>\<open>_cachedKey\<close> only saves the import from being
  repeated.  The runtime also has the Unicode tables: \<open>upper_case\<close> gives the upper-case
  mapping of a code point outside ASCII, as a list of code points.
\<close>

record platform =
  atob_throws :: "string \<Rightarrow> string option"
  importKey_accepts :: "string \<Rightarrow> bool"
  sign_base64 :: "nat \<Rightarrow> string \<Rightarrow> string \<Rightarrow> string"
  now_ms :: "nat \<Rightarrow> nat"
  date_fallback :: "string \<Rightarrow> js_date"
  upper_case :: "int \<Rightarrow> int list"

text \<open>\<^verbatim>\<open>getSigningKey\<close> (lines 259-278); the key is stood for by its PEM text.\<close>

definition getSigningKey :: "platform \<Rightarrow> env \<Rightarrow> string + string" where
  "getSigningKey pf e =
     (case KALSHI_PRIVATE_KEY e of
        None \<Rightarrow> Inl ''KALSHI_PRIVATE_KEY secret not set''
      | Some pem \<Rightarrow>
          if pem = [] then Inl ''KALSHI_PRIVATE_KEY secret not set''
          else (case atob_throws pf pem of
                  Some m \<Rightarrow> Inl m
                | None \<Rightarrow>
                    if importKey_accepts pf pem then Inr pem
                    else Inl ''Key import failed. Key must be in PKCS#8 format (BEGIN PRIVATE KEY). Convert with: openssl pkcs8 -topk8 -inform PEM -outform PEM -nocrypt -in key.pem -out key-pkcs8.pem''))"

text \<open>\<^verbatim>\<open>makeKalshiHeaders\<close> (lines 280-302), called at the attempt \<open>k\<close>.\<close>

definition makeKalshiHeaders :: "platform \<Rightarrow> env \<Rightarrow> nat \<Rightarrow> string \<Rightarrow> string \<Rightarrow> string + headers" where
  "makeKalshiHeaders pf e k method path =
     (case getSigningKey pf e of
        Inl m \<Rightarrow> Inl m
      | Inr key \<Rightarrow>
          (case KALSHI_API_KEY_ID e of
             None \<Rightarrow> Inl ''KALSHI_API_KEY_ID secret not set''
           | Some apiKeyId \<Rightarrow>
               if apiKeyId = [] then Inl ''KALSHI_API_KEY_ID secret not set''
               else
                 (let ts = dec (now_ms pf k);
                      pathNoQuery = takeWhile (\<lambda>c. c \<noteq> CHR ''?'') path;
                      sigB64 = sign_base64 pf k key (ts @ method @ pathNoQuery)
                  in Inr [(''KALSHI-ACCESS-KEY'', apiKeyId),
                          (''KALSHI-ACCESS-SIGNATURE'', sigB64),
                          (''KALSHI-ACCESS-TIMESTAMP'', ts),
                          (''Content-Type'', ''application/json'')])))"

text \<open>\<^verbatim>\<open>kalshiFetch\<close> (lines 320-332): the headers are made anew at every attempt.\<close>

function kalshiFetch_from :: "nat \<Rightarrow> platform \<Rightarrow> env \<Rightarrow> string \<Rightarrow> (nat \<Rightarrow> 'b attempt) \<Rightarrow> 'b settled \<times> event list" where
  "kalshiFetch_from attempt pf e path replies =
     (if attempt < 3 then
        (case makeKalshiHeaders pf e attempt ''GET'' (''/trade-api/v2'' @ path) of
           Inl m \<Rightarrow> (Rejected m, [])
         | Inr hdrs \<Rightarrow>
             (case replies attempt of
                FetchThrows m \<Rightarrow> (Rejected m, [Request (KALSHI_BASE @ path) hdrs])
              | Response status body \<Rightarrow>
                  if ok status then (resp_json body, [Request (KALSHI_BASE @ path) hdrs])
                  else if status = 429 \<and> attempt < 2 then
                    (case kalshiFetch_from (attempt + 1) pf e path replies of
                       (r, evs) \<Rightarrow>
                         (r, Request (KALSHI_BASE @ path) hdrs # Sleep (1500 * (attempt + 1)) # evs))
                  else (Rejected (http_error status (KALSHI_BASE @ path)),
                        [Request (KALSHI_BASE @ path) hdrs])))
      else (ResolvedUndefined, []))"
  by pat_completeness auto
termination
  by (relation "measure (\<lambda>(attempt, pf, e, path, replies). 3 - attempt)") auto

declare kalshiFetch_from.simps [simp del]

definition kalshiFetch :: "platform \<Rightarrow> env \<Rightarrow> string \<Rightarrow> (nat \<Rightarrow> 'b attempt) \<Rightarrow> 'b settled \<times> event list" where
  "kalshiFetch pf e path replies = kalshiFetch_from 0 pf e path replies"

section \<open>Configuration\<close>

text \<open>
  A location of \<^verbatim>\<open>CITY_CONFIGS\<close> (lines 215-223).  Latitude and longitude only ever go
  into URLs, so they are kept as the text a template string gives them.
\<close>

record config =
  name :: string
  station :: string
  lat :: string
  lon :: string
  high :: string
  low :: string
  tz :: string

definition CITY_CONFIGS :: "(string \<times> config) list" where
  "CITY_CONFIGS =
    [(''CHI'', \<lparr>name = ''Chicago Midway'', station = ''KMDW'', lat = ''41.78412'', lon = ''-87.75514'',
               high = ''KXHIGHCHI'', low = ''KXLOWTCHI'', tz = ''America/Chicago''\<rparr>),
     (''NYC'', \<lparr>name = ''New York (Central Park)'', station = ''KNYC'', lat = ''40.77898'', lon = ''-73.96925'',
               high = ''KXHIGHNYC'', low = ''KXLOWTNYC'', tz = ''America/New_York''\<rparr>),
     (''MIA'', \<lparr>name = ''Miami'', station = ''KMIA'', lat = ''25.78805'', lon = ''-80.31694'',
               high = ''KXHIGHMIA'', low = ''KXLOWTMIA'', tz = ''America/New_York''\<rparr>),
     (''LAX'', \<lparr>name = ''Los Angeles'', station = ''KLAX'', lat = ''33.93816'', lon = ''-118.3866'',
               high = ''KXHIGHLAX'', low = ''KXLOWTLAX'', tz = ''America/Los_Angeles''\<rparr>),
     (''AUS'', \<lparr>name = ''Austin'', station = ''KAUS'', lat = ''30.18311'', lon = ''-97.67989'',
               high = ''KXHIGHAUS'', low = ''KXLOWTAUS'', tz = ''America/Chicago''\<rparr>),
     (''DEN'', \<lparr>name = ''Denver'', station = ''KDEN'', lat = ''39.84657'', lon = ''-104.65623'',
               high = ''KXHIGHDEN'', low = ''KXLOWTDEN'', tz = ''America/Denver''\<rparr>),
     (''PHIL'', \<lparr>name = ''Philadelphia'', station = ''KPHL'', lat = ''39.87326'', lon = ''-75.22681'',
                high = ''KXHIGHPHI'', low = ''KXLOWTPHI'', tz = ''America/New_York''\<rparr>)]"

definition NWS_HEADERS :: headers where
  "NWS_HEADERS = [(''User-Agent'', ''KalshiWeatherAgent/2.0 (cloudflare-worker)'')]"

section \<open>What the upstream services answer\<close>

text \<open>
  A JSON body read at the type the code expects of it.  \<open>Malformed m\<close> is a body that
  does not have this shape, so that reading it throws a TypeError with the message \<open>m\<close>
  (a missing \<^verbatim>\<open>properties\<close> object, a period without a \<^verbatim>\<open>startTime\<close> string, ...).
\<close>

datatype 'a parsed = WellFormed 'a | Malformed string

text \<open>A period of the hourly forecast.\<close>

record period =
  startTime :: string
  temperature :: rat
  windSpeed :: string
  shortForecast :: string

text \<open>
  The \<^verbatim>\<open>properties\<close> of the latest observation.  For the temperature, \<open>None\<close> is a
  missing (falsy) \<^verbatim>\<open>temperature\<close>, \<open>Some None\<close> a \<^verbatim>\<open>value\<close> of \<^verbatim>\<open>null\<close>, and
  \<open>Some (Some c)\<close> a reading in degrees Celsius; a missing text is \<open>None\<close>.
\<close>

record observation =
  obs_temperature :: "rat option option"
  textDescription :: "string option"
  timestamp :: "string option"

text \<open>A market of the events listing; \<open>None\<close> is a property that is not there.\<close>

record market =
  m_ticker :: string
  m_title :: "string option"
  m_yes_sub_title :: "string option"
  m_no_sub_title :: "string option"
  m_close_time :: "json option"
  m_yes_bid :: "json option"
  m_yes_ask :: "json option"
  m_no_bid :: "json option"
  m_no_ask :: "json option"
  m_last_price :: "json option"
  m_volume :: "json option"
  m_open_interest :: "json option"

text \<open>
  The events listing: \<^verbatim>\<open>data.events\<close>, and for each event its \<^verbatim>\<open>markets\<close>; \<open>None\<close> is
  a missing (falsy) list, for which the code takes \<^verbatim>\<open>[]\<close>.
\<close>

type_synonym listing = "market list option list option"

text \<open>
  The replies of each service, by URL and by the number (from 0) of the attempt within
  one call of a fetch helper.
\<close>

record upstream =
  nws_points :: "string \<Rightarrow> nat \<Rightarrow> string parsed attempt"
  nws_hourly :: "string \<Rightarrow> nat \<Rightarrow> period list option parsed attempt"
  nws_latest :: "string \<Rightarrow> nat \<Rightarrow> observation parsed attempt"
  kalshi_events :: "string \<Rightarrow> nat \<Rightarrow> listing parsed attempt"
  kalshi_orderbook :: "string \<Rightarrow> nat \<Rightarrow> json attempt"
  open_meteo :: "string \<Rightarrow> nat \<Rightarrow> json attempt"

text \<open>The TypeError of reading a property of \<^verbatim>\<open>undefined\<close>.\<close>

definition undefined_read :: "string \<Rightarrow> string" where
  "undefined_read k = ''Cannot read properties of undefined (reading '' @ [CHR 0x27] @ k @ [CHR 0x27] @ '')''"

text \<open>
  What the code reads out of a settled fetch: the body at its type, or the message of
  what was thrown on the way (by the fetch helper or by reading the body).
\<close>

definition body_of :: "string \<Rightarrow> 'a parsed settled \<Rightarrow> string + 'a" where
  "body_of k r =
     (case r of
        Rejected m \<Rightarrow> Inl m
      | ResolvedUndefined \<Rightarrow> Inl (undefined_read k)
      | Resolved (Malformed m) \<Rightarrow> Inl m
      | Resolved (WellFormed b) \<Rightarrow> Inr b)"

section \<open>The weather fetcher\<close>

record hourly_record =
  time :: string
  temp_f :: rat
  wind :: string
  desc :: string

text \<open>The object \<^verbatim>\<open>fetchWeather\<close> returns; \<open>None\<close> is \<^verbatim>\<open>null\<close>.\<close>

record weather =
  predicted_high_f :: "rat option"
  predicted_low_f :: "rat option"
  high_hour :: "string option"
  low_hour :: "string option"
  current_temp_f :: "rat option"
  current_desc :: "string option"
  observed_at :: "string option"
  hourly :: "hourly_record list"
  error :: "string option"

text \<open>
  The numbers of JavaScript are IEEE 754 doubles; a finite one is given by its value, a
  rational.  \<open>fl x\<close> is the double nearest to \<open>x\<close>, and of two that are equally near
  the one with the even significand: this is the result of an arithmetic operation whose
  exact result is \<open>x\<close>, as long as it stays in the range of the finite doubles.
  \<open>pow2 k\<close> is the power of 2 with the exponent \<open>k\<close> and \<open>exponent x\<close> the \<open>e\<close> with
  \<open>pow2 e \<le> |x| < pow2 (e + 1)\<close>; a significand has 53 bits, and the doubles below
  \<open>pow2 (- 1022)\<close> are \<open>pow2 (- 1074)\<close> apart.
\<close>

function bit_length :: "int \<Rightarrow> nat" where
  "bit_length n = (if n \<le> 0 then 0 else Suc (bit_length (n div 2)))"
  by pat_completeness auto
termination
  by (relation "measure nat") auto

definition pow2 :: "int \<Rightarrow> rat" where
  "pow2 k = (if 0 \<le> k then 2 ^ nat k else 1 / 2 ^ nat (- k))"

definition exponent :: "rat \<Rightarrow> int" where
  "exponent x =
     (let e = int (bit_length (fst (quotient_of \<bar>x\<bar>))) - int (bit_length (snd (quotient_of \<bar>x\<bar>)))
      in if pow2 e \<le> \<bar>x\<bar> then e else e - 1)"

definition round_even :: "rat \<Rightarrow> int" where
  "round_even q =
     (let n = \<lfloor>q\<rfloor>; r = q - of_int n
      in if r < 1 / 2 then n else if 1 / 2 < r then n + 1 else if even n then n else n + 1)"

definition fl :: "rat \<Rightarrow> rat" where
  "fl x =
     (if x = 0 then 0
      else (let u = pow2 (max (exponent x - 52) (- 1074)) in of_int (round_even (x / u)) * u))"

text \<open>\<^verbatim>\<open>cToF\<close> (line 228): a product, a quotient and a sum, each rounded.\<close>

definition cToF :: "rat \<Rightarrow> rat" where
  "cToF c = fl (fl (fl (c * 9) / 5) + 32)"

text \<open>
  \<^verbatim>\<open>Math.round(x * 10) / 10\<close>: \<^verbatim>\<open>Math.round\<close> gives the nearest integer, the greater
  one for a half, and is exact.
\<close>

definition round1 :: "rat \<Rightarrow> rat" where
  "round1 x = fl (of_int \<lfloor>fl (x * 10) + 1 / 2\<rfloor> / 10)"

text \<open>\<^verbatim>\<open>Math.max(...temps)\<close> and \<^verbatim>\<open>Math.min(...temps)\<close> under the test \<^verbatim>\<open>temps.length > 0\<close>.\<close>

definition max_or_null :: "rat list \<Rightarrow> rat option" where
  "max_or_null temps = (case temps of [] \<Rightarrow> None | t # ts \<Rightarrow> Some (fold max ts t))"

definition min_or_null :: "rat list \<Rightarrow> rat option" where
  "min_or_null temps = (case temps of [] \<Rightarrow> None | t # ts \<Rightarrow> Some (fold min ts t))"

text \<open>\<^verbatim>\<open>!h\<close> for a variable that is \<^verbatim>\<open>null\<close> or a string: the empty string is falsy too.\<close>

definition not_set :: "string option \<Rightarrow> bool" where
  "not_set h = (case h of None \<Rightarrow> True | Some s \<Rightarrow> s = [])"

text \<open>One round of the loop of lines 354-357 on \<open>(highHour, lowHour)\<close>.\<close>

definition hour_step :: "rat option \<Rightarrow> rat option \<Rightarrow> string option \<times> string option \<Rightarrow> period
    \<Rightarrow> string option \<times> string option" where
  "hour_step highF lowF hl p =
     (let highHour = (if Some (temperature p) = highF \<and> not_set (fst hl) then Some (startTime p) else fst hl);
          lowHour = (if Some (temperature p) = lowF \<and> not_set (snd hl) then Some (startTime p) else snd hl)
      in (highHour, lowHour))"

text \<open>\<^verbatim>\<open>x || null\<close> for a string that may be missing.\<close>

definition or_null :: "string option \<Rightarrow> string option" where
  "or_null x = (case x of None \<Rightarrow> None | Some s \<Rightarrow> if s = [] then None else Some s)"

definition points_url :: "config \<Rightarrow> string" where
  "points_url cfg = ''https://api.weather.gov/points/'' @ lat cfg @ '','' @ lon cfg"

definition latest_url :: "config \<Rightarrow> string" where
  "latest_url cfg = ''https://api.weather.gov/stations/'' @ station cfg @ ''/observations/latest''"

text \<open>
  The inner \<^verbatim>\<open>try\<close> of \<^verbatim>\<open>fetchWeather\<close> (lines 366-378):
  \<open>(currentTemp, currentDesc, observedAt)\<close>.  Once \<^verbatim>\<open>props\<close> has been read nothing in the
  block can throw, so the three variables are either all still \<^verbatim>\<open>null\<close> or all assigned.
\<close>

definition current_conditions :: "config \<Rightarrow> upstream \<Rightarrow> rat option \<times> string option \<times> string option" where
  "current_conditions cfg up =
     (case body_of ''properties'' (fst (safeFetch (latest_url cfg) NWS_HEADERS (nws_latest up (latest_url cfg)))) of
        Inl _ \<Rightarrow> (None, None, None)
      | Inr props \<Rightarrow>
          ((case obs_temperature props of
              Some (Some c) \<Rightarrow> Some (round1 (cToF c))
            | _ \<Rightarrow> None),
           or_null (textDescription props),
           or_null (timestamp props)))"

text \<open>The object of the outer \<^verbatim>\<open>catch\<close> (lines 386-393).\<close>

definition failed_weather :: "string \<Rightarrow> weather" where
  "failed_weather m =
     \<lparr>predicted_high_f = None, predicted_low_f = None, high_hour = None, low_hour = None,
      current_temp_f = None, current_desc = None, observed_at = None, hourly = [],
      error = Some m\<rparr>"

text \<open>Lines 359-364: the hourly record of a period.\<close>

definition hourly_of :: "period \<Rightarrow> hourly_record" where
  "hourly_of p = \<lparr>time = startTime p, temp_f = temperature p, wind = windSpeed p, desc = shortForecast p\<rparr>"

text \<open>Line 348: the periods of the target date.\<close>

definition target_periods :: "string \<Rightarrow> period list \<Rightarrow> period list" where
  "target_periods targetDate periods = filter (\<lambda>p. startsWith (startTime p) targetDate) periods"

text \<open>Lines 346-385: from the periods of the forecast on.\<close>

definition weather_of_periods :: "config \<Rightarrow> string \<Rightarrow> upstream \<Rightarrow> period list \<Rightarrow> weather" where
  "weather_of_periods cfg targetDate up periods =
     (let targetPeriods = target_periods targetDate periods;
          temps = map temperature targetPeriods;
          highF = max_or_null temps;
          lowF = min_or_null temps;
          hours = foldl (hour_step highF lowF) (None, None) targetPeriods;
          hourly = map hourly_of targetPeriods;
          current = current_conditions cfg up
      in \<lparr>predicted_high_f = highF, predicted_low_f = lowF,
          high_hour = fst hours, low_hour = snd hours,
          current_temp_f = fst current, current_desc = fst (snd current),
          observed_at = snd (snd current), hourly = hourly, error = None\<rparr>)"

text \<open>\<^verbatim>\<open>fetchWeather\<close> (lines 338-394).\<close>

definition fetchWeather :: "config \<Rightarrow> string \<Rightarrow> upstream \<Rightarrow> weather" where
  "fetchWeather cfg targetDate up =
     (case body_of ''properties'' (fst (safeFetch (points_url cfg) NWS_HEADERS (nws_points up (points_url cfg)))) of
        Inl m \<Rightarrow> failed_weather m
      | Inr hourlyUrl \<Rightarrow>
          (case body_of ''properties'' (fst (safeFetch hourlyUrl NWS_HEADERS (nws_hourly up hourlyUrl))) of
             Inl m \<Rightarrow> failed_weather m
           | Inr periods \<Rightarrow>
               weather_of_periods cfg targetDate up (case periods of None \<Rightarrow> [] | Some ps \<Rightarrow> ps)))"

section \<open>The market fetcher\<close>

text \<open>A contract as \<^verbatim>\<open>fetchMarkets\<close> builds it; an \<open>orderbook\<close> of \<open>None\<close> is \<^verbatim>\<open>null\<close>.\<close>

record contract =
  ticker :: string
  title :: string
  yes_sub_title :: string
  no_sub_title :: string
  close_time :: "json option"
  yes_bid :: "json option"
  yes_ask :: "json option"
  no_bid :: "json option"
  no_ask :: "json option"
  last_price :: "json option"
  volume :: "json option"
  open_interest :: "json option"
  orderbook :: "json option"

text \<open>The object \<^verbatim>\<open>fetchMarkets\<close> returns.\<close>

record series =
  contracts :: "contract list"
  series_error :: "string option"

text \<open>\<^verbatim>\<open>x || ""\<close> for a string that may be missing.\<close>

definition or_empty :: "string option \<Rightarrow> string" where
  "or_empty x = (case x of None \<Rightarrow> [] | Some s \<Rightarrow> s)"

definition contract_of :: "market \<Rightarrow> contract" where
  "contract_of m =
     \<lparr>ticker = m_ticker m, title = or_empty (m_title m),
      yes_sub_title = or_empty (m_yes_sub_title m), no_sub_title = or_empty (m_no_sub_title m),
      close_time = m_close_time m, yes_bid = m_yes_bid m, yes_ask = m_yes_ask m,
      no_bid = m_no_bid m, no_ask = m_no_ask m, last_price = m_last_price m,
      volume = m_volume m, open_interest = m_open_interest m, orderbook = None\<rparr>"

text \<open>The two nested loops of lines 401-418.\<close>

definition list_contracts :: "string \<Rightarrow> listing \<Rightarrow> contract list" where
  "list_contracts tickerDate data =
     concat (map (\<lambda>event. map contract_of
                     (filter (\<lambda>m. str_includes (m_ticker m) tickerDate)
                        (case event of None \<Rightarrow> [] | Some ms \<Rightarrow> ms)))
                (case data of None \<Rightarrow> [] | Some evs \<Rightarrow> evs))"

definition events_path :: "string \<Rightarrow> string" where
  "events_path seriesTicker =
     ''/events?status=open&series_ticker='' @ seriesTicker @ ''&with_nested_markets=true&limit=50''"

definition orderbook_path :: "string \<Rightarrow> string" where
  "orderbook_path t = ''/markets/'' @ t @ ''/orderbook''"

text \<open>The order book of the \<^verbatim>\<open>.catch\<close> of line 427.\<close>

definition failed_orderbook :: "string \<Rightarrow> json" where
  "failed_orderbook m = JObj [(''yes'', JArr []), (''no'', JArr []), (''error'', JStr m)]"

text \<open>
  Lines 425-427: what the \<^verbatim>\<open>.then\<close> and the \<^verbatim>\<open>.catch\<close> make of the settled
  \<^verbatim>\<open>kalshiFetch\<close>; \<^verbatim>\<open>d.orderbook || d\<close> throws when \<^verbatim>\<open>d\<close> is \<^verbatim>\<open>null\<close>, into the
  \<^verbatim>\<open>.catch\<close>.
\<close>

definition orderbook_of :: "json settled \<Rightarrow> json" where
  "orderbook_of r =
     (case r of
        Rejected m \<Rightarrow> failed_orderbook m
      | ResolvedUndefined \<Rightarrow> failed_orderbook (undefined_read ''orderbook'')
      | Resolved d \<Rightarrow>
          (case get_prop d ''orderbook'' of
             Inl m \<Rightarrow> failed_orderbook m
           | Inr None \<Rightarrow> d
           | Inr (Some v) \<Rightarrow> if truthy v then v else d))"

text \<open>The promise of one contract of a batch: \<open>(ticker, ob)\<close>; it never rejects.\<close>

definition orderbook_task :: "platform \<Rightarrow> env \<Rightarrow> upstream \<Rightarrow> contract \<Rightarrow> string \<times> json" where
  "orderbook_task pf e up c =
     (ticker c,
      orderbook_of (fst (kalshiFetch pf e (orderbook_path (ticker c))
                           (kalshi_orderbook up (KALSHI_BASE @ orderbook_path (ticker c))))))"

text \<open>
  Lines 432-433: \<^verbatim>\<open>contracts.find(x => x.ticker === t)\<close> and the assignment to the
  contract found, the first with that ticker.
\<close>

fun set_orderbook :: "string \<Rightarrow> json \<Rightarrow> contract list \<Rightarrow> contract list" where
  "set_orderbook t ob [] = []"
| "set_orderbook t ob (c # cs) =
     (if ticker c = t then c\<lparr>orderbook := Some ob\<rparr> # cs else c # set_orderbook t ob cs)"

text \<open>One batch (lines 422-435), from the index \<open>i\<close>.\<close>

definition run_batch :: "platform \<Rightarrow> env \<Rightarrow> upstream \<Rightarrow> nat \<Rightarrow> contract list \<Rightarrow> contract list" where
  "run_batch pf e up i cs =
     (let batch = take 5 (drop i cs);
          results = map (orderbook_task pf e up) batch
      in foldl (\<lambda>acc r. set_orderbook (fst r) (snd r) acc) cs results)"

text \<open>The loop of lines 421-436, from the value \<open>i\<close> of its counter on.\<close>

function fetch_orderbooks :: "platform \<Rightarrow> env \<Rightarrow> upstream \<Rightarrow> nat \<Rightarrow> contract list \<Rightarrow> contract list" where
  "fetch_orderbooks pf e up i cs =
     (if i < length cs then fetch_orderbooks pf e up (i + 5) (run_batch pf e up i cs) else cs)"
  by pat_completeness auto
termination
proof (relation "measure (\<lambda>(pf, e, up, i, cs). length cs - i)")
  show "wf (measure (\<lambda>(pf, e, up, i, cs). length cs - i))"
    by simp
next
  fix pf :: platform and e :: env and up :: upstream and i :: nat and cs :: "contract list"
  assume less: "i < length cs"
  have one: "length (set_orderbook t ob xs) = length xs" for t ob xs
    by (induction xs) simp_all
  have many: "length (foldl (\<lambda>acc r. set_orderbook (fst r) (snd r) acc) xs rs) = length xs"
    for rs :: "(string \<times> json) list" and xs
    by (induction rs arbitrary: xs) (simp_all add: one)
  have "length (run_batch pf e up i cs) = length cs"
    by (simp add: run_batch_def many)
  with less show "((pf, e, up, i + 5, run_batch pf e up i cs), (pf, e, up, i, cs))
      \<in> measure (\<lambda>(pf, e, up, i, cs). length cs - i)"
    by simp
qed

declare fetch_orderbooks.simps [simp del]

text \<open>\<^verbatim>\<open>fetchMarkets\<close> (lines 396-442).\<close>

definition fetchMarkets :: "platform \<Rightarrow> env \<Rightarrow> string \<Rightarrow> string \<Rightarrow> upstream \<Rightarrow> series" where
  "fetchMarkets pf e seriesTicker targetDate up =
     (let tickerDate = toTickerDate (date_fallback pf) targetDate
      in case body_of ''events''
                (fst (kalshiFetch pf e (events_path seriesTicker)
                        (kalshi_events up (KALSHI_BASE @ events_path seriesTicker)))) of
           Inl m \<Rightarrow> \<lparr>contracts = [], series_error = Some m\<rparr>
         | Inr data \<Rightarrow>
             \<lparr>contracts = fetch_orderbooks pf e up 0 (list_contracts tickerDate data),
              series_error = None\<rparr>)"

section \<open>The ensemble fetcher\<close>

record ensemble =
  high_members :: "json list"
  low_members :: "json list"
  member_count :: nat
  ens_error :: "string option"

definition ensemble_url :: "config \<Rightarrow> string \<Rightarrow> string" where
  "ensemble_url cfg targetDate =
     ''https://ensemble-api.open-meteo.com/v1/ensemble?latitude='' @ lat cfg @ ''&longitude='' @ lon cfg
     @ ''&daily=temperature_2m_max,temperature_2m_min&temperature_unit=fahrenheit&start_date='' @ targetDate
     @ ''&end_date='' @ targetDate @ ''&models=ecmwf_ifs025,gfs_seamless,icon_seamless''"

text \<open>The object of the \<^verbatim>\<open>catch\<close> (line 476).\<close>

definition failed_ensemble :: "string \<Rightarrow> ensemble" where
  "failed_ensemble m = \<lparr>high_members = [], low_members = [], member_count = 0, ens_error = Some m\<rparr>"

text \<open>
  \<^verbatim>\<open>data.daily || {}\<close> as the entries the loop of line 458 visits.  Only an object has
  keys other than indices, and an index starts with neither prefix.
\<close>

definition daily_entries :: "json option \<Rightarrow> (string \<times> json) list" where
  "daily_entries d = (case d of Some (JObj kvs) \<Rightarrow> kvs | _ \<Rightarrow> [])"

text \<open>One round of the loop of lines 458-467 on \<open>(highMembers, lowMembers)\<close>.\<close>

definition member_step :: "json list \<times> json list \<Rightarrow> string \<times> json \<Rightarrow> json list \<times> json list" where
  "member_step acc kv =
     (if fst kv = ''time'' then acc
      else (case snd kv of
              JArr (v # _) \<Rightarrow>
                if v = JNull then acc
                else if startsWith (fst kv) ''temperature_2m_max'' then (fst acc @ [v], snd acc)
                else if startsWith (fst kv) ''temperature_2m_min'' then (fst acc, snd acc @ [v])
                else acc
            | _ \<Rightarrow> acc))"

text \<open>
  \<^verbatim>\<open>fetchEnsemble\<close> (lines 444-478).  It calls \<^verbatim>\<open>fetch\<close> itself, once: of the replies
  of the service it meets the first only.
\<close>

definition fetchEnsemble :: "config \<Rightarrow> string \<Rightarrow> upstream \<Rightarrow> ensemble" where
  "fetchEnsemble cfg targetDate up =
     (case open_meteo up (ensemble_url cfg targetDate) 0 of
        FetchThrows m \<Rightarrow> failed_ensemble m
      | Response status body \<Rightarrow>
          if \<not> ok status then failed_ensemble (''HTTP '' @ dec status)
          else (case body of
                  Inl m \<Rightarrow> failed_ensemble m
                | Inr data \<Rightarrow>
                    (case get_prop data ''daily'' of
                       Inl m \<Rightarrow> failed_ensemble m
                     | Inr daily \<Rightarrow>
                         (let members = foldl member_step ([], []) (daily_entries daily)
                          in \<lparr>high_members = fst members, low_members = snd members,
                              member_count = max (length (fst members)) (length (snd members)),
                              ens_error = None\<rparr>))))"

section \<open>The bundle of one location\<close>

text \<open>An optional property of an object literal: left out when \<^verbatim>\<open>undefined\<close>.\<close>

definition opt_prop :: "string \<Rightarrow> json option \<Rightarrow> (string \<times> json) list" where
  "opt_prop k v = (case v of None \<Rightarrow> [] | Some j \<Rightarrow> [(k, j)])"

definition hourly_json :: "hourly_record \<Rightarrow> json" where
  "hourly_json h =
     JObj [(''time'', JStr (time h)), (''temp_f'', JNum (temp_f h)),
           (''wind'', JStr (wind h)), (''desc'', JStr (desc h))]"

text \<open>The properties of the object \<^verbatim>\<open>fetchWeather\<close> returns, in its order.\<close>

definition weather_props :: "weather \<Rightarrow> (string \<times> json) list" where
  "weather_props w =
     [(''predicted_high_f'', nullable JNum (predicted_high_f w)),
      (''predicted_low_f'', nullable JNum (predicted_low_f w)),
      (''high_hour'', nullable JStr (high_hour w)),
      (''low_hour'', nullable JStr (low_hour w)),
      (''current_temp_f'', nullable JNum (current_temp_f w)),
      (''current_desc'', nullable JStr (current_desc w)),
      (''observed_at'', nullable JStr (observed_at w)),
      (''hourly'', JArr (map hourly_json (hourly w))),
      (''error'', nullable JStr (error w))]"

definition ensemble_json :: "ensemble \<Rightarrow> json" where
  "ensemble_json en =
     JObj [(''high_members'', JArr (high_members en)), (''low_members'', JArr (low_members en)),
           (''member_count'', JNum (of_nat (member_count en))),
           (''error'', nullable JStr (ens_error en))]"

definition contract_json :: "contract \<Rightarrow> json" where
  "contract_json c =
     JObj ([(''ticker'', JStr (ticker c)), (''title'', JStr (title c)),
            (''yes_sub_title'', JStr (yes_sub_title c)), (''no_sub_title'', JStr (no_sub_title c))]
           @ opt_prop ''close_time'' (close_time c)
           @ opt_prop ''yes_bid'' (yes_bid c) @ opt_prop ''yes_ask'' (yes_ask c)
           @ opt_prop ''no_bid'' (no_bid c) @ opt_prop ''no_ask'' (no_ask c)
           @ opt_prop ''last_price'' (last_price c) @ opt_prop ''volume'' (volume c)
           @ opt_prop ''open_interest'' (open_interest c)
           @ [(''orderbook'', nullable (\<lambda>ob. ob) (orderbook c))])"

definition series_props :: "series \<Rightarrow> (string \<times> json) list" where
  "series_props sr =
     [(''contracts'', JArr (map contract_json (contracts sr))),
      (''error'', nullable JStr (series_error sr))]"

text \<open>
  \<^verbatim>\<open>fetchCityBundle\<close> (lines 480-495).  Each of the four fetchers catches what it
  throws, so the \<^verbatim>\<open>Promise.all\<close> always fulfils; the object returned is given as JSON.
  \<^verbatim>\<open>{ ...weather, ensemble }\<close> adds the property \<^verbatim>\<open>ensemble\<close> after those of the weather.
\<close>

definition fetchCityBundle :: "platform \<Rightarrow> env \<Rightarrow> string \<Rightarrow> config \<Rightarrow> string \<Rightarrow> upstream \<Rightarrow> json" where
  "fetchCityBundle pf e code cfg targetDate up =
     (let weather = fetchWeather cfg targetDate up;
          hi = fetchMarkets pf e (high cfg) targetDate up;
          lo = fetchMarkets pf e (low cfg) targetDate up;
          ens = fetchEnsemble cfg targetDate up
      in JObj [(''city_name'', JStr (name cfg)), (''station'', JStr (station cfg)),
               (''weather'', JObj (weather_props weather @ [(''ensemble'', ensemble_json ens)])),
               (''markets'',
                  JObj [(''high'', JObj ((''series_ticker'', JStr (high cfg)) # series_props hi)),
                        (''low'', JObj ((''series_ticker'', JStr (low cfg)) # series_props lo))])])"

section \<open>The request handler\<close>

text \<open>
  A string that comes with the request, as the list of its Unicode code points: the
  \<^verbatim>\<open>cities\<close> parameter may hold any character, and \<^verbatim>\<open>trim\<close> and \<^verbatim>\<open>toUpperCase\<close> act on
  the characters outside ASCII too.  (A surrogate pair of the JavaScript string is one
  code point, an unpaired surrogate is its own.)  \<open>ascii s\<close> is the string of an ASCII
  text \<open>s\<close>.
\<close>

type_synonym ustring = "int list"

definition ascii :: "string \<Rightarrow> ustring" where
  "ascii s = map of_char s"

text \<open>\<^verbatim>\<open>s.split(",")\<close>: the pieces between the separators; one piece when there is none.\<close>

fun split_on :: "'a \<Rightarrow> 'a list \<Rightarrow> 'a list list" where
  "split_on sep [] = [[]]"
| "split_on sep (c # cs) =
     (if c = sep then [] # split_on sep cs
      else (case split_on sep cs of w # ws \<Rightarrow> (c # w) # ws | [] \<Rightarrow> [[c]]))"

text \<open>
  The code points \<^verbatim>\<open>trim\<close> removes from both ends, which are the white space and the
  line terminators of ECMAScript: TAB, LF, VT, FF, CR, space, U+00A0, U+1680, U+2000 to
  U+200A, U+2028, U+2029, U+202F, U+205F, U+3000 and U+FEFF.
\<close>

definition is_space :: "int \<Rightarrow> bool" where
  "is_space c =
     (c \<in> {0x9, 0xA, 0xB, 0xC, 0xD, 0x20, 0xA0, 0x1680, 0x2028, 0x2029, 0x202F, 0x205F, 0x3000, 0xFEFF}
      \<or> (0x2000 \<le> c \<and> c \<le> 0x200A))"

definition trim :: "ustring \<Rightarrow> ustring" where
  "trim s = rev (dropWhile is_space (rev (dropWhile is_space s)))"

text \<open>
  \<^verbatim>\<open>toUpperCase\<close> replaces every code point by its upper-case mapping in the Unicode
  tables, whatever stands around it; a mapping is one code point or several (\<^verbatim>\<open>SS\<close> for
  U+00DF).  Within ASCII the letters \<^verbatim>\<open>a\<close> to \<^verbatim>\<open>z\<close> map to \<^verbatim>\<open>A\<close> to \<^verbatim>\<open>Z\<close> and every
  other code point to itself.  The mappings of the code points from U+0080 on are those
  of the engine's tables, the parameter \<open>uc\<close>.
\<close>

definition upper_point :: "(int \<Rightarrow> int list) \<Rightarrow> int \<Rightarrow> int list" where
  "upper_point uc c = (if 0x61 \<le> c \<and> c \<le> 0x7A then [c - 0x20] else if c < 0x80 then [c] else uc c)"

definition toUpperCase :: "(int \<Rightarrow> int list) \<Rightarrow> ustring \<Rightarrow> ustring" where
  "toUpperCase uc s = concat (map (upper_point uc) s)"

text \<open>
  The test \<^verbatim>\<open>c in CITY_CONFIGS\<close> of line 520, with the key that \<open>c\<close> is.  The test holds of
  the seven keys and of the names an object inherits (\<^verbatim>\<open>constructor\<close>, \<^verbatim>\<open>toString\<close>, ...);
  each of those has a lower-case letter of ASCII, which no upper-case mapping of Unicode
  gives, and \<open>c\<close> has been put in upper case: so the test is that \<open>c\<close> is a key.
\<close>

definition own_key :: "ustring \<Rightarrow> string option" where
  "own_key c = find (\<lambda>k. ascii k = c) (map fst CITY_CONFIGS)"

text \<open>
  Line 520: the parameter is cut at the commas, each piece is trimmed and put in upper
  case, and the pieces that are keys are kept.
\<close>

definition parse_codes :: "(int \<Rightarrow> int list) \<Rightarrow> ustring \<Rightarrow> string list" where
  "parse_codes uc citiesParam =
     List.map_filter own_key (map (\<lambda>c. toUpperCase uc (trim c)) (split_on 0x2C citiesParam))"

text \<open>
  Lines 517-526: the codes of the request, \<open>None\<close> when the answer is the 400 of line 522.
  \<^verbatim>\<open>if (citiesParam)\<close> is false of a parameter that is missing and of one that is empty.
\<close>

definition requested_codes :: "(int \<Rightarrow> int list) \<Rightarrow> ustring option \<Rightarrow> string list option" where
  "requested_codes uc citiesParam =
     (case citiesParam of
        None \<Rightarrow> Some (map fst CITY_CONFIGS)
      | Some s \<Rightarrow>
          if s \<noteq> [] then (if parse_codes uc s = [] then None else Some (parse_codes uc s))
          else Some (map fst CITY_CONFIGS))"

text \<open>\<^verbatim>\<open>CITY_CONFIGS[c]\<close> for each code; every code that gets here is a key.\<close>

definition lookup_configs :: "string list \<Rightarrow> (string \<times> config) list" where
  "lookup_configs codes =
     concat (map (\<lambda>c. case map_of CITY_CONFIGS c of None \<Rightarrow> [] | Some cfg \<Rightarrow> [(c, cfg)]) codes)"

text \<open>
  What one call of the orchestrator comes to: it throws a value whose \<^verbatim>\<open>message\<close> is
  the string given (\<open>None\<close>: it has none), or it returns a bundle.
\<close>

datatype outcome = Throws "string option" | Returns json

text \<open>
  The loop of lines 529-537.  The orchestrator is a parameter \<open>orch\<close>: a call reads the
  world \<open>w\<close> (the services, at that moment) and leaves it changed.
\<close>

fun orchestrate :: "(env \<Rightarrow> string \<Rightarrow> config \<Rightarrow> string \<Rightarrow> 'w \<Rightarrow> outcome \<times> 'w) \<Rightarrow> env \<Rightarrow> string
    \<Rightarrow> (string \<times> config) list \<Rightarrow> 'w \<Rightarrow> outcome list \<times> 'w" where
  "orchestrate orch e targetDate [] w = ([], w)"
| "orchestrate orch e targetDate (cc # ccs) w =
     (case orch e (fst cc) (snd cc) targetDate w of
        (r, w') \<Rightarrow>
          (case orchestrate orch e targetDate ccs w' of (rs, w'') \<Rightarrow> (r # rs, w'')))"

text \<open>\<^verbatim>\<open>reason?.message || "Unknown error"\<close>.\<close>

definition reason_message :: "string option \<Rightarrow> string" where
  "reason_message m = (case m of None \<Rightarrow> ''Unknown error'' | Some s \<Rightarrow> if s = [] then ''Unknown error'' else s)"

text \<open>The bundle of lines 547-551.\<close>

definition placeholder_bundle :: "config \<Rightarrow> string \<Rightarrow> json" where
  "placeholder_bundle cfg msg =
     JObj [(''city_name'', JStr (name cfg)),
           (''weather'', JObj [(''error'', JStr msg)]),
           (''markets'', JObj [(''high'', JObj [(''contracts'', JArr [])]),
                               (''low'', JObj [(''contracts'', JArr [])])])]"

text \<open>One round of the loop of lines 541-553 on \<open>(cities, errors)\<close>.\<close>

definition collect_step :: "(string \<times> json) list \<times> json list \<Rightarrow> (string \<times> config) \<times> outcome
    \<Rightarrow> (string \<times> json) list \<times> json list" where
  "collect_step acc cr =
     (case snd cr of
        Returns v \<Rightarrow> (set_prop (fst acc) (fst (fst cr)) v, snd acc)
      | Throws reason \<Rightarrow>
          (set_prop (fst acc) (fst (fst cr)) (placeholder_bundle (snd (fst cr)) (reason_message reason)),
           snd acc @ [JObj [(''city'', JStr (fst (fst cr))), (''error'', JStr (reason_message reason))]]))"

text \<open>
  A request: its path and its two query parameters, \<open>None\<close> for one that is missing.
  The date is a text of the model: only a string of ten ASCII characters passes the
  pattern of line 513.
\<close>

record request =
  pathname :: string
  date_param :: "string option"
  cities_param :: "ustring option"

record response =
  resp_status :: nat
  resp_body :: json

text \<open>Lines 528-555: the answer to a request whose date and codes have passed.\<close>

definition bundle_response :: "(env \<Rightarrow> string \<Rightarrow> config \<Rightarrow> string \<Rightarrow> 'w \<Rightarrow> outcome \<times> 'w) \<Rightarrow> env \<Rightarrow> string
    \<Rightarrow> string \<Rightarrow> string list \<Rightarrow> 'w \<Rightarrow> response \<times> 'w" where
  "bundle_response orch e now targetDate codes w =
     (case orchestrate orch e targetDate (lookup_configs codes) w of
        (results, w') \<Rightarrow>
          (let collected = foldl collect_step ([], []) (zip (lookup_configs codes) results)
           in (\<lparr>resp_status = 200,
                resp_body = JObj [(''generated_at'', JStr now), (''target_date'', JStr targetDate),
                                  (''cities'', JObj (fst collected)), (''errors'', JArr (snd collected))]\<rparr>,
               w')))"

text \<open>
  The handler \<^verbatim>\<open>fetch\<close> of the default export (lines 502-559); \<open>now\<close> is
  \<^verbatim>\<open>new Date().toISOString()\<close> and \<open>uc\<close> the upper-case mappings of the engine.
\<close>

definition fetch_handler :: "(int \<Rightarrow> int list) \<Rightarrow> (env \<Rightarrow> string \<Rightarrow> config \<Rightarrow> string \<Rightarrow> 'w \<Rightarrow> outcome \<times> 'w)
    \<Rightarrow> env \<Rightarrow> string \<Rightarrow> request \<Rightarrow> 'w \<Rightarrow> response \<times> 'w" where
  "fetch_handler uc orch e now req w =
     (if pathname req = ''/health'' then
        (\<lparr>resp_status = 200,
          resp_body = JObj [(''status'', JStr ''ok''),
                            (''authenticated'',
                               JBool (or_empty (KALSHI_API_KEY_ID e) \<noteq> [] \<and> or_empty (KALSHI_PRIVATE_KEY e) \<noteq> [])),
                            (''cities'', JArr (map (\<lambda>c. JStr (fst c)) CITY_CONFIGS))]\<rparr>, w)
      else if pathname req = ''/bundle'' then
        (if or_empty (date_param req) = [] \<or> \<not> matches_date_regex (or_empty (date_param req)) then
           (\<lparr>resp_status = 400,
             resp_body = JObj [(''error'', JStr ''date param required (YYYY-MM-DD)'')]\<rparr>, w)
         else
           (case requested_codes uc (cities_param req) of
              None \<Rightarrow>
                (\<lparr>resp_status = 400,
                  resp_body = JObj [(''error'', JStr ''No valid cities''),
                                    (''available'', JArr (map (\<lambda>c. JStr (fst c)) CITY_CONFIGS))]\<rparr>, w)
            | Some codes \<Rightarrow> bundle_response orch e now (or_empty (date_param req)) codes w))
      else
        (\<lparr>resp_status = 404,
          resp_body = JObj [(''error'', JStr ''Use /bundle?date=YYYY-MM-DD or /health'')]\<rparr>, w))"

text \<open>
  The worker: the handler with \<^verbatim>\<open>fetchCityBundle\<close> for its orchestrator, against
  services that answer as \<open>up\<close> says.
\<close>

definition worker :: "platform \<Rightarrow> upstream \<Rightarrow> env \<Rightarrow> string \<Rightarrow> request \<Rightarrow> response" where
  "worker pf up e now req =
     fst (fetch_handler (upper_case pf)
            (\<lambda>e' code cfg targetDate w. (Returns (fetchCityBundle pf e' code cfg targetDate up), w))
            e now req ())"

section \<open>Shapes and sample inputs\<close>

text \<open>
  The shape of a ticker-date token: two digits, one of the twelve month abbreviations,
  two digits.
\<close>

definition yymmmdd_form :: "string \<Rightarrow> bool" where
  "yymmmdd_form t =
     (length t = 7 \<and> is_digit (t ! 0) \<and> is_digit (t ! 1) \<and> take 3 (drop 2 t) \<in> set months \<and>
      is_digit (t ! 5) \<and> is_digit (t ! 6))"

text \<open>An engine whose fallback parser reads no date at all.\<close>

definition no_fallback :: "string \<Rightarrow> js_date" where
  "no_fallback s = InvalidDate"

text \<open>
  Upper-case mappings of some code points outside ASCII, as Unicode has them: U+00DF
  (sharp s) to \<^verbatim>\<open>SS\<close>, U+00E9 (e with acute) to U+00C9, U+0131 (dotless i) to \<^verbatim>\<open>I\<close>
  and U+017F (long s) to \<^verbatim>\<open>S\<close>; every other code point is left as it is.
\<close>

definition sample_cases :: "int \<Rightarrow> int list" where
  "sample_cases c =
     (if c = 0xDF then [0x53, 0x53] else if c = 0xE9 then [0xC9] else if c = 0x131 then [0x49]
      else if c = 0x17F then [0x53] else [c])"

text \<open>A configured environment, and a runtime whose key import and signing succeed.\<close>

definition sample_env :: env where
  "sample_env = \<lparr>KALSHI_API_KEY_ID = Some ''key-id'', KALSHI_PRIVATE_KEY = Some ''pem''\<rparr>"

definition sample_platform :: platform where
  "sample_platform =
     \<lparr>atob_throws = (\<lambda>pem. None), importKey_accepts = (\<lambda>pem. True),
      sign_base64 = (\<lambda>k key msg. ''c2ln''), now_ms = (\<lambda>k. 1771156800000 + k),
      date_fallback = no_fallback, upper_case = sample_cases\<rparr>"

text \<open>
  The letters \<^verbatim>\<open>a\<close> to \<^verbatim>\<open>z\<close> of ASCII put in upper case, every other code point kept:
  two strings with the same image differ in the case of ASCII letters only.
\<close>

definition ascii_upper :: "int \<Rightarrow> int" where
  "ascii_upper c = (if 0x61 \<le> c \<and> c \<le> 0x7A then c - 0x20 else c)"

text \<open>
  A string \<^verbatim>\<open>YYYY-MM-DD\<close> names a day of the calendar: its month is 01 to 12 and its
  day is from 01 to the number of days of that month.
\<close>

definition calendar_date :: "string \<Rightarrow> bool" where
  "calendar_date s =
     (1 \<le> iso_month s \<and> iso_month s \<le> 12 \<and> 1 \<le> iso_day s \<and> iso_day s \<le> days_in_month (iso_year s) (iso_month s))"

text \<open>An orchestrator that returns the code and the date it was called with.\<close>

definition echo_orch :: "env \<Rightarrow> string \<Rightarrow> config \<Rightarrow> string \<Rightarrow> unit \<Rightarrow> outcome \<times> unit" where
  "echo_orch e code cfg targetDate w = (Returns (JStr (code @ '' '' @ targetDate)), w)"

text \<open>Services that cannot be reached.\<close>

definition offline :: upstream where
  "offline =
     \<lparr>nws_points = (\<lambda>url k. FetchThrows ''offline''), nws_hourly = (\<lambda>url k. FetchThrows ''offline''),
      nws_latest = (\<lambda>url k. FetchThrows ''offline''), kalshi_events = (\<lambda>url k. FetchThrows ''offline''),
      kalshi_orderbook = (\<lambda>url k. FetchThrows ''offline''), open_meteo = (\<lambda>url k. FetchThrows ''offline'')\<rparr>"

text \<open>
  Reading the events of a fetch helper: the requests among them, the delay they add up
  to, and whether an attempt met the status 429.
\<close>

definition is_request :: "event \<Rightarrow> bool" where
  "is_request ev = (case ev of Request _ _ \<Rightarrow> True | Sleep _ \<Rightarrow> False)"

fun slept :: "event list \<Rightarrow> nat" where
  "slept [] = 0"
| "slept (Request _ _ # evs) = slept evs"
| "slept (Sleep ms # evs) = ms + slept evs"

definition is_429 :: "'b attempt \<Rightarrow> bool" where
  "is_429 a = (case a of Response status _ \<Rightarrow> status = 429 | FetchThrows _ \<Rightarrow> False)"

text \<open>
  The events of \<open>k\<close> attempts that each met a 429 and were followed by their delay; the
  headers of the attempt \<open>j\<close> are \<open>hdrs j\<close>.
\<close>

definition retries :: "string \<Rightarrow> (nat \<Rightarrow> headers) \<Rightarrow> nat \<Rightarrow> event list" where
  "retries url hdrs k = concat (map (\<lambda>j. [Request url (hdrs j), Sleep (1500 * (j + 1))]) [0..<k])"

text \<open>Replies of a service that limits the rate once and then answers with an empty object.\<close>

definition limited_once :: "nat \<Rightarrow> json attempt" where
  "limited_once k = (if k = 0 then Response 429 (Inl ''Too Many Requests'') else Response 200 (Inr (JObj [])))"

text \<open>Replies of a service that limits the rate at every attempt, and of one that fails.\<close>

definition always_limited :: "nat \<Rightarrow> json attempt" where
  "always_limited k = Response 429 (Inl ''Too Many Requests'')"

definition server_error :: "nat \<Rightarrow> json attempt" where
  "server_error k = Response 500 (Inl ''Internal Server Error'')"

text \<open>
  A forecast for Chicago around 15 February 2026: the weather service answers at once,
  with three periods of the 15th, one of the 16th and an observation of 21.5 degrees
  Celsius.
\<close>

definition chicago :: config where
  "chicago = \<lparr>name = ''Chicago Midway'', station = ''KMDW'', lat = ''41.78412'', lon = ''-87.75514'',
               high = ''KXHIGHCHI'', low = ''KXLOWTCHI'', tz = ''America/Chicago''\<rparr>"

definition sample_periods :: "period list" where
  "sample_periods =
     [\<lparr>startTime = ''2026-02-15T06:00:00-06:00'', temperature = 30, windSpeed = ''5 mph'', shortForecast = ''Sunny''\<rparr>,
      \<lparr>startTime = ''2026-02-15T14:00:00-06:00'', temperature = 35, windSpeed = ''10 mph'', shortForecast = ''Sunny''\<rparr>,
      \<lparr>startTime = ''2026-02-15T15:00:00-06:00'', temperature = 35, windSpeed = ''10 mph'', shortForecast = ''Cloudy''\<rparr>,
      \<lparr>startTime = ''2026-02-16T00:00:00-06:00'', temperature = 50, windSpeed = ''5 mph'', shortForecast = ''Clear''\<rparr>]"

definition fair_weather :: upstream where
  "fair_weather =
     offline
       \<lparr>nws_points := (\<lambda>url k. Response 200 (Inr (WellFormed ''https://api.weather.gov/gridpoints/LOT/73,68/forecast/hourly''))),
        nws_hourly := (\<lambda>url k. Response 200 (Inr (WellFormed (Some sample_periods)))),
        nws_latest := (\<lambda>url k. Response 200 (Inr (WellFormed
            \<lparr>obs_temperature = Some (Some (43 / 2)), textDescription = Some ''Clear'',
             timestamp = Some ''2026-02-14T15:53:00+00:00''\<rparr>)))\<rparr>"

text \<open>The same, with an observation station that answers 503.\<close>

definition no_observation :: upstream where
  "no_observation = fair_weather \<lparr>nws_latest := (\<lambda>url k. Response 503 (Inl ''Service Unavailable''))\<rparr>"

text \<open>Reading a value out of nested objects, along a path of keys.\<close>

definition at_path :: "json \<Rightarrow> string list \<Rightarrow> json option" where
  "at_path j ks = foldl (\<lambda>v k. case v of None \<Rightarrow> None | Some w \<Rightarrow> field w k) (Some j) ks"

text \<open>An orchestrator that throws at every call.\<close>

definition failing_orch :: "env \<Rightarrow> string \<Rightarrow> config \<Rightarrow> string \<Rightarrow> unit \<Rightarrow> outcome \<times> unit" where
  "failing_orch e code cfg targetDate w = (Throws (Some ''boom''), w)"





text \<open>
  The order book that the fetch for the ticker \<open>t\<close> settles to (the second component of
  \<open>orderbook_task\<close>, which reads nothing of the contract but its ticker), and a contract
  with that order book for its own ticker.
\<close>

definition settled_orderbook :: "platform \<Rightarrow> env \<Rightarrow> upstream \<Rightarrow> string \<Rightarrow> json" where
  "settled_orderbook pf e up t =
     orderbook_of (fst (kalshiFetch pf e (orderbook_path t) (kalshi_orderbook up (KALSHI_BASE @ orderbook_path t))))"

definition with_orderbook :: "platform \<Rightarrow> env \<Rightarrow> upstream \<Rightarrow> contract \<Rightarrow> contract" where
  "with_orderbook pf e up c = c\<lparr>orderbook := Some (settled_orderbook pf e up (ticker c))\<rparr>"

text \<open>
  An exchange that lists two markets of 15 February 2026 and has the order book of the
  first but answers 500 for the second; and one that lists the first market twice.
\<close>

definition sample_market :: "string \<Rightarrow> market" where
  "sample_market t =
     \<lparr>m_ticker = t, m_title = Some ''Highest temperature in Chicago'', m_yes_sub_title = None,
      m_no_sub_title = None, m_close_time = Some (JStr ''2026-02-16T05:59:00Z''),
      m_yes_bid = Some (JNum 41), m_yes_ask = Some (JNum 44), m_no_bid = Some (JNum 56),
      m_no_ask = Some (JNum 59), m_last_price = Some (JNum 42), m_volume = Some (JNum 120),
      m_open_interest = Some (JNum 75)\<rparr>"

definition sample_book :: json where
  "sample_book = JObj [(''orderbook'', JObj [(''yes'', JArr [JArr [JNum 41, JNum 10]]), (''no'', JArr [])])]"

definition one_book_down :: upstream where
  "one_book_down =
     offline
       \<lparr>kalshi_events := (\<lambda>url k. Response 200 (Inr (WellFormed
           (Some [Some [sample_market ''KXHIGHCHI-26FEB15-T40'', sample_market ''KXHIGHCHI-26FEB15-T45'']])))),
        kalshi_orderbook := (\<lambda>url k.
           if url = KALSHI_BASE @ orderbook_path ''KXHIGHCHI-26FEB15-T45''
           then Response 500 (Inl ''Internal Server Error'') else Response 200 (Inr sample_book))\<rparr>"

definition listed_twice :: upstream where
  "listed_twice =
     offline
       \<lparr>kalshi_events := (\<lambda>url k. Response 200 (Inr (WellFormed
           (Some [Some [sample_market ''KXHIGHCHI-26FEB15-T40''], Some [sample_market ''KXHIGHCHI-26FEB15-T40'']])))),
        kalshi_orderbook := (\<lambda>url k. Response 200 (Inr sample_book))\<rparr>"

text \<open>
  What the handler makes of one location and the outcome of its orchestration: the
  bundle it puts under the code, and what it adds to \<^verbatim>\<open>errors\<close>.
\<close>

definition bundle_of :: "(string \<times> config) \<times> outcome \<Rightarrow> json" where
  "bundle_of cr =
     (case snd cr of
        Returns v \<Rightarrow> v
      | Throws reason \<Rightarrow> placeholder_bundle (snd (fst cr)) (reason_message reason))"

definition errors_of :: "(string \<times> config) \<times> outcome \<Rightarrow> json list" where
  "errors_of cr =
     (case snd cr of
        Returns v \<Rightarrow> []
      | Throws reason \<Rightarrow> [JObj [(''city'', JStr (fst (fst cr))), (''error'', JStr (reason_message reason))]])"

text \<open>
  An orchestrator that throws for New York and returns for every other location; and
  one whose first call throws and whose later calls return (the world counts the calls).
\<close>

definition nyc_down_orch :: "env \<Rightarrow> string \<Rightarrow> config \<Rightarrow> string \<Rightarrow> unit \<Rightarrow> outcome \<times> unit" where
  "nyc_down_orch e code cfg targetDate w =
     (if code = ''NYC'' then Throws (Some ''upstream exploded'') else Returns (JStr (code @ '' '' @ targetDate)), w)"

definition first_call_fails :: "env \<Rightarrow> string \<Rightarrow> config \<Rightarrow> string \<Rightarrow> nat \<Rightarrow> outcome \<times> nat" where
  "first_call_fails e code cfg targetDate w =
     (if w = 0 then Throws (Some ''boom'') else Returns (JStr (code @ '' '' @ targetDate)), w + 1)"

text \<open>The tickers of all the markets of an events listing, in order.\<close>

definition listed_tickers :: "listing \<Rightarrow> string list" where
  "listed_tickers data =
     concat (map (\<lambda>event. map m_ticker (case event of None \<Rightarrow> [] | Some ms \<Rightarrow> ms))
                (case data of None \<Rightarrow> [] | Some evs \<Rightarrow> evs))"

text \<open>
  An exchange that lists a market of 28 February and one of 2 March 2026 and whose order
  books cannot be reached.
\<close>

definition march_listing :: upstream where
  "march_listing =
     offline
       \<lparr>kalshi_events := (\<lambda>url k. Response 200 (Inr (WellFormed
           (Some [Some [sample_market ''KXHIGHCHI-26FEB28-T40'', sample_market ''KXHIGHCHI-26MAR02-T40'']]))))\<rparr>"


section \<open>Decimal digits\<close>

lemma digit_roundtrip: "is_digit c \<Longrightarrow> digit_char (digit_val c) = c \<and> digit_val c < 10"
  by (auto simp: is_digit_def digit_val_def digit_char_def)

lemma is_digit_digit_char: "is_digit (digit_char n)"
proof -
  have "k < 10 \<Longrightarrow> k = 0 \<or> k = 1 \<or> k = 2 \<or> k = 3 \<or> k = 4 \<or> k = 5 \<or> k = 6 \<or> k = 7 \<or> k = 8 \<or> k = 9"
    for k :: nat by arith
  from this [of "n mod 10"] show ?thesis
    by (auto simp: is_digit_def digit_char_def)
qed

lemma dec_small: "n < 10 \<Longrightarrow> dec n = [digit_char n]"
  by (simp add: dec.simps)

lemma dec_last: "dec n \<noteq> [] \<and> last (dec n) = digit_char (n mod 10)"
  by (subst (1 2) dec.simps) (auto simp: digit_char_def)

lemma dec_large: "10 \<le> n \<Longrightarrow> dec n = dec (n div 10) @ [digit_char (n mod 10)]"
  by (subst dec.simps) simp

lemma slice_last2_dec:
  assumes "10 \<le> n"
  shows "slice_last2 (dec n) = [digit_char (n div 10 mod 10), digit_char (n mod 10)]"
proof -
  obtain xs where xs: "dec (n div 10) = xs @ [digit_char (n div 10 mod 10)]"
    using dec_last [of "n div 10"] by (metis append_butlast_last_id)
  show ?thesis
    by (simp add: dec_large [OF assms] xs slice_last2_def)
qed

lemma padStart2_dec:
  assumes "n < 100"
  shows "padStart2 (dec n) = [digit_char (n div 10), digit_char (n mod 10)]"
proof (cases "n < 10")
  case True
  then show ?thesis by (simp add: dec_small padStart2_def digit_char_def)
next
  case False
  with assms have "n div 10 < 10" by simp
  with False show ?thesis
    by (simp add: dec_large dec_small padStart2_def)
qed

section \<open>The ticker-date token of a date string\<close>

lemma regex_shape:
  assumes "matches_date_regex s"
  obtains a b c d e f g h where "s = [a, b, c, d, CHR ''-'', e, f, CHR ''-'', g, h]"
    and "is_digit a" "is_digit b" "is_digit c" "is_digit d" "is_digit e" "is_digit f" "is_digit g" "is_digit h"
proof -
  from assms have len: "length s = 10" by (simp add: matches_date_regex_def)
  then obtain a b c d x e f y g h where s: "s = [a, b, c, d, x, e, f, y, g, h]"
    by (auto simp: numeral_eq_Suc length_Suc_conv)
  with assms show thesis
    by (intro that [of a b c d e f g h]) (simp_all add: matches_date_regex_def)
qed

lemma new_Date_iso:
  assumes "matches_date_regex s"
  shows "new_Date engine (s @ ''T12:00:00Z'') =
     (if 1 \<le> iso_month s \<and> iso_month s \<le> 12 \<and> 1 \<le> iso_day s \<and> iso_day s \<le> 31
      then make_day (iso_year s) (iso_month s) (iso_day s) else InvalidDate)"
proof -
  from assms have len: "length s = 10" by (simp add: matches_date_regex_def)
  then show ?thesis
    using assms by (simp add: new_Date_def iso_year_def iso_month_def iso_day_def)
qed

lemma toTickerDate_invalid:
  assumes "matches_date_regex s"
    and "\<not> (1 \<le> iso_month s \<and> iso_month s \<le> 12 \<and> 1 \<le> iso_day s \<and> iso_day s \<le> 31)"
  shows "toTickerDate engine s = ''aNundefinedNaN''"
proof -
  from assms(2) new_Date_iso [OF assms(1), of engine]
  have "new_Date engine (s @ ''T12:00:00Z'') = InvalidDate" by auto
  then show ?thesis
    by (simp add: toTickerDate_def slice_last2_def padStart2_def)
qed

lemma month_name: "i < 12 \<Longrightarrow> months ! i \<in> set months \<and> length (months ! i) = 3"
proof -
  assume "i < 12"
  then have "i = 0 \<or> i = 1 \<or> i = 2 \<or> i = 3 \<or> i = 4 \<or> i = 5 \<or> i = 6 \<or> i = 7 \<or> i = 8 \<or> i = 9
      \<or> i = 10 \<or> i = 11" by arith
  then show ?thesis by (auto simp: months_def)
qed

lemma length_months: "length months = 12"
  by (simp add: months_def)

lemma toTickerDate_accepted:
  assumes re: "matches_date_regex s"
    and m: "1 \<le> iso_month s" "iso_month s \<le> 12" and d: "1 \<le> iso_day s" "iso_day s \<le> 31"
    and y: "10 \<le> iso_year s"
  shows "\<exists>i n. i < 12 \<and> n < 100 \<and>
     toTickerDate engine s =
       [digit_char (iso_year s div 10 mod 10), digit_char (iso_year s mod 10)] @ months ! i
       @ [digit_char (n div 10), digit_char (n mod 10)] \<and>
     (iso_day s \<le> days_in_month (iso_year s) (iso_month s) \<longrightarrow> i = iso_month s - 1 \<and> n = iso_day s)"
proof (cases "iso_day s \<le> days_in_month (iso_year s) (iso_month s)")
  case True
  from m have m1: "iso_month s - 1 < 12" by simp
  have "toTickerDate engine s =
       [digit_char (iso_year s div 10 mod 10), digit_char (iso_year s mod 10)] @ months ! (iso_month s - 1)
       @ [digit_char (iso_day s div 10), digit_char (iso_day s mod 10)]"
    using m d y True m1
    by (simp add: toTickerDate_def new_Date_iso [OF re] make_day_def String_int_def slice_last2_dec
        padStart2_dec length_months)
  with m d True show ?thesis
    by (intro exI [of _ "iso_month s - 1"] exI [of _ "iso_day s"]) simp
next
  case False
  with d have dim: "days_in_month (iso_year s) (iso_month s) < 31" by simp
  then have m11: "iso_month s < 12"
    by (auto simp: days_in_month_def split: if_splits)
  have "toTickerDate engine s =
       [digit_char (iso_year s div 10 mod 10), digit_char (iso_year s mod 10)] @ months ! (iso_month s)
       @ [digit_char ((iso_day s - days_in_month (iso_year s) (iso_month s)) div 10),
          digit_char ((iso_day s - days_in_month (iso_year s) (iso_month s)) mod 10)]"
    using m d y False m11
    by (simp add: toTickerDate_def new_Date_iso [OF re] make_day_def String_int_def slice_last2_dec
        padStart2_dec length_months)
  with m11 d False show ?thesis
    by (intro exI [of _ "iso_month s"] exI [of _ "iso_day s - days_in_month (iso_year s) (iso_month s)"]) simp
qed

lemma own_digits:
  assumes "matches_date_regex s"
  shows "digit_char (iso_year s div 10 mod 10) = s ! 2 \<and> digit_char (iso_year s mod 10) = s ! 3 \<and>
         digit_char (iso_day s div 10) = s ! 8 \<and> digit_char (iso_day s mod 10) = s ! 9"
proof -
  from assms obtain a b c d e f g h where s: "s = [a, b, c, d, CHR ''-'', e, f, CHR ''-'', g, h]"
    and dg: "is_digit a" "is_digit b" "is_digit c" "is_digit d" "is_digit g" "is_digit h"
    by (rule regex_shape)
  note r = dg [THEN digit_roundtrip]
  have y: "iso_year s = 1000 * digit_val a + 100 * digit_val b + 10 * digit_val c + digit_val d"
    by (simp add: s iso_year_def num_of_def)
  have dd: "iso_day s = 10 * digit_val g + digit_val h"
    by (simp add: s iso_day_def num_of_def)
  have y': "iso_year s = 10 * (10 * (10 * digit_val a + digit_val b) + digit_val c) + digit_val d"
    unfolding y by simp
  have div10: "(10 * k + j) div 10 = k" and mod10: "(10 * k + j) mod 10 = j" if "j < 10" for k j :: nat
    using that by simp_all
  have "iso_year s div 10 = 10 * (10 * digit_val a + digit_val b) + digit_val c"
    unfolding y' using r by (simp only: div10)
  then have "iso_year s div 10 mod 10 = digit_val c"
    using r by (simp only: mod10)
  moreover have "iso_year s mod 10 = digit_val d"
    unfolding y' using r by (simp only: mod10)
  moreover have "iso_day s div 10 = digit_val g" "iso_day s mod 10 = digit_val h"
    unfolding dd using r by (simp_all only: div10 mod10)
  ultimately have "iso_year s div 10 mod 10 = digit_val c" "iso_year s mod 10 = digit_val d"
    "iso_day s div 10 = digit_val g" "iso_day s mod 10 = digit_val h"
    by simp_all
  with r show ?thesis by (simp add: s)
qed

section \<open>C8: the ticker-date token\<close>

text \<open>
  C8, as it holds of the code.  \<^verbatim>\<open>toTickerDate\<close> returns a string on every input.  On an
  input \<^verbatim>\<open>YYYY-MM-DD\<close> with a month from 01 to 12, a day from 01 to 31 and a year of at
  least 0010 the result has the shape of a token (two digits, a month abbreviation, two
  digits) and is the same whatever the engine's fallback parser does; when the day exists
  in that month the token is made of the last two digits of the year, the abbreviation of
  the month and the two digits of the day, all of the input itself.  The two examples of
  the specification hold.
\<close>

theorem C8_ticker_date:
  assumes re: "matches_date_regex s"
    and m: "1 \<le> iso_month s" "iso_month s \<le> 12" and d: "1 \<le> iso_day s" "iso_day s \<le> 31"
    and y: "10 \<le> iso_year s"
  shows "yymmmdd_form (toTickerDate engine s)
    \<and> toTickerDate engine' s = toTickerDate engine s
    \<and> (iso_day s \<le> days_in_month (iso_year s) (iso_month s) \<longrightarrow>
         toTickerDate engine s = [s ! 2, s ! 3] @ months ! (iso_month s - 1) @ [s ! 8, s ! 9])
    \<and> toTickerDate engine ''2026-02-15'' = ''26FEB15''
    \<and> toTickerDate engine ''2026-12-01'' = ''26DEC01''"
proof -
  from toTickerDate_accepted [OF re m d y, of engine] obtain i n
    where i: "i < 12" and n: "n < 100"
      and eq: "toTickerDate engine s =
        [digit_char (iso_year s div 10 mod 10), digit_char (iso_year s mod 10)] @ months ! i
        @ [digit_char (n div 10), digit_char (n mod 10)]"
      and real: "iso_day s \<le> days_in_month (iso_year s) (iso_month s) \<longrightarrow> i = iso_month s - 1 \<and> n = iso_day s"
    by blast
  have form: "yymmmdd_form (toTickerDate engine s)"
    using month_name [OF i] by (simp add: eq yymmmdd_form_def is_digit_digit_char nth_append)
  have det: "toTickerDate engine' s = toTickerDate engine s"
    by (simp add: toTickerDate_def new_Date_iso [OF re])
  have own: "iso_day s \<le> days_in_month (iso_year s) (iso_month s) \<longrightarrow>
         toTickerDate engine s = [s ! 2, s ! 3] @ months ! (iso_month s - 1) @ [s ! 8, s ! 9]"
    using real own_digits [OF re] by (simp add: eq)
  have ex1: "toTickerDate engine ''2026-02-15'' = ''26FEB15''"
    by code_simp
  have ex2: "toTickerDate engine ''2026-12-01'' = ''26DEC01''"
    by code_simp
  from form det own ex1 ex2 show ?thesis by blast
qed

text \<open>The theorem at \<^verbatim>\<open>2026-02-15\<close>.\<close>

theorem C8_ticker_date_witness:
  "matches_date_regex ''2026-02-15'' \<and> iso_year ''2026-02-15'' = 2026 \<and> iso_month ''2026-02-15'' = 2
   \<and> iso_day ''2026-02-15'' = 15 \<and> days_in_month 2026 2 = 28
   \<and> yymmmdd_form (toTickerDate no_fallback ''2026-02-15'')
   \<and> toTickerDate no_fallback ''2026-02-15'' = ''26'' @ months ! 1 @ ''15''"
proof -
  have re: "matches_date_regex ''2026-02-15''" by code_simp
  have y: "iso_year ''2026-02-15'' = 2026" by code_simp
  have m: "iso_month ''2026-02-15'' = 2" by code_simp
  have d: "iso_day ''2026-02-15'' = 15" by code_simp
  have dim: "days_in_month 2026 2 = 28" by code_simp
  have h: "1 \<le> iso_month ''2026-02-15''" "iso_month ''2026-02-15'' \<le> 12"
    "1 \<le> iso_day ''2026-02-15''" "iso_day ''2026-02-15'' \<le> 31" "10 \<le> iso_year ''2026-02-15''"
    by (simp_all add: y m d)
  note inst = C8_ticker_date [OF re h, of no_fallback no_fallback]
  from inst have form: "yymmmdd_form (toTickerDate no_fallback ''2026-02-15'')"
    by blast
  from inst have "iso_day ''2026-02-15'' \<le> days_in_month (iso_year ''2026-02-15'') (iso_month ''2026-02-15'') \<longrightarrow>
      toTickerDate no_fallback ''2026-02-15'' =
        [''2026-02-15'' ! 2, ''2026-02-15'' ! 3] @ months ! (iso_month ''2026-02-15'' - 1)
        @ [''2026-02-15'' ! 8, ''2026-02-15'' ! 9]"
    by blast
  then have own: "toTickerDate no_fallback ''2026-02-15'' = ''26'' @ months ! 1 @ ''15''"
    by (simp add: y m d dim)
  note form own
  with re y m d dim show ?thesis by blast
qed

text \<open>
  The claim as stated, for every input date string, fails: a string that the date check
  of the handler lets through need not give a token of the shape.  A month 99 gives an
  invalid date, and a year below 0010 gives a year of one digit.
\<close>

theorem C8_counterexample:
  "matches_date_regex ''2026-99-99'' \<and> toTickerDate no_fallback ''2026-99-99'' = ''aNundefinedNaN''
   \<and> \<not> yymmmdd_form (toTickerDate no_fallback ''2026-99-99'')
   \<and> matches_date_regex ''0005-02-15'' \<and> toTickerDate no_fallback ''0005-02-15'' = ''5FEB15''
   \<and> \<not> yymmmdd_form (toTickerDate no_fallback ''0005-02-15'')"
  by code_simp

section \<open>The handler on a date that passes\<close>

lemma regex_nonempty: "matches_date_regex d \<Longrightarrow> d \<noteq> []"
  by (auto simp: matches_date_regex_def)

lemma ascii_inject: "(ascii k = ascii k') = (k = k')"
proof -
  have "inj (of_char :: char \<Rightarrow> int)"
    by (rule injI) simp
  then show ?thesis
    by (simp add: ascii_def inj_map_eq_map)
qed

lemma own_key_iff: "(own_key c = Some k) = (k \<in> set (map fst CITY_CONFIGS) \<and> ascii k = c)"
proof
  assume "own_key c = Some k"
  then show "k \<in> set (map fst CITY_CONFIGS) \<and> ascii k = c"
    unfolding own_key_def find_Some_iff by auto
next
  assume k: "k \<in> set (map fst CITY_CONFIGS) \<and> ascii k = c"
  then have "own_key c \<noteq> None"
    unfolding own_key_def find_None_iff by blast
  then obtain k' where k': "own_key c = Some k'" by blast
  then have "ascii k' = c"
    unfolding own_key_def find_Some_iff by auto
  with k have "k' = k" by (simp add: ascii_inject [symmetric])
  with k' show "own_key c = Some k" by simp
qed

lemma kept_keys:
  "k \<in> set (List.map_filter own_key cs) \<Longrightarrow> k \<in> set (map fst CITY_CONFIGS) \<and> ascii k \<in> set cs"
proof -
  assume "k \<in> set (List.map_filter own_key cs)"
  then obtain c where c: "c \<in> set cs" "own_key c \<noteq> None" "k = the (own_key c)"
    by (auto simp: map_filter_def)
  then have "own_key c = Some k" by auto
  with c(1) show ?thesis by (simp add: own_key_iff)
qed

lemma parse_codes_known: "set (parse_codes uc s) \<subseteq> set (map fst CITY_CONFIGS)"
  unfolding parse_codes_def using kept_keys by blast

lemma handler_bundle:
  assumes "matches_date_regex d" and "requested_codes uc cp = Some codes"
  shows "fetch_handler uc orch e now \<lparr>pathname = ''/bundle'', date_param = Some d, cities_param = cp\<rparr> w
         = bundle_response orch e now d codes w"
  using assms regex_nonempty [OF assms(1)] by (simp add: fetch_handler_def or_empty_def)

lemma bundle_response_status:
  "resp_status (fst (bundle_response orch e now d codes w)) = 200
   \<and> field (resp_body (fst (bundle_response orch e now d codes w))) ''target_date'' = Some (JStr d)"
  by (simp add: bundle_response_def Let_def split: prod.splits)

lemma orchestrate_stateless:
  "orchestrate (\<lambda>e' c cfg t u. (f e' c cfg t, u)) e d ccs w = (map (\<lambda>cc. f e (fst cc) (snd cc) d) ccs, w)"
  by (induction ccs) simp_all

section \<open>C2: the bounded retry of the fetch helpers\<close>

lemma safeFetch_from_final:
  assumes "attempt < 3" and "replies attempt = Response status body"
    and "ok status \<or> status \<noteq> 429 \<or> attempt = 2"
  shows "safeFetch_from attempt url hdrs replies =
     (if ok status then resp_json body else Rejected (http_error status url), [Request url hdrs])"
  using assms by (subst safeFetch_from.simps) (auto simp: ok_def)

lemma safeFetch_from_throws:
  assumes "attempt < 3" and "replies attempt = FetchThrows m"
  shows "safeFetch_from attempt url hdrs replies = (Rejected m, [Request url hdrs])"
  using assms by (subst safeFetch_from.simps) simp

lemma safeFetch_from_429:
  assumes "attempt < 2" and "is_429 (replies attempt)"
  shows "safeFetch_from attempt url hdrs replies =
     (fst (safeFetch_from (attempt + 1) url hdrs replies),
      Request url hdrs # Sleep (1500 * (attempt + 1)) # snd (safeFetch_from (attempt + 1) url hdrs replies))"
  using assms
  by (subst safeFetch_from.simps) (auto simp: is_429_def ok_def split: attempt.splits prod.splits)

lemma safeFetch_after_429s:
  assumes "k < 3" and "\<forall>j < k. is_429 (replies j)"
  shows "safeFetch url hdrs replies =
     (fst (safeFetch_from k url hdrs replies),
      retries url (\<lambda>j. hdrs) k @ snd (safeFetch_from k url hdrs replies))"
proof -
  have "k = 0 \<or> k = 1 \<or> k = 2" using assms(1) by arith
  then show ?thesis
  proof (elim disjE)
    assume "k = 0"
    then show ?thesis by (simp add: safeFetch_def retries_def)
  next
    assume k: "k = 1"
    with assms(2) have "is_429 (replies 0)" by simp
    then show ?thesis
      using safeFetch_from_429 [of 0 replies url hdrs] by (simp add: k safeFetch_def retries_def)
  next
    assume k: "k = 2"
    with assms(2) have "is_429 (replies 0)" "is_429 (replies 1)" by simp_all
    then show ?thesis
      using safeFetch_from_429 [of 0 replies url hdrs] safeFetch_from_429 [of 1 replies url hdrs]
      by (simp add: k safeFetch_def retries_def numeral_2_eq_2)
  qed
qed

lemma safeFetch_requests_from:
  "length (filter is_request (snd (safeFetch_from attempt url hdrs replies))) \<le> 3 - attempt
   \<and> (attempt < 3 \<longrightarrow> fst (safeFetch_from attempt url hdrs replies) \<noteq> ResolvedUndefined)"
proof (induction attempt url hdrs replies rule: safeFetch_from.induct)
  case (1 attempt url hdrs replies)
  show ?case
  proof (cases "attempt < 3")
    case False
    then show ?thesis by (subst safeFetch_from.simps) simp
  next
    case True
    show ?thesis
    proof (cases "replies attempt")
      case (FetchThrows m)
      with True show ?thesis
        by (simp add: safeFetch_from_throws is_request_def)
    next
      case (Response status body)
      show ?thesis
      proof (cases "ok status \<or> status \<noteq> 429 \<or> attempt = 2")
        case final: True
        from safeFetch_from_final [of attempt replies status body url hdrs, OF True Response final] True
        show ?thesis
          by (auto simp: is_request_def resp_json_def split: sum.splits)
      next
        case False
        then have st: "\<not> ok status" "status = 429" "attempt < 2" using True by auto
        then have "is_429 (replies attempt)" by (simp add: is_429_def Response)
        from safeFetch_from_429 [of attempt replies url hdrs, OF st(3) this]
          "1.IH" [OF True Response st(1)] st
        show ?thesis
          by (auto simp: is_request_def split: prod.splits)
      qed
    qed
  qed
qed

text \<open>The same for the signed variant.\<close>

lemma kalshiFetch_from_unsigned:
  assumes "attempt < 3" and "makeKalshiHeaders pf e attempt ''GET'' (''/trade-api/v2'' @ path) = Inl m"
  shows "kalshiFetch_from attempt pf e path replies = (Rejected m, [])"
  using assms by (subst kalshiFetch_from.simps) simp

lemma kalshiFetch_from_final:
  assumes "attempt < 3" and "makeKalshiHeaders pf e attempt ''GET'' (''/trade-api/v2'' @ path) = Inr hdrs"
    and "replies attempt = Response status body"
    and "ok status \<or> status \<noteq> 429 \<or> attempt = 2"
  shows "kalshiFetch_from attempt pf e path replies =
     (if ok status then resp_json body else Rejected (http_error status (KALSHI_BASE @ path)),
      [Request (KALSHI_BASE @ path) hdrs])"
  using assms by (subst kalshiFetch_from.simps) (auto simp: ok_def)

lemma kalshiFetch_from_throws:
  assumes "attempt < 3" and "makeKalshiHeaders pf e attempt ''GET'' (''/trade-api/v2'' @ path) = Inr hdrs"
    and "replies attempt = FetchThrows m"
  shows "kalshiFetch_from attempt pf e path replies = (Rejected m, [Request (KALSHI_BASE @ path) hdrs])"
  using assms by (subst kalshiFetch_from.simps) simp

lemma kalshiFetch_from_429:
  assumes "attempt < 2" and "makeKalshiHeaders pf e attempt ''GET'' (''/trade-api/v2'' @ path) = Inr hdrs"
    and "is_429 (replies attempt)"
  shows "kalshiFetch_from attempt pf e path replies =
     (fst (kalshiFetch_from (attempt + 1) pf e path replies),
      Request (KALSHI_BASE @ path) hdrs # Sleep (1500 * (attempt + 1))
        # snd (kalshiFetch_from (attempt + 1) pf e path replies))"
  using assms
  by (subst kalshiFetch_from.simps) (auto simp: is_429_def ok_def split: attempt.splits prod.splits)

lemma kalshiFetch_after_429s:
  assumes "k < 3" and "\<forall>j < k. is_429 (replies j)"
    and "\<forall>j < k. makeKalshiHeaders pf e j ''GET'' (''/trade-api/v2'' @ path) = Inr (hdrs j)"
  shows "kalshiFetch pf e path replies =
     (fst (kalshiFetch_from k pf e path replies),
      retries (KALSHI_BASE @ path) hdrs k @ snd (kalshiFetch_from k pf e path replies))"
proof -
  have "k = 0 \<or> k = 1 \<or> k = 2" using assms(1) by arith
  then show ?thesis
  proof (elim disjE)
    assume "k = 0"
    then show ?thesis by (simp add: kalshiFetch_def retries_def)
  next
    assume k: "k = 1"
    with assms(2,3) have "is_429 (replies 0)"
      "makeKalshiHeaders pf e 0 ''GET'' (''/trade-api/v2'' @ path) = Inr (hdrs 0)" by simp_all
    then show ?thesis
      using kalshiFetch_from_429 [of 0 pf e path "hdrs 0" replies]
      by (simp add: k kalshiFetch_def retries_def)
  next
    assume k: "k = 2"
    with assms(2,3) have "is_429 (replies 0)" "is_429 (replies 1)"
      "makeKalshiHeaders pf e 0 ''GET'' (''/trade-api/v2'' @ path) = Inr (hdrs 0)"
      "makeKalshiHeaders pf e 1 ''GET'' (''/trade-api/v2'' @ path) = Inr (hdrs 1)" by simp_all
    then show ?thesis
      using kalshiFetch_from_429 [of 0 pf e path "hdrs 0" replies]
        kalshiFetch_from_429 [of 1 pf e path "hdrs 1" replies]
      by (simp add: k kalshiFetch_def retries_def numeral_2_eq_2)
  qed
qed

lemma kalshiFetch_requests_from:
  "length (filter is_request (snd (kalshiFetch_from attempt pf e path replies))) \<le> 3 - attempt
   \<and> (attempt < 3 \<longrightarrow> fst (kalshiFetch_from attempt pf e path replies) \<noteq> ResolvedUndefined)"
proof (induction attempt pf e path replies rule: kalshiFetch_from.induct)
  case (1 attempt pf e path replies)
  show ?case
  proof (cases "attempt < 3")
    case False
    then show ?thesis by (subst kalshiFetch_from.simps) simp
  next
    case True
    show ?thesis
    proof (cases "makeKalshiHeaders pf e attempt ''GET'' (''/trade-api/v2'' @ path)")
      case (Inl m)
      with True show ?thesis by (simp add: kalshiFetch_from_unsigned)
    next
      case (Inr hdrs)
      show ?thesis
      proof (cases "replies attempt")
        case (FetchThrows m)
        with True Inr show ?thesis
          by (simp add: kalshiFetch_from_throws is_request_def)
      next
        case (Response status body)
        show ?thesis
        proof (cases "ok status \<or> status \<noteq> 429 \<or> attempt = 2")
          case final: True
          from kalshiFetch_from_final [of attempt pf e path hdrs replies status body, OF True Inr Response final]
            True
          show ?thesis
            by (auto simp: is_request_def resp_json_def split: sum.splits)
        next
          case False
          then have st: "\<not> ok status" "status = 429" "attempt < 2" using True by auto
          then have "is_429 (replies attempt)" by (simp add: is_429_def Response)
          from kalshiFetch_from_429 [of attempt pf e path hdrs replies, OF st(3) Inr this]
            "1.IH" [OF True Inr Response st(1)] st
          show ?thesis
            by (auto simp: is_request_def split: prod.splits)
        qed
      qed
    qed
  qed
qed

lemma slept_retries:
  "slept (retries url hdrs 0) = 0 \<and> slept (retries url hdrs 1) = 1500 \<and> slept (retries url hdrs 2) = 1500 + 3000"
  by (simp add: retries_def numeral_2_eq_2)

lemma slept_append: "slept (xs @ ys) = slept xs + slept ys"
  by (induction xs rule: slept.induct) simp_all

text \<open>
  C2.  Let the first \<open>k\<close> attempts (\<open>k < 3\<close>) meet the status 429 and the next one a
  response that ends the call: a success, a failure other than 429, or any failure at
  the third attempt.  Then \<^verbatim>\<open>safeFetch\<close> settles to the JSON body of that response on a
  success and otherwise throws an error whose message is \<^verbatim>\<open>HTTP \<close>, the status in
  decimal, \<^verbatim>\<open> from \<close> and the URL, after \<open>k + 1\<close> requests and a delay of 1500 ms times
  the number of the attempt after each 429 (1500 ms after the first, 3000 ms after the
  second); \<^verbatim>\<open>kalshiFetch\<close> does the same with headers signed anew at each attempt.  A
  429 followed by a success gives the body after a delay of 1500 ms, less than the
  3000 ms that come before a third attempt.  Whatever the replies, either helper makes
  at most 3 requests and never ends without a result.
\<close>

theorem C2_bounded_retry:
  assumes k: "k < 3"
    and limited: "\<forall>j < k. is_429 (replies j)"
    and reply: "replies k = Response status body"
    and final: "ok status \<or> status \<noteq> 429 \<or> k = 2"
    and signed: "\<forall>j \<le> k. makeKalshiHeaders pf e j ''GET'' (''/trade-api/v2'' @ path) = Inr (signed_hdrs j)"
  shows "safeFetch url hdrs replies =
           (if ok status then resp_json body else Rejected (''HTTP '' @ dec status @ '' from '' @ url),
            retries url (\<lambda>j. hdrs) k @ [Request url hdrs])
    \<and> kalshiFetch pf e path replies =
           (if ok status then resp_json body
            else Rejected (''HTTP '' @ dec status @ '' from '' @ KALSHI_BASE @ path),
            retries (KALSHI_BASE @ path) signed_hdrs k @ [Request (KALSHI_BASE @ path) (signed_hdrs k)])
    \<and> retries url (\<lambda>j. hdrs) 0 = []
    \<and> retries url (\<lambda>j. hdrs) 1 = [Request url hdrs, Sleep 1500]
    \<and> retries url (\<lambda>j. hdrs) 2 = [Request url hdrs, Sleep 1500, Request url hdrs, Sleep 3000]
    \<and> (k = 1 \<longrightarrow> 1500 \<le> slept (snd (safeFetch url hdrs replies))
                 \<and> slept (snd (safeFetch url hdrs replies)) < 3000)
    \<and> length (filter is_request (snd (safeFetch url hdrs any))) \<le> 3
    \<and> fst (safeFetch url hdrs any) \<noteq> ResolvedUndefined
    \<and> length (filter is_request (snd (kalshiFetch pf e path any))) \<le> 3
    \<and> fst (kalshiFetch pf e path any) \<noteq> ResolvedUndefined"
proof -
  have a: "safeFetch url hdrs replies =
           (if ok status then resp_json body else Rejected (''HTTP '' @ dec status @ '' from '' @ url),
            retries url (\<lambda>j. hdrs) k @ [Request url hdrs])"
    by (simp add: safeFetch_after_429s [OF k limited] http_error_def
        safeFetch_from_final [of k replies status body url hdrs, OF k reply final])
  from signed have s1: "\<forall>j < k. makeKalshiHeaders pf e j ''GET'' (''/trade-api/v2'' @ path) = Inr (signed_hdrs j)"
    and s2: "makeKalshiHeaders pf e k ''GET'' (''/trade-api/v2'' @ path) = Inr (signed_hdrs k)"
    by simp_all
  have b: "kalshiFetch pf e path replies =
           (if ok status then resp_json body
            else Rejected (''HTTP '' @ dec status @ '' from '' @ KALSHI_BASE @ path),
            retries (KALSHI_BASE @ path) signed_hdrs k @ [Request (KALSHI_BASE @ path) (signed_hdrs k)])"
    by (simp add: kalshiFetch_after_429s [OF k limited s1] http_error_def
        kalshiFetch_from_final [of k pf e path "signed_hdrs k" replies status body, OF k s2 reply final])
  have c: "retries url (\<lambda>j. hdrs) 0 = []"
    "retries url (\<lambda>j. hdrs) 1 = [Request url hdrs, Sleep 1500]"
    "retries url (\<lambda>j. hdrs) 2 = [Request url hdrs, Sleep 1500, Request url hdrs, Sleep 3000]"
    by (simp_all add: retries_def numeral_2_eq_2)
  have d: "k = 1 \<longrightarrow> 1500 \<le> slept (snd (safeFetch url hdrs replies))
                 \<and> slept (snd (safeFetch url hdrs replies)) < 3000"
    using slept_retries [of url "\<lambda>j. hdrs"] by (auto simp: a slept_append)
  have f: "length (filter is_request (snd (safeFetch url hdrs any))) \<le> 3"
    "fst (safeFetch url hdrs any) \<noteq> ResolvedUndefined"
    using safeFetch_requests_from [of 0 url hdrs any] by (simp_all add: safeFetch_def)
  have g: "length (filter is_request (snd (kalshiFetch pf e path any))) \<le> 3"
    "fst (kalshiFetch pf e path any) \<noteq> ResolvedUndefined"
    using kalshiFetch_requests_from [of 0 pf e path any] by (simp_all add: kalshiFetch_def)
  from a b c d f g show ?thesis by blast
qed

text \<open>
  The theorem at three services: one that answers 429 and then succeeds (\<open>k = 1\<close>), one
  that answers 429 at every attempt (\<open>k = 2\<close>) and one that answers 500 (\<open>k = 0\<close>), for
  a request to the weather service and for a signed request to the exchange.
\<close>

theorem C2_bounded_retry_witness:
  "is_429 (limited_once 0) \<and> limited_once 1 = Response 200 (Inr (JObj [])) \<and> ok 200
   \<and> is_429 (always_limited 0) \<and> is_429 (always_limited 1)
   \<and> always_limited 2 = Response 429 (Inl ''Too Many Requests'') \<and> \<not> ok 429
   \<and> server_error 0 = Response 500 (Inl ''Internal Server Error'') \<and> \<not> ok 500
   \<and> makeKalshiHeaders sample_platform sample_env 0 ''GET'' (''/trade-api/v2'' @ ''/markets/T/orderbook'')
       = Inr [(''KALSHI-ACCESS-KEY'', ''key-id''), (''KALSHI-ACCESS-SIGNATURE'', ''c2ln''),
              (''KALSHI-ACCESS-TIMESTAMP'', ''1771156800000''), (''Content-Type'', ''application/json'')]
   \<and> makeKalshiHeaders sample_platform sample_env 1 ''GET'' (''/trade-api/v2'' @ ''/markets/T/orderbook'')
       = Inr [(''KALSHI-ACCESS-KEY'', ''key-id''), (''KALSHI-ACCESS-SIGNATURE'', ''c2ln''),
              (''KALSHI-ACCESS-TIMESTAMP'', ''1771156800001''), (''Content-Type'', ''application/json'')]
   \<and> makeKalshiHeaders sample_platform sample_env 2 ''GET'' (''/trade-api/v2'' @ ''/markets/T/orderbook'')
       = Inr [(''KALSHI-ACCESS-KEY'', ''key-id''), (''KALSHI-ACCESS-SIGNATURE'', ''c2ln''),
              (''KALSHI-ACCESS-TIMESTAMP'', ''1771156800002''), (''Content-Type'', ''application/json'')]
   \<and> safeFetch ''https://api.weather.gov/points/41.78412,-87.75514'' NWS_HEADERS limited_once
       = (Resolved (JObj []),
          [Request ''https://api.weather.gov/points/41.78412,-87.75514'' NWS_HEADERS, Sleep 1500,
           Request ''https://api.weather.gov/points/41.78412,-87.75514'' NWS_HEADERS])
   \<and> fst (kalshiFetch sample_platform sample_env ''/markets/T/orderbook'' limited_once) = Resolved (JObj [])
   \<and> slept (snd (safeFetch ''https://api.weather.gov/points/41.78412,-87.75514'' NWS_HEADERS limited_once)) = 1500
   \<and> safeFetch ''https://api.weather.gov/points/41.78412,-87.75514'' NWS_HEADERS always_limited
       = (Rejected ''HTTP 429 from https://api.weather.gov/points/41.78412,-87.75514'',
          [Request ''https://api.weather.gov/points/41.78412,-87.75514'' NWS_HEADERS, Sleep 1500,
           Request ''https://api.weather.gov/points/41.78412,-87.75514'' NWS_HEADERS, Sleep 3000,
           Request ''https://api.weather.gov/points/41.78412,-87.75514'' NWS_HEADERS])
   \<and> fst (kalshiFetch sample_platform sample_env ''/markets/T/orderbook'' always_limited)
       = Rejected ''HTTP 429 from https://api.elections.kalshi.com/trade-api/v2/markets/T/orderbook''
   \<and> safeFetch ''https://api.weather.gov/points/41.78412,-87.75514'' NWS_HEADERS server_error
       = (Rejected ''HTTP 500 from https://api.weather.gov/points/41.78412,-87.75514'',
          [Request ''https://api.weather.gov/points/41.78412,-87.75514'' NWS_HEADERS])
   \<and> kalshiFetch sample_platform sample_env ''/markets/T/orderbook'' server_error
       = (Rejected ''HTTP 500 from https://api.elections.kalshi.com/trade-api/v2/markets/T/orderbook'',
          [Request ''https://api.elections.kalshi.com/trade-api/v2/markets/T/orderbook''
             [(''KALSHI-ACCESS-KEY'', ''key-id''), (''KALSHI-ACCESS-SIGNATURE'', ''c2ln''),
              (''KALSHI-ACCESS-TIMESTAMP'', ''1771156800000''), (''Content-Type'', ''application/json'')]])"
proof -
  let ?h = "\<lambda>j. [(''KALSHI-ACCESS-KEY'', ''key-id''), (''KALSHI-ACCESS-SIGNATURE'', ''c2ln''),
              (''KALSHI-ACCESS-TIMESTAMP'', dec (1771156800000 + j)), (''Content-Type'', ''application/json'')]"
  let ?url = "''https://api.weather.gov/points/41.78412,-87.75514''"
  let ?p = "''/markets/T/orderbook''"
  have l0: "is_429 (limited_once 0)" by (simp add: limited_once_def is_429_def)
  have l1: "limited_once 1 = Response 200 (Inr (JObj []))" by (simp add: limited_once_def)
  have a0: "is_429 (always_limited 0)" and a1: "is_429 (always_limited 1)"
    by (simp_all add: always_limited_def is_429_def)
  have a2: "always_limited 2 = Response 429 (Inl ''Too Many Requests'')"
    by (simp add: always_limited_def)
  have e0: "server_error 0 = Response 500 (Inl ''Internal Server Error'')"
    by (simp add: server_error_def)
  have ok: "ok 200" and nok: "\<not> ok 429" "\<not> ok 500" by (simp_all add: ok_def)
  have sg: "makeKalshiHeaders sample_platform sample_env j ''GET'' (''/trade-api/v2'' @ ''/markets/T/orderbook'')
      = Inr (?h j)" for j
    by (simp add: makeKalshiHeaders_def getSigningKey_def sample_platform_def sample_env_def Let_def)
  have t0: "dec 1771156800000 = ''1771156800000''" by (simp add: dec.simps digit_char_def)
  have t1: "dec 1771156800001 = ''1771156800001''" by (simp add: dec.simps digit_char_def)
  have t2: "dec 1771156800002 = ''1771156800002''" by (simp add: dec.simps digit_char_def)
  have d429: "dec 429 = ''429''" and d500: "dec 500 = ''500''" by (simp_all add: dec.simps digit_char_def)
  have base: "KALSHI_BASE @ ?p = ''https://api.elections.kalshi.com/trade-api/v2/markets/T/orderbook''"
    by (simp add: KALSHI_BASE_def)
  have signed: "\<forall>j \<le> k. makeKalshiHeaders sample_platform sample_env j ''GET''
      (''/trade-api/v2'' @ ''/markets/T/orderbook'') = Inr (?h j)" for k :: nat
    using sg by blast
  have once: "\<forall>j < (1::nat). is_429 (limited_once j)" using l0 by simp
  have twice: "\<forall>j < (2::nat). is_429 (always_limited j)"
    using a0 a1 by (auto simp: less_2_cases_iff)
  have none: "\<forall>j < (0::nat). is_429 (server_error j)" by simp
  have fin1: "ok 200 \<or> (200::nat) \<noteq> 429 \<or> (1::nat) = 2" using ok by simp
  have fin2: "ok 429 \<or> (429::nat) \<noteq> 429 \<or> (2::nat) = 2" by simp
  have fin0: "ok 500 \<or> (500::nat) \<noteq> 429 \<or> (0::nat) = 2" by simp
  note i1 = C2_bounded_retry [of 1 limited_once 200 "Inr (JObj [])" sample_platform sample_env ?p ?h
      ?url NWS_HEADERS limited_once, OF _ once l1 fin1 signed]
  note i2 = C2_bounded_retry [of 2 always_limited 429 "Inl ''Too Many Requests''" sample_platform sample_env
      ?p ?h ?url NWS_HEADERS always_limited, OF _ twice a2 fin2 signed]
  note i0 = C2_bounded_retry [of 0 server_error 500 "Inl ''Internal Server Error''" sample_platform sample_env
      ?p ?h ?url NWS_HEADERS server_error, OF _ none e0 fin0 signed]
  have r1: "retries u h 1 = [Request u (h 0), Sleep 1500]"
    and r2: "retries u h 2 = [Request u (h 0), Sleep 1500, Request u (h 1), Sleep 3000]"
    and r0: "retries u h 0 = []" for u and h :: "nat \<Rightarrow> headers"
    by (simp_all add: retries_def numeral_2_eq_2)
  from i1 have sf: "safeFetch ?url NWS_HEADERS limited_once
       = (Resolved (JObj []), [Request ?url NWS_HEADERS, Sleep 1500, Request ?url NWS_HEADERS])"
    by (simp add: ok resp_json_def r1)
  from i1 have kf: "fst (kalshiFetch sample_platform sample_env ?p limited_once) = Resolved (JObj [])"
    by (simp add: ok resp_json_def)
  have sl: "slept (snd (safeFetch ?url NWS_HEADERS limited_once)) = 1500"
    by (simp add: sf)
  from i2 have sf2: "safeFetch ?url NWS_HEADERS always_limited
       = (Rejected ''HTTP 429 from https://api.weather.gov/points/41.78412,-87.75514'',
          [Request ?url NWS_HEADERS, Sleep 1500, Request ?url NWS_HEADERS, Sleep 3000,
           Request ?url NWS_HEADERS])"
    by (simp add: nok d429 r2)
  from i2 have kf2: "fst (kalshiFetch sample_platform sample_env ?p always_limited)
       = Rejected ''HTTP 429 from https://api.elections.kalshi.com/trade-api/v2/markets/T/orderbook''"
    by (simp add: nok d429 KALSHI_BASE_def)
  from i0 have sf0: "safeFetch ?url NWS_HEADERS server_error
       = (Rejected ''HTTP 500 from https://api.weather.gov/points/41.78412,-87.75514'',
          [Request ?url NWS_HEADERS])"
    by (simp add: nok d500 r0)
  from i0 have "kalshiFetch sample_platform sample_env ?p server_error
       = (Rejected (''HTTP '' @ dec 500 @ '' from '' @ KALSHI_BASE @ ?p),
          retries (KALSHI_BASE @ ?p) ?h 0 @ [Request (KALSHI_BASE @ ?p) (?h 0)])"
    using nok by simp
  then have kf0: "kalshiFetch sample_platform sample_env ?p server_error
       = (Rejected ''HTTP 500 from https://api.elections.kalshi.com/trade-api/v2/markets/T/orderbook'',
          [Request ''https://api.elections.kalshi.com/trade-api/v2/markets/T/orderbook''
             [(''KALSHI-ACCESS-KEY'', ''key-id''), (''KALSHI-ACCESS-SIGNATURE'', ''c2ln''),
              (''KALSHI-ACCESS-TIMESTAMP'', ''1771156800000''), (''Content-Type'', ''application/json'')]])"
    by (simp add: d500 r0 KALSHI_BASE_def t0)
  have s0: "makeKalshiHeaders sample_platform sample_env 0 ''GET'' (''/trade-api/v2'' @ ''/markets/T/orderbook'')
       = Inr [(''KALSHI-ACCESS-KEY'', ''key-id''), (''KALSHI-ACCESS-SIGNATURE'', ''c2ln''),
              (''KALSHI-ACCESS-TIMESTAMP'', ''1771156800000''), (''Content-Type'', ''application/json'')]"
    unfolding sg by (simp only: t0 add_0_right)
  have s1: "makeKalshiHeaders sample_platform sample_env 1 ''GET'' (''/trade-api/v2'' @ ''/markets/T/orderbook'')
       = Inr [(''KALSHI-ACCESS-KEY'', ''key-id''), (''KALSHI-ACCESS-SIGNATURE'', ''c2ln''),
              (''KALSHI-ACCESS-TIMESTAMP'', ''1771156800001''), (''Content-Type'', ''application/json'')]"
    unfolding sg using t1 by simp
  have s2: "makeKalshiHeaders sample_platform sample_env 2 ''GET'' (''/trade-api/v2'' @ ''/markets/T/orderbook'')
       = Inr [(''KALSHI-ACCESS-KEY'', ''key-id''), (''KALSHI-ACCESS-SIGNATURE'', ''c2ln''),
              (''KALSHI-ACCESS-TIMESTAMP'', ''1771156800002''), (''Content-Type'', ''application/json'')]"
    unfolding sg using t2 by simp
  from l0 l1 ok a0 a1 a2 nok e0 s0 s1 s2 sf kf sl sf2 kf2 sf0 kf0 show ?thesis
    by blast
qed

section \<open>C4: the daily high and low of the forecast\<close>

lemma startsWith_iff: "startsWith s p = (\<exists>rest. s = p @ rest)"
  unfolding startsWith_def by (metis append_eq_conv_conj append_take_drop_id)

lemma max_or_null_Max: "max_or_null ts = (if ts = [] then None else Some (Max (set ts)))"
proof (cases ts)
  case Nil
  then show ?thesis by (simp add: max_or_null_def)
next
  case (Cons t ts')
  then show ?thesis
    using Max.set_eq_fold [of t ts'] by (simp add: max_or_null_def)
qed

lemma min_or_null_Min: "min_or_null ts = (if ts = [] then None else Some (Min (set ts)))"
proof (cases ts)
  case Nil
  then show ?thesis by (simp add: min_or_null_def)
next
  case (Cons t ts')
  then show ?thesis
    using Min.set_eq_fold [of t ts'] by (simp add: min_or_null_def)
qed

lemma hours_loop:
  assumes "\<forall>p \<in> set ps. startTime p \<noteq> []"
  shows "foldl (hour_step H L) (h, l) ps =
    (if not_set h then (case find (\<lambda>p. Some (temperature p) = H) ps of None \<Rightarrow> h | Some p \<Rightarrow> Some (startTime p))
     else h,
     if not_set l then (case find (\<lambda>p. Some (temperature p) = L) ps of None \<Rightarrow> l | Some p \<Rightarrow> Some (startTime p))
     else l)"
  using assms
proof (induction ps arbitrary: h l)
  case Nil
  then show ?case by simp
next
  case (Cons p ps)
  obtain h' l' where step: "hour_step H L (h, l) p = (h', l')"
    by (cases "hour_step H L (h, l) p")
  from Cons.prems have start: "startTime p \<noteq> []" and rest: "\<forall>p \<in> set ps. startTime p \<noteq> []"
    by simp_all
  from step start have h': "h' = (if Some (temperature p) = H \<and> not_set h then Some (startTime p) else h)"
    and l': "l' = (if Some (temperature p) = L \<and> not_set l then Some (startTime p) else l)"
    by (auto simp: hour_step_def Let_def)
  have "foldl (hour_step H L) (h, l) (p # ps) = foldl (hour_step H L) (h', l') ps"
    by (simp add: step)
  also note Cons.IH [OF rest, of h' l']
  finally show ?case
    using start by (auto simp: h' l' not_set_def split: option.splits)
qed

lemma target_periods_nonempty_start:
  assumes "targetDate \<noteq> []"
  shows "\<forall>p \<in> set (target_periods targetDate periods). startTime p \<noteq> []"
  using assms by (auto simp: target_periods_def startsWith_def)

lemma fetchWeather_forecast:
  assumes "body_of ''properties'' (fst (safeFetch (points_url cfg) NWS_HEADERS (nws_points up (points_url cfg))))
      = Inr hourlyUrl"
    and "body_of ''properties'' (fst (safeFetch hourlyUrl NWS_HEADERS (nws_hourly up hourlyUrl))) = Inr periods"
  shows "fetchWeather cfg targetDate up =
     weather_of_periods cfg targetDate up (case periods of None \<Rightarrow> [] | Some ps \<Rightarrow> ps)"
  using assms by (simp add: fetchWeather_def)

text \<open>
  C4.  When the gridpoint and the hourly forecast have been fetched, \<^verbatim>\<open>fetchWeather\<close>
  keeps exactly the periods whose \<^verbatim>\<open>startTime\<close> begins with the target date, as strings
  (\<open>hourly\<close> is their list, in order); \<open>predicted_high_f\<close> and \<open>predicted_low_f\<close> are the
  maximum and the minimum of their temperatures, \<^verbatim>\<open>null\<close> when none is kept; and
  \<open>high_hour\<close> and \<open>low_hour\<close> are the \<^verbatim>\<open>startTime\<close> of the first kept period with the
  maximum and with the minimum.  The last part is for a target date that is not the
  empty string: the loop takes an empty \<^verbatim>\<open>startTime\<close> for an hour not yet set.  Every
  date that reaches \<^verbatim>\<open>fetchWeather\<close> has passed the pattern of the handler, and is not
  empty.
\<close>

theorem C4_daily_extremes:
  assumes points: "body_of ''properties''
        (fst (safeFetch (points_url cfg) NWS_HEADERS (nws_points up (points_url cfg)))) = Inr hourlyUrl"
    and forecast: "body_of ''properties''
        (fst (safeFetch hourlyUrl NWS_HEADERS (nws_hourly up hourlyUrl))) = Inr (Some periods)"
  shows "hourly (fetchWeather cfg targetDate up)
           = map hourly_of (filter (\<lambda>p. startsWith (startTime p) targetDate) periods)
    \<and> (\<forall>s. startsWith s targetDate = (\<exists>rest. s = targetDate @ rest))
    \<and> predicted_high_f (fetchWeather cfg targetDate up)
         = (if target_periods targetDate periods = [] then None
            else Some (Max (set (map temperature (target_periods targetDate periods)))))
    \<and> predicted_low_f (fetchWeather cfg targetDate up)
         = (if target_periods targetDate periods = [] then None
            else Some (Min (set (map temperature (target_periods targetDate periods)))))
    \<and> (targetDate \<noteq> [] \<longrightarrow>
         high_hour (fetchWeather cfg targetDate up)
           = map_option startTime
               (find (\<lambda>p. temperature p = Max (set (map temperature (target_periods targetDate periods))))
                  (target_periods targetDate periods))
         \<and> low_hour (fetchWeather cfg targetDate up)
           = map_option startTime
               (find (\<lambda>p. temperature p = Min (set (map temperature (target_periods targetDate periods))))
                  (target_periods targetDate periods)))
    \<and> (matches_date_regex targetDate \<longrightarrow> targetDate \<noteq> [])"
proof -
  let ?kept = "target_periods targetDate periods"
  have w: "fetchWeather cfg targetDate up = weather_of_periods cfg targetDate up periods"
    using fetchWeather_forecast [OF points forecast] by simp
  have loop: "foldl (hour_step H L) (None, None) ?kept =
      (map_option startTime (find (\<lambda>p. Some (temperature p) = H) ?kept),
       map_option startTime (find (\<lambda>p. Some (temperature p) = L) ?kept))" if date: "targetDate \<noteq> []" for H L
    using hours_loop [OF target_periods_nonempty_start [OF date], of H L None None periods]
    by (simp add: not_set_def split: option.splits)
  have a: "hourly (fetchWeather cfg targetDate up)
           = map hourly_of (filter (\<lambda>p. startsWith (startTime p) targetDate) periods)"
    by (simp add: w weather_of_periods_def Let_def target_periods_def)
  have b: "predicted_high_f (fetchWeather cfg targetDate up)
         = (if ?kept = [] then None else Some (Max (set (map temperature ?kept))))"
    by (simp add: w weather_of_periods_def Let_def max_or_null_Max)
  have c: "predicted_low_f (fetchWeather cfg targetDate up)
         = (if ?kept = [] then None else Some (Min (set (map temperature ?kept))))"
    by (simp add: w weather_of_periods_def Let_def min_or_null_Min)
  have d: "high_hour (fetchWeather cfg targetDate up)
         = map_option startTime (find (\<lambda>p. temperature p = Max (set (map temperature ?kept))) ?kept)"
    if "targetDate \<noteq> []"
    using that by (cases "?kept = []") (simp_all add: w weather_of_periods_def Let_def loop max_or_null_Max)
  have e: "low_hour (fetchWeather cfg targetDate up)
         = map_option startTime (find (\<lambda>p. temperature p = Min (set (map temperature ?kept))) ?kept)"
    if "targetDate \<noteq> []"
    using that by (cases "?kept = []") (simp_all add: w weather_of_periods_def Let_def loop min_or_null_Min)
  from a b c d e startsWith_iff regex_nonempty show ?thesis by blast
qed

text \<open>The theorem at the sample forecast, for 15 February 2026.\<close>

theorem C4_daily_extremes_witness:
  "body_of ''properties'' (fst (safeFetch (points_url chicago) NWS_HEADERS (nws_points fair_weather (points_url chicago))))
     = Inr ''https://api.weather.gov/gridpoints/LOT/73,68/forecast/hourly''
   \<and> body_of ''properties'' (fst (safeFetch ''https://api.weather.gov/gridpoints/LOT/73,68/forecast/hourly''
        NWS_HEADERS (nws_hourly fair_weather ''https://api.weather.gov/gridpoints/LOT/73,68/forecast/hourly'')))
     = Inr (Some sample_periods)
   \<and> ''2026-02-15'' \<noteq> []
   \<and> target_periods ''2026-02-15'' sample_periods = take 3 sample_periods
   \<and> predicted_high_f (fetchWeather chicago ''2026-02-15'' fair_weather) = Some 35
   \<and> predicted_low_f (fetchWeather chicago ''2026-02-15'' fair_weather) = Some 30
   \<and> high_hour (fetchWeather chicago ''2026-02-15'' fair_weather) = Some ''2026-02-15T14:00:00-06:00''
   \<and> low_hour (fetchWeather chicago ''2026-02-15'' fair_weather) = Some ''2026-02-15T06:00:00-06:00''"
proof -
  let ?h = "''https://api.weather.gov/gridpoints/LOT/73,68/forecast/hourly''"
  have p: "body_of ''properties'' (fst (safeFetch (points_url chicago) NWS_HEADERS
      (nws_points fair_weather (points_url chicago)))) = Inr ?h"
    by (simp add: safeFetch_def safeFetch_from.simps ok_def resp_json_def body_of_def fair_weather_def)
  have f: "body_of ''properties'' (fst (safeFetch ?h NWS_HEADERS (nws_hourly fair_weather ?h)))
      = Inr (Some sample_periods)"
    by (simp add: safeFetch_def safeFetch_from.simps ok_def resp_json_def body_of_def fair_weather_def)
  have kept: "target_periods ''2026-02-15'' sample_periods = take 3 sample_periods"
    by (simp add: target_periods_def sample_periods_def startsWith_def)
  have temps: "map temperature (take 3 sample_periods) = [30, 35, 35]"
    by (simp add: sample_periods_def)
  have mx: "Max (set [30, 35, 35 :: rat]) = 35" and mn: "Min (set [30, 35, 35 :: rat]) = 30"
    by simp_all
  note inst = C4_daily_extremes [OF p f, of "''2026-02-15''"]
  from inst have hi: "predicted_high_f (fetchWeather chicago ''2026-02-15'' fair_weather) = Some 35"
    by (simp add: kept temps mx) (simp add: sample_periods_def)
  from inst have lo: "predicted_low_f (fetchWeather chicago ''2026-02-15'' fair_weather) = Some 30"
    by (simp add: kept temps mn) (simp add: sample_periods_def)
  from inst have "high_hour (fetchWeather chicago ''2026-02-15'' fair_weather)
           = map_option startTime
               (find (\<lambda>p. temperature p = Max (set (map temperature (target_periods ''2026-02-15'' sample_periods))))
                  (target_periods ''2026-02-15'' sample_periods))"
    by simp
  then have hh: "high_hour (fetchWeather chicago ''2026-02-15'' fair_weather) = Some ''2026-02-15T14:00:00-06:00''"
    by (simp add: kept temps mx) (simp add: sample_periods_def)
  from inst have "low_hour (fetchWeather chicago ''2026-02-15'' fair_weather)
           = map_option startTime
               (find (\<lambda>p. temperature p = Min (set (map temperature (target_periods ''2026-02-15'' sample_periods))))
                  (target_periods ''2026-02-15'' sample_periods))"
    by simp
  then have lh: "low_hour (fetchWeather chicago ''2026-02-15'' fair_weather) = Some ''2026-02-15T06:00:00-06:00''"
    by (simp add: kept temps mn) (simp add: sample_periods_def)
  from p f kept hi lo hh lh show ?thesis by simp
qed

section \<open>C6: a failed observation\<close>

text \<open>
  An observation of 21.5 degrees Celsius is reported as the double nearest to 70.7, and
  one of -10.75 degrees as the double nearest to 12.6: the sum 12.65 is not a double, and
  the double nearest to it lies below it.
\<close>

lemma rounding_examples:
  "round1 (cToF (43 / 2)) = 4975070213360845 / 70368744177664"
  "fl (707 / 10) = 4975070213360845 / 70368744177664"
  "round1 (cToF (- 43 / 4)) = fl (126 / 10)"
  "cToF (- 43 / 4) < 1265 / 100"
  by code_simp+

lemma current_conditions_failed:
  assumes "body_of ''properties''
      (fst (safeFetch (latest_url cfg) NWS_HEADERS (nws_latest up (latest_url cfg)))) = Inl m"
  shows "current_conditions cfg up = (None, None, None)"
  using assms by (simp add: current_conditions_def)

lemma fetchWeather_error_without_observation:
  "error (fetchWeather cfg targetDate (up\<lparr>nws_latest := other\<rparr>)) = error (fetchWeather cfg targetDate up)"
  by (simp add: fetchWeather_def weather_of_periods_def failed_weather_def Let_def
      split: sum.splits option.splits)

text \<open>
  C6.  When the gridpoint and the hourly forecast have been fetched and the fetch of the
  latest observation fails (the fetch helper throws, or reading the body does),
  \<^verbatim>\<open>fetchWeather\<close> returns a bundle whose \<open>current_temp_f\<close>, \<open>current_desc\<close> and
  \<open>observed_at\<close> are \<^verbatim>\<open>null\<close> and whose \<open>error\<close> is \<^verbatim>\<open>null\<close>.  The other fields are
  those of the forecast: \<open>hourly\<close> has the start, the temperature, the wind and the
  short forecast of each period whose \<^verbatim>\<open>startTime\<close> begins with the target date, in
  order; \<open>predicted_high_f\<close> and \<open>predicted_low_f\<close> are the maximum and the minimum of
  their temperatures (\<^verbatim>\<open>null\<close> when there is no such period); and, for a target date
  that is not the empty string, \<open>high_hour\<close> and \<open>low_hour\<close> are the \<^verbatim>\<open>startTime\<close> of
  the first of these periods with the maximum and with the minimum; a date that has
  passed the pattern of the handler is not empty.  Every field but the three of the
  observation is what it is when the observation answers in any other way \<open>other\<close>.
\<close>

theorem C6_observation_failure:
  assumes points: "body_of ''properties''
        (fst (safeFetch (points_url cfg) NWS_HEADERS (nws_points up (points_url cfg)))) = Inr hourlyUrl"
    and forecast: "body_of ''properties''
        (fst (safeFetch hourlyUrl NWS_HEADERS (nws_hourly up hourlyUrl))) = Inr periods"
    and observation: "body_of ''properties''
        (fst (safeFetch (latest_url cfg) NWS_HEADERS (nws_latest up (latest_url cfg)))) = Inl m"
    and kept: "kept = filter (\<lambda>p. startsWith (startTime p) targetDate) (case periods of None \<Rightarrow> [] | Some ps \<Rightarrow> ps)"
  shows "current_temp_f (fetchWeather cfg targetDate up) = None
    \<and> current_desc (fetchWeather cfg targetDate up) = None
    \<and> observed_at (fetchWeather cfg targetDate up) = None
    \<and> error (fetchWeather cfg targetDate up) = None
    \<and> fetchWeather cfg targetDate up
        = (fetchWeather cfg targetDate (up\<lparr>nws_latest := other\<rparr>))
            \<lparr>current_temp_f := None, current_desc := None, observed_at := None\<rparr>
    \<and> hourly (fetchWeather cfg targetDate up)
        = map (\<lambda>p. \<lparr>time = startTime p, temp_f = temperature p, wind = windSpeed p, desc = shortForecast p\<rparr>) kept
    \<and> predicted_high_f (fetchWeather cfg targetDate up)
        = (if kept = [] then None else Some (Max (set (map temperature kept))))
    \<and> predicted_low_f (fetchWeather cfg targetDate up)
        = (if kept = [] then None else Some (Min (set (map temperature kept))))
    \<and> (targetDate \<noteq> [] \<longrightarrow>
         high_hour (fetchWeather cfg targetDate up)
           = map_option startTime (find (\<lambda>p. temperature p = Max (set (map temperature kept))) kept)
         \<and> low_hour (fetchWeather cfg targetDate up)
           = map_option startTime (find (\<lambda>p. temperature p = Min (set (map temperature kept))) kept))
    \<and> (\<forall>s. startsWith s targetDate = (\<exists>rest. s = targetDate @ rest))
    \<and> (matches_date_regex targetDate \<longrightarrow> targetDate \<noteq> [])"
proof -
  let ?ps = "case periods of None \<Rightarrow> [] | Some ps \<Rightarrow> ps"
  have k: "target_periods targetDate ?ps = kept"
    by (simp add: kept target_periods_def)
  have w: "fetchWeather cfg targetDate up = weather_of_periods cfg targetDate up ?ps"
    using points forecast by (rule fetchWeather_forecast)
  have w': "fetchWeather cfg targetDate (up\<lparr>nws_latest := other\<rparr>)
      = weather_of_periods cfg targetDate (up\<lparr>nws_latest := other\<rparr>) ?ps"
    using points forecast by (intro fetchWeather_forecast) simp_all
  have cur: "current_conditions cfg up = (None, None, None)"
    using observation by (rule current_conditions_failed)
  have loop: "foldl (hour_step H L) (None, None) kept =
      (map_option startTime (find (\<lambda>p. Some (temperature p) = H) kept),
       map_option startTime (find (\<lambda>p. Some (temperature p) = L) kept))" if date: "targetDate \<noteq> []" for H L
    using hours_loop [OF target_periods_nonempty_start [OF date], of H L None None ?ps]
    by (simp add: k not_set_def split: option.splits)
  have a: "current_temp_f (fetchWeather cfg targetDate up) = None
    \<and> current_desc (fetchWeather cfg targetDate up) = None
    \<and> observed_at (fetchWeather cfg targetDate up) = None
    \<and> error (fetchWeather cfg targetDate up) = None
    \<and> fetchWeather cfg targetDate up
        = (fetchWeather cfg targetDate (up\<lparr>nws_latest := other\<rparr>))
            \<lparr>current_temp_f := None, current_desc := None, observed_at := None\<rparr>"
    by (simp add: w w' weather_of_periods_def Let_def cur)
  have b: "hourly (fetchWeather cfg targetDate up)
        = map (\<lambda>p. \<lparr>time = startTime p, temp_f = temperature p, wind = windSpeed p, desc = shortForecast p\<rparr>) kept"
    by (simp add: w weather_of_periods_def Let_def k hourly_of_def)
  have c: "predicted_high_f (fetchWeather cfg targetDate up)
        = (if kept = [] then None else Some (Max (set (map temperature kept))))"
    by (simp add: w weather_of_periods_def Let_def k max_or_null_Max)
  have d: "predicted_low_f (fetchWeather cfg targetDate up)
        = (if kept = [] then None else Some (Min (set (map temperature kept))))"
    by (simp add: w weather_of_periods_def Let_def k min_or_null_Min)
  have e: "high_hour (fetchWeather cfg targetDate up)
         = map_option startTime (find (\<lambda>p. temperature p = Max (set (map temperature kept))) kept)"
    if "targetDate \<noteq> []"
    using that by (cases "kept = []") (simp_all add: w weather_of_periods_def Let_def k loop max_or_null_Max)
  have f: "low_hour (fetchWeather cfg targetDate up)
         = map_option startTime (find (\<lambda>p. temperature p = Min (set (map temperature kept))) kept)"
    if "targetDate \<noteq> []"
    using that by (cases "kept = []") (simp_all add: w weather_of_periods_def Let_def k loop min_or_null_Min)
  from a b c d e f startsWith_iff regex_nonempty show ?thesis by blast
qed

text \<open>
  The theorem at the sample forecast for 15 February 2026, with a station that answers
  503: the maximum of 35 degrees is first met at 14:00 and the minimum of 30 degrees at
  06:00.
\<close>

theorem C6_observation_failure_witness:
  "body_of ''properties'' (fst (safeFetch (points_url chicago) NWS_HEADERS (nws_points no_observation (points_url chicago))))
     = Inr ''https://api.weather.gov/gridpoints/LOT/73,68/forecast/hourly''
   \<and> body_of ''properties'' (fst (safeFetch ''https://api.weather.gov/gridpoints/LOT/73,68/forecast/hourly''
        NWS_HEADERS (nws_hourly no_observation ''https://api.weather.gov/gridpoints/LOT/73,68/forecast/hourly'')))
     = Inr (Some sample_periods)
   \<and> body_of ''properties'' (fst (safeFetch (latest_url chicago) NWS_HEADERS (nws_latest no_observation (latest_url chicago))))
     = Inl ''HTTP 503 from https://api.weather.gov/stations/KMDW/observations/latest''
   \<and> take 3 sample_periods = filter (\<lambda>p. startsWith (startTime p) ''2026-02-15'') sample_periods
   \<and> ''2026-02-15'' \<noteq> []
   \<and> current_temp_f (fetchWeather chicago ''2026-02-15'' no_observation) = None
   \<and> current_desc (fetchWeather chicago ''2026-02-15'' no_observation) = None
   \<and> observed_at (fetchWeather chicago ''2026-02-15'' no_observation) = None
   \<and> error (fetchWeather chicago ''2026-02-15'' no_observation) = None
   \<and> predicted_high_f (fetchWeather chicago ''2026-02-15'' no_observation) = Some 35
   \<and> predicted_low_f (fetchWeather chicago ''2026-02-15'' no_observation) = Some 30
   \<and> high_hour (fetchWeather chicago ''2026-02-15'' no_observation) = Some ''2026-02-15T14:00:00-06:00''
   \<and> low_hour (fetchWeather chicago ''2026-02-15'' no_observation) = Some ''2026-02-15T06:00:00-06:00''
   \<and> hourly (fetchWeather chicago ''2026-02-15'' no_observation)
       = [\<lparr>time = ''2026-02-15T06:00:00-06:00'', temp_f = 30, wind = ''5 mph'', desc = ''Sunny''\<rparr>,
          \<lparr>time = ''2026-02-15T14:00:00-06:00'', temp_f = 35, wind = ''10 mph'', desc = ''Sunny''\<rparr>,
          \<lparr>time = ''2026-02-15T15:00:00-06:00'', temp_f = 35, wind = ''10 mph'', desc = ''Cloudy''\<rparr>]
   \<and> current_temp_f (fetchWeather chicago ''2026-02-15'' fair_weather)
       = Some (4975070213360845 / 70368744177664)"
proof -
  let ?h = "''https://api.weather.gov/gridpoints/LOT/73,68/forecast/hourly''"
  have p: "body_of ''properties'' (fst (safeFetch (points_url chicago) NWS_HEADERS
      (nws_points no_observation (points_url chicago)))) = Inr ?h"
    by (simp add: safeFetch_def safeFetch_from.simps ok_def resp_json_def body_of_def fair_weather_def
        no_observation_def)
  have f: "body_of ''properties'' (fst (safeFetch ?h NWS_HEADERS (nws_hourly no_observation ?h)))
      = Inr (Some sample_periods)"
    by (simp add: safeFetch_def safeFetch_from.simps ok_def resp_json_def body_of_def fair_weather_def
        no_observation_def)
  have st: "dec 503 = ''503''"
    by (simp add: dec.simps digit_char_def)
  have ob: "body_of ''properties'' (fst (safeFetch (latest_url chicago) NWS_HEADERS
      (nws_latest no_observation (latest_url chicago))))
      = Inl ''HTTP 503 from https://api.weather.gov/stations/KMDW/observations/latest''"
    by (simp add: safeFetch_def safeFetch_from.simps ok_def resp_json_def body_of_def no_observation_def
        http_error_def st latest_url_def chicago_def)
  have kept: "take 3 sample_periods
      = filter (\<lambda>p. startsWith (startTime p) ''2026-02-15'') (case Some sample_periods of None \<Rightarrow> [] | Some ps \<Rightarrow> ps)"
    by (simp add: sample_periods_def startsWith_def)
  have kept': "take 3 sample_periods = filter (\<lambda>p. startsWith (startTime p) ''2026-02-15'') sample_periods"
    using kept by simp
  have date: "''2026-02-15'' \<noteq> []" by simp
  have temps: "map temperature (take 3 sample_periods) = [30, 35, 35]"
    by (simp add: sample_periods_def)
  have ne: "take 3 sample_periods \<noteq> []"
    by (simp add: sample_periods_def)
  have mx: "Max (set [30, 35, 35 :: rat]) = 35" and mn: "Min (set [30, 35, 35 :: rat]) = 30"
    by simp_all
  note inst = C6_observation_failure [OF p f ob kept]
  from inst have a: "current_temp_f (fetchWeather chicago ''2026-02-15'' no_observation) = None"
    and a2: "current_desc (fetchWeather chicago ''2026-02-15'' no_observation) = None"
    and a3: "observed_at (fetchWeather chicago ''2026-02-15'' no_observation) = None"
    and b: "error (fetchWeather chicago ''2026-02-15'' no_observation) = None"
    by blast+
  from inst have "predicted_high_f (fetchWeather chicago ''2026-02-15'' no_observation)
        = (if take 3 sample_periods = [] then None else Some (Max (set (map temperature (take 3 sample_periods)))))"
    by blast
  then have c: "predicted_high_f (fetchWeather chicago ''2026-02-15'' no_observation) = Some 35"
    by (simp only: ne temps mx if_False)
  from inst have "predicted_low_f (fetchWeather chicago ''2026-02-15'' no_observation)
        = (if take 3 sample_periods = [] then None else Some (Min (set (map temperature (take 3 sample_periods)))))"
    by blast
  then have d: "predicted_low_f (fetchWeather chicago ''2026-02-15'' no_observation) = Some 30"
    by (simp only: ne temps mn if_False)
  from inst date have "high_hour (fetchWeather chicago ''2026-02-15'' no_observation)
        = map_option startTime (find (\<lambda>p. temperature p = Max (set (map temperature (take 3 sample_periods))))
            (take 3 sample_periods))"
    by blast
  then have hh: "high_hour (fetchWeather chicago ''2026-02-15'' no_observation) = Some ''2026-02-15T14:00:00-06:00''"
    by (simp add: temps mx) (simp add: sample_periods_def)
  from inst date have "low_hour (fetchWeather chicago ''2026-02-15'' no_observation)
        = map_option startTime (find (\<lambda>p. temperature p = Min (set (map temperature (take 3 sample_periods))))
            (take 3 sample_periods))"
    by blast
  then have lh: "low_hour (fetchWeather chicago ''2026-02-15'' no_observation) = Some ''2026-02-15T06:00:00-06:00''"
    by (simp add: temps mn) (simp add: sample_periods_def)
  from inst have "hourly (fetchWeather chicago ''2026-02-15'' no_observation)
        = map (\<lambda>p. \<lparr>time = startTime p, temp_f = temperature p, wind = windSpeed p, desc = shortForecast p\<rparr>)
            (take 3 sample_periods)"
    by blast
  then have e: "hourly (fetchWeather chicago ''2026-02-15'' no_observation)
       = [\<lparr>time = ''2026-02-15T06:00:00-06:00'', temp_f = 30, wind = ''5 mph'', desc = ''Sunny''\<rparr>,
          \<lparr>time = ''2026-02-15T14:00:00-06:00'', temp_f = 35, wind = ''10 mph'', desc = ''Sunny''\<rparr>,
          \<lparr>time = ''2026-02-15T15:00:00-06:00'', temp_f = 35, wind = ''10 mph'', desc = ''Cloudy''\<rparr>]"
    by (simp add: sample_periods_def)
  have g: "current_temp_f (fetchWeather chicago ''2026-02-15'' fair_weather)
      = Some (4975070213360845 / 70368744177664)"
    by (simp add: fetchWeather_def weather_of_periods_def Let_def current_conditions_def
        safeFetch_def safeFetch_from.simps ok_def resp_json_def body_of_def fair_weather_def
        rounding_examples)
  from p f ob kept' date a a2 a3 b c d hh lh e g show ?thesis by blast
qed

section \<open>C7: the weather bundles that carry an error\<close>

lemma fetchWeather_failed_or_not:
  "(\<exists>m. fetchWeather cfg targetDate up = failed_weather m) \<or> error (fetchWeather cfg targetDate up) = None"
  by (auto simp: fetchWeather_def weather_of_periods_def Let_def split: sum.splits)

lemma fetchCityBundle_weather:
  "at_path (fetchCityBundle pf e code cfg targetDate up) [''weather'']
     = Some (JObj (weather_props (fetchWeather cfg targetDate up)
                   @ [(''ensemble'', ensemble_json (fetchEnsemble cfg targetDate up))]))"
  by (simp add: at_path_def fetchCityBundle_def Let_def)

text \<open>
  C7, as it holds of the code.  In the bundle \<^verbatim>\<open>fetchWeather\<close> returns, and in the
  \<^verbatim>\<open>weather\<close> object \<^verbatim>\<open>fetchCityBundle\<close> makes of it by adding the ensemble, an \<open>error\<close>
  that is not \<^verbatim>\<open>null\<close> comes with \<open>predicted_high_f\<close>, \<open>predicted_low_f\<close> and
  \<open>current_temp_f\<close> all \<^verbatim>\<open>null\<close> and an empty \<open>hourly\<close>.  (The ensemble inside keeps its
  own members, count and error.)  The \<^verbatim>\<open>weather\<close> object of the placeholder that the
  handler puts in for a location whose orchestration threw has the property \<open>error\<close>
  and no other: its numeric fields and \<open>hourly\<close> are not there at all.
\<close>

theorem C7_error_bundles:
  "(error (fetchWeather cfg targetDate up) \<noteq> None \<longrightarrow>
       predicted_high_f (fetchWeather cfg targetDate up) = None
     \<and> predicted_low_f (fetchWeather cfg targetDate up) = None
     \<and> current_temp_f (fetchWeather cfg targetDate up) = None
     \<and> hourly (fetchWeather cfg targetDate up) = [])
   \<and> (\<exists>W. at_path (fetchCityBundle pf e code cfg targetDate up) [''weather''] = Some W
        \<and> field W ''error'' = Some (nullable JStr (error (fetchWeather cfg targetDate up)))
        \<and> (field W ''error'' \<noteq> Some JNull \<longrightarrow>
               field W ''predicted_high_f'' = Some JNull
             \<and> field W ''predicted_low_f'' = Some JNull
             \<and> field W ''current_temp_f'' = Some JNull
             \<and> field W ''hourly'' = Some (JArr [])))
   \<and> at_path (placeholder_bundle cfg msg) [''weather''] = Some (JObj [(''error'', JStr msg)])
   \<and> field (JObj [(''error'', JStr msg)]) ''error'' = Some (JStr msg)
   \<and> field (JObj [(''error'', JStr msg)]) ''predicted_high_f'' = None
   \<and> field (JObj [(''error'', JStr msg)]) ''predicted_low_f'' = None
   \<and> field (JObj [(''error'', JStr msg)]) ''current_temp_f'' = None
   \<and> field (JObj [(''error'', JStr msg)]) ''hourly'' = None"
proof -
  let ?w = "fetchWeather cfg targetDate up"
  let ?W = "JObj (weather_props ?w @ [(''ensemble'', ensemble_json (fetchEnsemble cfg targetDate up))])"
  have a: "error ?w \<noteq> None \<longrightarrow>
       predicted_high_f ?w = None \<and> predicted_low_f ?w = None \<and> current_temp_f ?w = None \<and> hourly ?w = []"
    using fetchWeather_failed_or_not [of cfg targetDate up] by (auto simp: failed_weather_def)
  have err: "field ?W ''error'' = Some (nullable JStr (error ?w))"
    by (simp add: weather_props_def)
  have b: "field ?W ''error'' \<noteq> Some JNull \<longrightarrow>
               field ?W ''predicted_high_f'' = Some JNull
             \<and> field ?W ''predicted_low_f'' = Some JNull
             \<and> field ?W ''current_temp_f'' = Some JNull
             \<and> field ?W ''hourly'' = Some (JArr [])"
  proof
    assume "field ?W ''error'' \<noteq> Some JNull"
    with err have "error ?w \<noteq> None" by (auto simp: nullable_def split: option.splits)
    with a show "field ?W ''predicted_high_f'' = Some JNull
             \<and> field ?W ''predicted_low_f'' = Some JNull
             \<and> field ?W ''current_temp_f'' = Some JNull
             \<and> field ?W ''hourly'' = Some (JArr [])"
      by (simp add: weather_props_def nullable_def)
  qed
  have c: "at_path (placeholder_bundle cfg msg) [''weather''] = Some (JObj [(''error'', JStr msg)])"
    by (simp add: at_path_def placeholder_bundle_def)
  from a err b c fetchCityBundle_weather [of pf e code cfg targetDate up] show ?thesis
    by simp
qed

text \<open>The theorem for Chicago when no service can be reached.\<close>

theorem C7_error_bundles_witness:
  "error (fetchWeather chicago ''2026-02-15'' offline) = Some ''offline''
   \<and> hourly (fetchWeather chicago ''2026-02-15'' offline) = []
   \<and> predicted_high_f (fetchWeather chicago ''2026-02-15'' offline) = None
   \<and> at_path (fetchCityBundle sample_platform sample_env ''CHI'' chicago ''2026-02-15'' offline)
        [''weather'', ''error''] = Some (JStr ''offline'')
   \<and> at_path (fetchCityBundle sample_platform sample_env ''CHI'' chicago ''2026-02-15'' offline)
        [''weather'', ''hourly''] = Some (JArr [])
   \<and> at_path (fetchCityBundle sample_platform sample_env ''CHI'' chicago ''2026-02-15'' offline)
        [''weather'', ''predicted_high_f''] = Some JNull"
proof -
  have err: "error (fetchWeather chicago ''2026-02-15'' offline) = Some ''offline''"
    by (simp add: fetchWeather_def safeFetch_def safeFetch_from.simps body_of_def offline_def failed_weather_def)
  note inst = C7_error_bundles [of chicago "''2026-02-15''" offline sample_platform sample_env "''CHI''" "[]"]
  from inst err have a: "hourly (fetchWeather chicago ''2026-02-15'' offline) = []"
    and b: "predicted_high_f (fetchWeather chicago ''2026-02-15'' offline) = None"
    by simp_all
  from inst obtain W where W: "at_path (fetchCityBundle sample_platform sample_env ''CHI'' chicago ''2026-02-15'' offline)
        [''weather''] = Some W"
    and e: "field W ''error'' = Some (nullable JStr (error (fetchWeather chicago ''2026-02-15'' offline)))"
    and imp: "field W ''error'' \<noteq> Some JNull \<longrightarrow>
               field W ''predicted_high_f'' = Some JNull \<and> field W ''predicted_low_f'' = Some JNull
             \<and> field W ''current_temp_f'' = Some JNull \<and> field W ''hourly'' = Some (JArr [])"
    by blast
  from e err have e': "field W ''error'' = Some (JStr ''offline'')"
    by (simp add: nullable_def)
  with imp have h: "field W ''hourly'' = Some (JArr [])" and p: "field W ''predicted_high_f'' = Some JNull"
    by simp_all
  have step: "at_path j [''weather'', k] = (case at_path j [''weather''] of None \<Rightarrow> None | Some w \<Rightarrow> field w k)"
    for j k by (simp add: at_path_def)
  from err a b W e' h p show ?thesis
    by (simp add: step)
qed

text \<open>
  The claim as stated, which counts the placeholder among the bundles with \<^verbatim>\<open>null\<close>
  numeric fields and an empty \<open>hourly\<close>, fails: in the answer to a request for \<^verbatim>\<open>CHI\<close>
  whose orchestration throws, the \<^verbatim>\<open>weather\<close> of \<^verbatim>\<open>CHI\<close> is \<^verbatim>\<open>{"error": "boom"}\<close>, with
  neither \<open>hourly\<close> nor \<open>predicted_high_f\<close>.
\<close>

theorem C7_counterexample:
  "at_path (resp_body (fst (fetch_handler sample_cases failing_orch sample_env ''2026-02-14T09:00:00.000Z''
        \<lparr>pathname = ''/bundle'', date_param = Some ''2026-02-15'', cities_param = Some (ascii ''CHI'')\<rparr> ())))
      [''cities'', ''CHI'', ''weather''] = Some (JObj [(''error'', JStr ''boom'')])
   \<and> at_path (resp_body (fst (fetch_handler sample_cases failing_orch sample_env ''2026-02-14T09:00:00.000Z''
        \<lparr>pathname = ''/bundle'', date_param = Some ''2026-02-15'', cities_param = Some (ascii ''CHI'')\<rparr> ())))
      [''cities'', ''CHI'', ''weather'', ''hourly''] = None
   \<and> at_path (resp_body (fst (fetch_handler sample_cases failing_orch sample_env ''2026-02-14T09:00:00.000Z''
        \<lparr>pathname = ''/bundle'', date_param = Some ''2026-02-15'', cities_param = Some (ascii ''CHI'')\<rparr> ())))
      [''cities'', ''CHI'', ''weather'', ''predicted_high_f''] = None"
  by code_simp

section \<open>C3: which upstream calls are retried\<close>









lemma length_set_orderbook: "length (set_orderbook t ob cs) = length cs"
  by (induction cs) simp_all

lemma length_run_batch: "length (run_batch pf e up i cs) = length cs"
proof -
  have "length (foldl (\<lambda>acc r. set_orderbook (fst r) (snd r) acc) xs rs) = length xs"
    for rs :: "(string \<times> json) list" and xs
    by (induction rs arbitrary: xs) (simp_all add: length_set_orderbook)
  then show ?thesis by (simp add: run_batch_def)
qed








section \<open>C9: the city codes of a request\<close>

lemma ascii_upper_comma: "(ascii_upper c = 0x2C) = (c = 0x2C)"
  by (auto simp: ascii_upper_def)

lemma ascii_upper_space: "is_space (ascii_upper c) = is_space c"
  by (auto simp: ascii_upper_def is_space_def)

lemma upper_point_ascii_upper: "upper_point uc (ascii_upper c) = upper_point uc c"
  by (auto simp: ascii_upper_def upper_point_def)

lemma split_on_nonempty: "split_on sep s \<noteq> []"
  by (induction s) (auto split: list.splits)

lemma split_on_map:
  assumes "\<forall>c. (f c = sep) = (c = sep)"
  shows "split_on sep (map f s) = map (map f) (split_on sep s)"
  using assms split_on_nonempty [of sep]
  by (induction s) (auto split: list.splits)

lemma trim_map:
  assumes "\<forall>c. is_space (f c) = is_space c"
  shows "trim (map f s) = map f (trim s)"
proof -
  from assms have "is_space \<circ> f = is_space" by (auto simp: fun_eq_iff)
  then show ?thesis
    by (simp add: trim_def dropWhile_map rev_map)
qed

lemma toUpperCase_ascii_upper: "toUpperCase uc (map ascii_upper s) = toUpperCase uc s"
  by (simp add: toUpperCase_def o_def upper_point_ascii_upper)

lemma parse_codes_ascii_upper: "parse_codes uc (map ascii_upper s) = parse_codes uc s"
proof -
  have "map (\<lambda>c. toUpperCase uc (trim c)) (split_on 0x2C (map ascii_upper s))
      = map (\<lambda>c. toUpperCase uc (trim c)) (split_on 0x2C s)"
    by (simp add: split_on_map ascii_upper_comma trim_map ascii_upper_space toUpperCase_ascii_upper o_def)
  then show ?thesis by (simp add: parse_codes_def)
qed

lemma split_on_no_sep: "sep \<notin> set a \<Longrightarrow> split_on sep a = [a]"
  by (induction a) auto

lemma split_on_append: "sep \<notin> set a \<Longrightarrow> split_on sep (a @ sep # b) = a # split_on sep b"
  by (induction a) auto

lemma parse_codes_pieces:
  assumes "0x2C \<notin> set a"
  shows "parse_codes uc a = (case own_key (toUpperCase uc (trim a)) of None \<Rightarrow> [] | Some k \<Rightarrow> [k])"
    and "parse_codes uc (a @ 0x2C # b) = parse_codes uc a @ parse_codes uc b"
  using assms
  by (simp_all add: parse_codes_def split_on_no_sep split_on_append map_filter_simps split: option.splits)

lemma trim_ends:
  assumes l: "list_all is_space l" and r: "list_all is_space r"
    and m: "m \<noteq> [] \<longrightarrow> \<not> is_space (hd m) \<and> \<not> is_space (last m)"
  shows "trim (l @ m @ r) = m"
proof (cases "m = []")
  case True
  from l r have "\<forall>x \<in> set (l @ r). is_space x" by (auto simp: list_all_iff)
  then have "dropWhile is_space (l @ r) = []" by (simp only: dropWhile_eq_Nil_conv)
  then have "trim (l @ r) = []" unfolding trim_def by (simp only: rev.simps dropWhile.simps)
  with True show ?thesis by simp
next
  case False
  then obtain x xs where x: "m = x # xs" by (cases m) auto
  from False obtain ys y where y: "m = ys @ [y]" by (cases m rule: rev_cases) auto
  from m False have hl: "\<not> is_space (hd m)" "\<not> is_space (last m)" by simp_all
  from hl(1) have nx: "\<not> is_space x" by (simp add: x)
  from hl(2) have ny: "\<not> is_space y" by (simp add: y)
  from l have "dropWhile is_space (l @ m @ r) = dropWhile is_space (m @ r)"
    by (simp add: list_all_iff dropWhile_append2)
  also have "\<dots> = m @ r" using nx by (simp add: x)
  finally have one: "dropWhile is_space (l @ m @ r) = m @ r" .
  from r have "\<And>x. x \<in> set (rev r) \<Longrightarrow> is_space x" by (simp add: list_all_iff)
  then have "dropWhile is_space (rev r @ rev m) = dropWhile is_space (rev m)"
    by (rule dropWhile_append2)
  also have "\<dots> = rev m" using ny by (simp add: y)
  finally show ?thesis by (simp add: trim_def one)
qed

lemma handler_cities:
  assumes "matches_date_regex d"
  shows "fetch_handler uc orch e now \<lparr>pathname = ''/bundle'', date_param = Some d, cities_param = cp\<rparr> w
    = (case cp of
         None \<Rightarrow> bundle_response orch e now d (map fst CITY_CONFIGS) w
       | Some s \<Rightarrow>
           if s = [] then bundle_response orch e now d (map fst CITY_CONFIGS) w
           else if parse_codes uc s = [] then
             (\<lparr>resp_status = 400,
               resp_body = JObj [(''error'', JStr ''No valid cities''),
                                 (''available'', JArr (map (\<lambda>c. JStr (fst c)) CITY_CONFIGS))]\<rparr>, w)
           else bundle_response orch e now d (parse_codes uc s) w)"
  using assms regex_nonempty [OF assms]
  by (simp add: fetch_handler_def requested_codes_def or_empty_def split: option.splits)

lemma parse_examples:
  "parse_codes uc (ascii ''CHI,ZZZ'') = [''CHI'']" "parse_codes uc (ascii ''CHI'') = [''CHI'']"
  "parse_codes uc (ascii ''ZZZ'') = []" "parse_codes uc (ascii '' chi , Nyc'') = [''CHI'', ''NYC'']"
  "parse_codes uc [] = []"
  by code_simp+

text \<open>
  C9, as it holds of the code.  For a request to \<^verbatim>\<open>/bundle\<close> with a date that passes:
  when the \<^verbatim>\<open>cities\<close> parameter is missing or empty, all configured locations are used;
  otherwise it is cut at the commas, each piece is trimmed and put in upper case, and the
  pieces that are configured codes are kept, the others dropped; when none is kept the
  answer is 400, else the bundle response for the codes kept.  Trimming takes the white
  space off both ends of a piece and nothing else; putting in upper case maps each code
  point by itself, the letters \<^verbatim>\<open>a\<close> to \<^verbatim>\<open>z\<close> to \<^verbatim>\<open>A\<close> to \<^verbatim>\<open>Z\<close>.  Two parameters that
  differ in the case of their ASCII letters only give the same codes.  \<^verbatim>\<open>CHI,ZZZ\<close>
  gives the answer of \<^verbatim>\<open>CHI\<close>, and \<^verbatim>\<open>ZZZ\<close> alone gives 400.
\<close>

theorem C9_city_codes:
  assumes "matches_date_regex d"
  shows "fetch_handler uc orch e now \<lparr>pathname = ''/bundle'', date_param = Some d, cities_param = cp\<rparr> w
      = (case cp of
           None \<Rightarrow> bundle_response orch e now d (map fst CITY_CONFIGS) w
         | Some s \<Rightarrow>
             if s = [] then bundle_response orch e now d (map fst CITY_CONFIGS) w
             else if parse_codes uc s = [] then
               (\<lparr>resp_status = 400,
                 resp_body = JObj [(''error'', JStr ''No valid cities''),
                                   (''available'', JArr (map (\<lambda>c. JStr (fst c)) CITY_CONFIGS))]\<rparr>, w)
             else bundle_response orch e now d (parse_codes uc s) w)
    \<and> (0x2C \<notin> set a \<longrightarrow>
          parse_codes uc a = (case own_key (toUpperCase uc (trim a)) of None \<Rightarrow> [] | Some k \<Rightarrow> [k])
        \<and> parse_codes uc (a @ 0x2C # b) = parse_codes uc a @ parse_codes uc b)
    \<and> (\<forall>c k. (own_key c = Some k) = (k \<in> set (map fst CITY_CONFIGS) \<and> ascii k = c))
    \<and> (list_all is_space l \<and> list_all is_space r \<and> (m \<noteq> [] \<longrightarrow> \<not> is_space (hd m) \<and> \<not> is_space (last m))
          \<longrightarrow> trim (l @ m @ r) = m)
    \<and> (\<forall>c. is_space c =
          (c \<in> {0x9, 0xA, 0xB, 0xC, 0xD, 0x20, 0xA0, 0x1680, 0x2028, 0x2029, 0x202F, 0x205F, 0x3000, 0xFEFF}
           \<or> (0x2000 \<le> c \<and> c \<le> 0x200A)))
    \<and> toUpperCase uc s
         = concat (map (\<lambda>c. if 0x61 \<le> c \<and> c \<le> 0x7A then [c - 0x20] else if c < 0x80 then [c] else uc c) s)
    \<and> (map ascii_upper s = map ascii_upper t \<longrightarrow> parse_codes uc s = parse_codes uc t)
    \<and> set (parse_codes uc s) \<subseteq> set (map fst CITY_CONFIGS)
    \<and> parse_codes uc (ascii ''CHI,ZZZ'') = parse_codes uc (ascii ''CHI'')
    \<and> fetch_handler uc orch e now
          \<lparr>pathname = ''/bundle'', date_param = Some d, cities_param = Some (ascii ''CHI,ZZZ'')\<rparr> w
      = fetch_handler uc orch e now
          \<lparr>pathname = ''/bundle'', date_param = Some d, cities_param = Some (ascii ''CHI'')\<rparr> w
    \<and> resp_status (fst (fetch_handler uc orch e now
          \<lparr>pathname = ''/bundle'', date_param = Some d, cities_param = Some (ascii ''ZZZ'')\<rparr> w)) = 400"
proof -
  note h = handler_cities [OF assms, of uc orch e now _ w]
  have a: "map ascii_upper s = map ascii_upper t \<longrightarrow> parse_codes uc s = parse_codes uc t"
    using parse_codes_ascii_upper [of uc s] parse_codes_ascii_upper [of uc t] by auto
  have b: "0x2C \<notin> set a \<longrightarrow>
          parse_codes uc a = (case own_key (toUpperCase uc (trim a)) of None \<Rightarrow> [] | Some k \<Rightarrow> [k])
        \<and> parse_codes uc (a @ 0x2C # b) = parse_codes uc a @ parse_codes uc b"
    using parse_codes_pieces(1) [of a uc] parse_codes_pieces(2) [of a uc b] by blast
  have c: "parse_codes uc (ascii ''CHI,ZZZ'') = parse_codes uc (ascii ''CHI'')"
    by (simp add: parse_examples)
  have ne: "ascii ''CHI,ZZZ'' \<noteq> []" "ascii ''CHI'' \<noteq> []" "ascii ''ZZZ'' \<noteq> []"
    by (simp_all add: ascii_def)
  have f: "fetch_handler uc orch e now
          \<lparr>pathname = ''/bundle'', date_param = Some d, cities_param = Some (ascii ''CHI,ZZZ'')\<rparr> w
      = fetch_handler uc orch e now
          \<lparr>pathname = ''/bundle'', date_param = Some d, cities_param = Some (ascii ''CHI'')\<rparr> w"
    by (simp add: h ne parse_examples)
  have g: "resp_status (fst (fetch_handler uc orch e now
          \<lparr>pathname = ''/bundle'', date_param = Some d, cities_param = Some (ascii ''ZZZ'')\<rparr> w)) = 400"
    by (simp add: h ne parse_examples)
  have i: "\<forall>c k. (own_key c = Some k) = (k \<in> set (map fst CITY_CONFIGS) \<and> ascii k = c)"
    using own_key_iff by blast
  have j: "list_all is_space l \<and> list_all is_space r \<and> (m \<noteq> [] \<longrightarrow> \<not> is_space (hd m) \<and> \<not> is_space (last m))
          \<longrightarrow> trim (l @ m @ r) = m"
    using trim_ends [of l r m] by blast
  have k: "\<forall>c. is_space c =
          (c \<in> {0x9, 0xA, 0xB, 0xC, 0xD, 0x20, 0xA0, 0x1680, 0x2028, 0x2029, 0x202F, 0x205F, 0x3000, 0xFEFF}
           \<or> (0x2000 \<le> c \<and> c \<le> 0x200A))"
    by (simp add: is_space_def)
  have u: "toUpperCase uc s
         = concat (map (\<lambda>c. if 0x61 \<le> c \<and> c \<le> 0x7A then [c - 0x20] else if c < 0x80 then [c] else uc c) s)"
    by (simp add: toUpperCase_def upper_point_def cong: map_cong)
  from h [of cp] a b c f g i j k u parse_codes_known [of uc s] show ?thesis
    by blast
qed

text \<open>
  The theorem at some parameters, for the date \<^verbatim>\<open>2026-02-15\<close> and an engine with the
  upper-case mapping of the dotless i: a piece \<^verbatim>\<open>ch\<close> and dotless i between a no-break
  space and an ideographic space is the code \<^verbatim>\<open>CHI\<close>.
\<close>

theorem C9_city_codes_witness:
  "matches_date_regex ''2026-02-15''
   \<and> map ascii_upper (ascii ''chi, nyc'') = map ascii_upper (ascii ''CHI, NYC'')
   \<and> parse_codes sample_cases (ascii ''chi, nyc'') = parse_codes sample_cases (ascii ''CHI, NYC'')
   \<and> 0x2C \<notin> set ([0xA0] @ ascii ''ch'' @ [0x131, 0x3000])
   \<and> toUpperCase sample_cases (trim ([0xA0] @ ascii ''ch'' @ [0x131, 0x3000])) = ascii ''CHI''
   \<and> parse_codes sample_cases ([0xA0] @ ascii ''ch'' @ [0x131, 0x3000]) = [''CHI'']
   \<and> parse_codes sample_cases (([0xA0] @ ascii ''ch'' @ [0x131, 0x3000]) @ 0x2C # ascii ''zzz'') = [''CHI'']
   \<and> list_all is_space [0xA0, 0x20] \<and> list_all is_space [0x3000]
   \<and> \<not> is_space (hd (ascii ''c h'')) \<and> \<not> is_space (last (ascii ''c h''))
   \<and> trim ([0xA0, 0x20] @ ascii ''c h'' @ [0x3000]) = ascii ''c h''
   \<and> resp_status (fst (fetch_handler sample_cases echo_orch sample_env ''2026-02-14T09:00:00.000Z''
        \<lparr>pathname = ''/bundle'', date_param = Some ''2026-02-15'', cities_param = Some (ascii ''ZZZ'')\<rparr> ())) = 400
   \<and> fetch_handler sample_cases echo_orch sample_env ''2026-02-14T09:00:00.000Z''
        \<lparr>pathname = ''/bundle'', date_param = Some ''2026-02-15'', cities_param = Some (ascii ''CHI,ZZZ'')\<rparr> ()
      = fetch_handler sample_cases echo_orch sample_env ''2026-02-14T09:00:00.000Z''
        \<lparr>pathname = ''/bundle'', date_param = Some ''2026-02-15'', cities_param = Some (ascii ''CHI'')\<rparr> ()"
proof -
  let ?a = "[0xA0] @ ascii ''ch'' @ [0x131, 0x3000]"
  have re: "matches_date_regex ''2026-02-15''" by code_simp
  have up: "map ascii_upper (ascii ''chi, nyc'') = map ascii_upper (ascii ''CHI, NYC'')" by code_simp
  have nc: "0x2C \<notin> set ?a" by (simp add: ascii_def)
  have z: "parse_codes sample_cases (ascii ''zzz'') = []" by code_simp
  have tr: "toUpperCase sample_cases (trim ?a) = ascii ''CHI''" by code_simp
  have key: "own_key (ascii ''CHI'') = Some ''CHI''" by code_simp
  have sp: "list_all is_space [0xA0, 0x20]" "list_all is_space [0x3000]"
    by (simp_all add: is_space_def)
  have ns: "\<not> is_space (hd (ascii ''c h''))" "\<not> is_space (last (ascii ''c h''))"
    by (simp_all add: is_space_def ascii_def)
  have m: "ascii ''c h'' \<noteq> [] \<longrightarrow> \<not> is_space (hd (ascii ''c h'')) \<and> \<not> is_space (last (ascii ''c h''))"
    using ns by simp
  note inst = C9_city_codes [OF re, where uc = sample_cases and orch = echo_orch and e = sample_env
      and now = "''2026-02-14T09:00:00.000Z''" and cp = None and w = "()"
      and s = "ascii ''chi, nyc''" and t = "ascii ''CHI, NYC''" and a = ?a and b = "ascii ''zzz''"
      and l = "[0xA0, 0x20]" and m = "ascii ''c h''" and r = "[0x3000]"]
  from inst up have a: "parse_codes sample_cases (ascii ''chi, nyc'') = parse_codes sample_cases (ascii ''CHI, NYC'')"
    by blast
  from inst nc have "parse_codes sample_cases ?a
        = (case own_key (toUpperCase sample_cases (trim ?a)) of None \<Rightarrow> [] | Some k \<Rightarrow> [k])"
    and c0: "parse_codes sample_cases (?a @ 0x2C # ascii ''zzz'') = parse_codes sample_cases ?a @ parse_codes sample_cases (ascii ''zzz'')"
    by blast+
  then have b: "parse_codes sample_cases ?a = [''CHI'']"
    by (simp only: tr key option.case)
  from c0 b z have c: "parse_codes sample_cases (?a @ 0x2C # ascii ''zzz'') = [''CHI'']" by simp
  from inst sp m have t: "trim ([0xA0, 0x20] @ ascii ''c h'' @ [0x3000]) = ascii ''c h''"
    by blast
  from inst have g: "resp_status (fst (fetch_handler sample_cases echo_orch sample_env ''2026-02-14T09:00:00.000Z''
        \<lparr>pathname = ''/bundle'', date_param = Some ''2026-02-15'', cities_param = Some (ascii ''ZZZ'')\<rparr> ())) = 400"
    and f: "fetch_handler sample_cases echo_orch sample_env ''2026-02-14T09:00:00.000Z''
        \<lparr>pathname = ''/bundle'', date_param = Some ''2026-02-15'', cities_param = Some (ascii ''CHI,ZZZ'')\<rparr> ()
      = fetch_handler sample_cases echo_orch sample_env ''2026-02-14T09:00:00.000Z''
        \<lparr>pathname = ''/bundle'', date_param = Some ''2026-02-15'', cities_param = Some (ascii ''CHI'')\<rparr> ()"
    by blast+
  from re up nc a tr b c sp ns t g f show ?thesis by blast
qed

text \<open>
  The claim as stated, that a \<^verbatim>\<open>cities\<close> parameter which is present and leaves no code
  gets a 400, fails for the empty parameter (\<^verbatim>\<open>/bundle?date=2026-02-15&cities=\<close>): no
  code comes out of it, and the answer is the 200 of a request without the parameter,
  with all seven locations.
\<close>

theorem C9_counterexample:
  "parse_codes sample_cases [] = []
   \<and> resp_status (fst (fetch_handler sample_cases echo_orch sample_env ''2026-02-14T09:00:00.000Z''
        \<lparr>pathname = ''/bundle'', date_param = Some ''2026-02-15'', cities_param = Some []\<rparr> ())) = 200
   \<and> fetch_handler sample_cases echo_orch sample_env ''2026-02-14T09:00:00.000Z''
        \<lparr>pathname = ''/bundle'', date_param = Some ''2026-02-15'', cities_param = Some []\<rparr> ()
      = fetch_handler sample_cases echo_orch sample_env ''2026-02-14T09:00:00.000Z''
        \<lparr>pathname = ''/bundle'', date_param = Some ''2026-02-15'', cities_param = None\<rparr> ()
   \<and> at_path (resp_body (fst (fetch_handler sample_cases echo_orch sample_env ''2026-02-14T09:00:00.000Z''
        \<lparr>pathname = ''/bundle'', date_param = Some ''2026-02-15'', cities_param = Some []\<rparr> ())))
        [''cities'', ''PHIL''] = Some (JStr ''PHIL 2026-02-15'')
   \<and> map fst (case at_path (resp_body (fst (fetch_handler sample_cases echo_orch sample_env ''2026-02-14T09:00:00.000Z''
        \<lparr>pathname = ''/bundle'', date_param = Some ''2026-02-15'', cities_param = Some []\<rparr> ())))
        [''cities''] of Some (JObj kvs) \<Rightarrow> kvs | _ \<Rightarrow> [])
      = [''CHI'', ''NYC'', ''MIA'', ''LAX'', ''AUS'', ''DEN'', ''PHIL'']"
  by code_simp

section \<open>C5: the order books of the contracts\<close>

lemma set_orderbook_ticker: "map ticker (set_orderbook t ob cs) = map ticker cs"
  by (induction cs) simp_all

lemma set_orderbook_distinct:
  assumes "distinct (map ticker cs)"
  shows "set_orderbook t ob cs = map (\<lambda>c. if ticker c = t then c\<lparr>orderbook := Some ob\<rparr> else c) cs"
  using assms
proof (induction cs)
  case Nil
  then show ?case by simp
next
  case (Cons c cs)
  show ?case
  proof (cases "ticker c = t")
    case True
    from Cons.prems have "ticker c \<notin> ticker ` set cs" by simp
    with True have "\<forall>x \<in> set cs. ticker x \<noteq> t" by blast
    then have "map (\<lambda>c. if ticker c = t then c\<lparr>orderbook := Some ob\<rparr> else c) cs = cs"
      by (induction cs) simp_all
    with True show ?thesis by simp
  next
    case False
    with Cons show ?thesis by simp
  qed
qed

lemma orderbook_task_settled:
  "orderbook_task pf e up c = (ticker c, settled_orderbook pf e up (ticker c))"
  by (simp add: orderbook_task_def settled_orderbook_def)

lemma with_orderbook_ticker: "ticker (with_orderbook pf e up c) = ticker c"
  by (simp add: with_orderbook_def)

lemma with_orderbook_idem: "with_orderbook pf e up (with_orderbook pf e up c) = with_orderbook pf e up c"
  by (simp add: with_orderbook_def)

lemma assign_all:
  assumes "distinct (map ticker xs)"
  shows "foldl (\<lambda>acc r. set_orderbook (fst r) (snd r) acc) xs (map (orderbook_task pf e up) bs)
     = map (\<lambda>c. if ticker c \<in> ticker ` set bs then with_orderbook pf e up c else c) xs"
  using assms
proof (induction bs arbitrary: xs)
  case Nil
  then show ?case by simp
next
  case (Cons b bs)
  let ?h = "\<lambda>c. if ticker c = ticker b then c\<lparr>orderbook := Some (settled_orderbook pf e up (ticker b))\<rparr> else c"
  have one: "set_orderbook (ticker b) (settled_orderbook pf e up (ticker b)) xs = map ?h xs"
    using Cons.prems by (rule set_orderbook_distinct)
  have keep: "map ticker (map ?h xs) = map ticker xs"
    by (induction xs) simp_all
  have dist: "distinct (map ticker (map ?h xs))"
    unfolding keep by (rule Cons.prems)
  have "foldl (\<lambda>acc r. set_orderbook (fst r) (snd r) acc) xs (map (orderbook_task pf e up) (b # bs))
      = foldl (\<lambda>acc r. set_orderbook (fst r) (snd r) acc) (map ?h xs) (map (orderbook_task pf e up) bs)"
    by (simp add: orderbook_task_settled one)
  also have "\<dots> = map (\<lambda>c. if ticker c \<in> ticker ` set bs then with_orderbook pf e up c else c) (map ?h xs)"
    using dist by (rule Cons.IH)
  also have "\<dots> = map (\<lambda>c. if ticker c \<in> ticker ` set (b # bs) then with_orderbook pf e up c else c) xs"
    by (auto simp: with_orderbook_def)
  finally show ?case .
qed

lemma run_batch_distinct:
  assumes "distinct (map ticker cs)"
  shows "run_batch pf e up i cs
     = map (\<lambda>c. if ticker c \<in> ticker ` set (take 5 (drop i cs)) then with_orderbook pf e up c else c) cs"
  using assms by (simp add: run_batch_def assign_all)

lemma fetch_orderbooks_distinct:
  assumes "distinct (map ticker cs)"
  shows "fetch_orderbooks pf e up i cs
     = map (\<lambda>c. if ticker c \<in> ticker ` set (drop i cs) then with_orderbook pf e up c else c) cs"
  using assms
proof (induction pf e up i cs rule: fetch_orderbooks.induct)
  case (1 pf e up i cs)
  let ?fill = "with_orderbook pf e up"
  show ?case
  proof (cases "i < length cs")
    case False
    then show ?thesis
      by (subst fetch_orderbooks.simps) simp
  next
    case True
    let ?cs' = "run_batch pf e up i cs"
    have cs': "?cs' = map (\<lambda>c. if ticker c \<in> ticker ` set (take 5 (drop i cs)) then ?fill c else c) cs"
      using "1.prems" by (rule run_batch_distinct)
    have tick: "map ticker ?cs' = map ticker cs"
      unfolding cs' by (induction cs) (simp_all add: with_orderbook_ticker)
    with "1.prems" have dist: "distinct (map ticker ?cs')" by simp
    have rest: "ticker ` set (drop (i + 5) ?cs') = ticker ` set (drop (i + 5) cs)"
    proof -
      have "map ticker (drop (i + 5) ?cs') = map ticker (drop (i + 5) cs)"
        by (simp only: drop_map [symmetric] tick)
      then show ?thesis by (metis set_map)
    qed
    have split: "ticker ` set (drop i cs)
        = ticker ` set (take 5 (drop i cs)) \<union> ticker ` set (drop (i + 5) cs)"
    proof -
      have "drop i cs = take 5 (drop i cs) @ drop (i + 5) cs"
        by (metis add.commute append_take_drop_id drop_drop)
      then have "set (drop i cs) = set (take 5 (drop i cs)) \<union> set (drop (i + 5) cs)"
        by (metis set_append)
      then show ?thesis by auto
    qed
    have "fetch_orderbooks pf e up i cs = fetch_orderbooks pf e up (i + 5) ?cs'"
      using True by (subst fetch_orderbooks.simps) simp
    also have "\<dots> = map (\<lambda>c. if ticker c \<in> ticker ` set (drop (i + 5) ?cs') then ?fill c else c) ?cs'"
      using True dist by (rule "1.IH")
    also have "\<dots> = map (\<lambda>c. if ticker c \<in> ticker ` set (drop i cs) then ?fill c else c) cs"
      unfolding rest split unfolding cs'
      by (auto simp: with_orderbook_ticker with_orderbook_idem)
    finally show ?thesis .
  qed
qed

lemma fetch_orderbooks_all:
  assumes "distinct (map ticker cs)"
  shows "fetch_orderbooks pf e up 0 cs = map (with_orderbook pf e up) cs"
  using fetch_orderbooks_distinct [OF assms, of pf e up 0] by (simp cong: map_cong)

lemma run_batch_window:
  assumes "distinct (map ticker cs)"
  shows "run_batch pf e up i cs = take i cs @ map (with_orderbook pf e up) (take 5 (drop i cs)) @ drop (i + 5) cs"
proof -
  let ?A = "take i cs" and ?B = "take 5 (drop i cs)" and ?C = "drop (i + 5) cs"
  let ?h = "\<lambda>c. if ticker c \<in> ticker ` set ?B then with_orderbook pf e up c else c"
  have cs: "cs = ?A @ ?B @ ?C"
    by (metis add.commute append_take_drop_id drop_drop)
  with assms have "distinct (map ticker (?A @ ?B @ ?C))" by simp
  then have disj: "ticker ` set ?A \<inter> ticker ` set ?B = {}" "ticker ` set ?B \<inter> ticker ` set ?C = {}"
    by (simp_all add: Int_commute) blast+
  have "map ?h cs = map ?h ?A @ map ?h ?B @ map ?h ?C"
    by (metis cs map_append)
  moreover have "map ?h ?A = ?A" using disj(1) by (intro map_idI) auto
  moreover have "map ?h ?C = ?C" using disj(2) by (intro map_idI) auto
  moreover have "map ?h ?B = map (with_orderbook pf e up) ?B" by simp
  ultimately show ?thesis
    by (simp only: run_batch_distinct [OF assms])
qed

lemma token_of_sample_date: "toTickerDate engine ''2026-02-15'' = ''26FEB15''"
  by code_simp

lemma kalshiFetch_at_once:
  assumes "makeKalshiHeaders pf e 0 ''GET'' (''/trade-api/v2'' @ path) = Inr h"
    and "replies 0 = Response status body" and "ok status \<or> status \<noteq> 429"
  shows "fst (kalshiFetch pf e path replies)
     = (if ok status then resp_json body else Rejected (http_error status (KALSHI_BASE @ path)))"
proof -
  from assms(3) have "ok status \<or> status \<noteq> 429 \<or> (0::nat) = 2" by simp
  from kalshiFetch_from_final [of 0 pf e path h replies status body, OF _ assms(1,2) this]
  show ?thesis by (simp add: kalshiFetch_def)
qed

lemma sample_signer:
  "\<exists>h. makeKalshiHeaders sample_platform sample_env k method path = Inr h"
  by (simp add: makeKalshiHeaders_def getSigningKey_def sample_platform_def sample_env_def Let_def)

lemma orderbook_of_rejected: "orderbook_of (Rejected m) = JObj [(''yes'', JArr []), (''no'', JArr []), (''error'', JStr m)]"
  by (simp add: orderbook_of_def failed_orderbook_def)

lemma list_contracts_unfetched: "\<forall>c \<in> set (list_contracts tickerDate data). orderbook c = None"
  by (auto simp: list_contracts_def contract_of_def)

text \<open>
  C5, as it holds of the code.  Let the events listing have been fetched and let the
  contracts made of it have pairwise different tickers.  Then \<^verbatim>\<open>fetchMarkets\<close> returns
  these contracts, in order, each with the order book its own fetch settled to, and the
  \<^verbatim>\<open>error\<close> of the series is \<^verbatim>\<open>null\<close>.  Before the loop every \<open>orderbook\<close> is \<^verbatim>\<open>null\<close>,
  after it none is.  A fetch that throws with the message \<open>m\<close> gives its contract the
  order book \<^verbatim>\<open>{yes: [], no: [], error: m}\<close> and touches no other contract.  The batch
  that starts at the index \<open>i\<close> gives their order books to the up to 5 contracts from
  \<open>i\<close> on and leaves all others as they are.
\<close>

theorem C5_orderbook_enrichment:
  assumes listing: "body_of ''events''
        (fst (kalshiFetch pf e (events_path seriesTicker)
                (kalshi_events up (KALSHI_BASE @ events_path seriesTicker)))) = Inr data"
    and tickers: "distinct (map ticker (list_contracts (toTickerDate (date_fallback pf) targetDate) data))"
  shows "fetchMarkets pf e seriesTicker targetDate up
      = \<lparr>contracts = map (with_orderbook pf e up)
                         (list_contracts (toTickerDate (date_fallback pf) targetDate) data),
         series_error = None\<rparr>
    \<and> (\<forall>c. with_orderbook pf e up c = c\<lparr>orderbook := Some (settled_orderbook pf e up (ticker c))\<rparr>)
    \<and> (\<forall>c \<in> set (contracts (fetchMarkets pf e seriesTicker targetDate up)). orderbook c \<noteq> None)
    \<and> (\<forall>c \<in> set (list_contracts (toTickerDate (date_fallback pf) targetDate) data). orderbook c = None)
    \<and> (\<forall>t m. fst (kalshiFetch pf e (orderbook_path t) (kalshi_orderbook up (KALSHI_BASE @ orderbook_path t)))
                = Rejected m
          \<longrightarrow> settled_orderbook pf e up t = JObj [(''yes'', JArr []), (''no'', JArr []), (''error'', JStr m)])
    \<and> (\<forall>i. run_batch pf e up i (list_contracts (toTickerDate (date_fallback pf) targetDate) data)
          = take i (list_contracts (toTickerDate (date_fallback pf) targetDate) data)
            @ map (with_orderbook pf e up)
                (take 5 (drop i (list_contracts (toTickerDate (date_fallback pf) targetDate) data)))
            @ drop (i + 5) (list_contracts (toTickerDate (date_fallback pf) targetDate) data))"
proof -
  let ?cs = "list_contracts (toTickerDate (date_fallback pf) targetDate) data"
  have a: "fetchMarkets pf e seriesTicker targetDate up
      = \<lparr>contracts = map (with_orderbook pf e up) ?cs, series_error = None\<rparr>"
    by (simp add: fetchMarkets_def Let_def listing fetch_orderbooks_all [OF tickers])
  have b: "\<forall>c. with_orderbook pf e up c = c\<lparr>orderbook := Some (settled_orderbook pf e up (ticker c))\<rparr>"
    by (simp add: with_orderbook_def)
  have c: "\<forall>c \<in> set (contracts (fetchMarkets pf e seriesTicker targetDate up)). orderbook c \<noteq> None"
    by (auto simp: a with_orderbook_def)
  have d: "\<forall>t m. fst (kalshiFetch pf e (orderbook_path t) (kalshi_orderbook up (KALSHI_BASE @ orderbook_path t)))
                = Rejected m
          \<longrightarrow> settled_orderbook pf e up t = JObj [(''yes'', JArr []), (''no'', JArr []), (''error'', JStr m)]"
    by (simp add: settled_orderbook_def orderbook_of_rejected)
  have f: "\<forall>i. run_batch pf e up i ?cs
          = take i ?cs @ map (with_orderbook pf e up) (take 5 (drop i ?cs)) @ drop (i + 5) ?cs"
    using run_batch_window [OF tickers] by blast
  from a b c d f list_contracts_unfetched [of "toTickerDate (date_fallback pf) targetDate" data]
  show ?thesis by blast
qed

text \<open>
  The theorem for two markets of which the second has no order book to be fetched
  (status 500).
\<close>

theorem C5_orderbook_enrichment_witness:
  "body_of ''events''
        (fst (kalshiFetch sample_platform sample_env (events_path ''KXHIGHCHI'')
                (kalshi_events one_book_down (KALSHI_BASE @ events_path ''KXHIGHCHI''))))
     = Inr (Some [Some [sample_market ''KXHIGHCHI-26FEB15-T40'', sample_market ''KXHIGHCHI-26FEB15-T45'']])
   \<and> map ticker (list_contracts (toTickerDate (date_fallback sample_platform) ''2026-02-15'')
        (Some [Some [sample_market ''KXHIGHCHI-26FEB15-T40'', sample_market ''KXHIGHCHI-26FEB15-T45'']]))
     = [''KXHIGHCHI-26FEB15-T40'', ''KXHIGHCHI-26FEB15-T45'']
   \<and> distinct [''KXHIGHCHI-26FEB15-T40'', ''KXHIGHCHI-26FEB15-T45'']
   \<and> map orderbook (contracts (fetchMarkets sample_platform sample_env ''KXHIGHCHI'' ''2026-02-15'' one_book_down))
     = [Some (JObj [(''yes'', JArr [JArr [JNum 41, JNum 10]]), (''no'', JArr [])]),
        Some (JObj [(''yes'', JArr []), (''no'', JArr []),
                    (''error'', JStr (''HTTP 500 from '' @ KALSHI_BASE @ ''/markets/KXHIGHCHI-26FEB15-T45/orderbook''))])]
   \<and> series_error (fetchMarkets sample_platform sample_env ''KXHIGHCHI'' ''2026-02-15'' one_book_down) = None"
proof -
  let ?data = "Some [Some [sample_market ''KXHIGHCHI-26FEB15-T40'', sample_market ''KXHIGHCHI-26FEB15-T45'']]"
  let ?t40 = "''KXHIGHCHI-26FEB15-T40''" and ?t45 = "''KXHIGHCHI-26FEB15-T45''"
  obtain he where he: "makeKalshiHeaders sample_platform sample_env 0 ''GET''
      (''/trade-api/v2'' @ events_path ''KXHIGHCHI'') = Inr he"
    using sample_signer by blast
  have ev: "body_of ''events''
        (fst (kalshiFetch sample_platform sample_env (events_path ''KXHIGHCHI'')
                (kalshi_events one_book_down (KALSHI_BASE @ events_path ''KXHIGHCHI'')))) = Inr ?data"
    using kalshiFetch_at_once [OF he, of "kalshi_events one_book_down (KALSHI_BASE @ events_path ''KXHIGHCHI'')"
        200 "Inr (WellFormed ?data)"]
    by (simp add: one_book_down_def ok_def resp_json_def body_of_def)
  have tok: "toTickerDate (date_fallback sample_platform) ''2026-02-15'' = ''26FEB15''"
    by (rule token_of_sample_date)
  have tk: "map ticker (list_contracts (toTickerDate (date_fallback sample_platform) ''2026-02-15'') ?data)
      = [?t40, ?t45]"
    by (simp add: tok list_contracts_def startsWith_def sample_market_def contract_of_def)
  have di: "distinct [?t40, ?t45]" by simp
  from tk di have dist: "distinct (map ticker
      (list_contracts (toTickerDate (date_fallback sample_platform) ''2026-02-15'') ?data))"
    by (simp only:)
  obtain h40 where h40: "makeKalshiHeaders sample_platform sample_env 0 ''GET''
      (''/trade-api/v2'' @ orderbook_path ?t40) = Inr h40"
    using sample_signer by blast
  obtain h45 where h45: "makeKalshiHeaders sample_platform sample_env 0 ''GET''
      (''/trade-api/v2'' @ orderbook_path ?t45) = Inr h45"
    using sample_signer by blast
  have d500: "dec 500 = ''500''" by (simp add: dec.simps digit_char_def)
  have b40: "settled_orderbook sample_platform sample_env one_book_down ?t40
      = JObj [(''yes'', JArr [JArr [JNum 41, JNum 10]]), (''no'', JArr [])]"
    using kalshiFetch_at_once [OF h40, of "kalshi_orderbook one_book_down (KALSHI_BASE @ orderbook_path ?t40)"
        200 "Inr sample_book"]
    by (simp add: settled_orderbook_def one_book_down_def ok_def resp_json_def orderbook_of_def
        sample_book_def orderbook_path_def)
  have b45: "settled_orderbook sample_platform sample_env one_book_down ?t45
      = JObj [(''yes'', JArr []), (''no'', JArr []),
              (''error'', JStr (''HTTP 500 from '' @ KALSHI_BASE @ ''/markets/KXHIGHCHI-26FEB15-T45/orderbook''))]"
    using kalshiFetch_at_once [OF h45, of "kalshi_orderbook one_book_down (KALSHI_BASE @ orderbook_path ?t45)"
        500 "Inl ''Internal Server Error''"]
    by (simp add: settled_orderbook_def one_book_down_def ok_def orderbook_of_def failed_orderbook_def
        http_error_def d500 orderbook_path_def)
  note inst = C5_orderbook_enrichment [OF ev dist]
  from inst have fm: "fetchMarkets sample_platform sample_env ''KXHIGHCHI'' ''2026-02-15'' one_book_down
      = \<lparr>contracts = map (with_orderbook sample_platform sample_env one_book_down)
                         (list_contracts (toTickerDate (date_fallback sample_platform) ''2026-02-15'') ?data),
         series_error = None\<rparr>"
    by blast
  have obs: "map orderbook (map (with_orderbook pf e up) cs)
      = map (\<lambda>t. Some (settled_orderbook pf e up t)) (map ticker cs)" for pf e up cs
    by (simp add: with_orderbook_def)
  have r1: "map orderbook (contracts (fetchMarkets sample_platform sample_env ''KXHIGHCHI'' ''2026-02-15'' one_book_down))
     = [Some (JObj [(''yes'', JArr [JArr [JNum 41, JNum 10]]), (''no'', JArr [])]),
        Some (JObj [(''yes'', JArr []), (''no'', JArr []),
                    (''error'', JStr (''HTTP 500 from '' @ KALSHI_BASE @ ''/markets/KXHIGHCHI-26FEB15-T45/orderbook''))])]"
    unfolding fm by (simp only: series.simps obs tk list.map b40 b45)
  have r2: "series_error (fetchMarkets sample_platform sample_env ''KXHIGHCHI'' ''2026-02-15'' one_book_down) = None"
    unfolding fm by simp
  from ev tk di r1 r2 show ?thesis by blast
qed

text \<open>
  The claim as stated, for every listing, fails: the result of a fetch is written to the
  first contract that has its ticker (\<^verbatim>\<open>contracts.find\<close>).  When a listing has the same
  ticker twice, both fetches fill the first of the two contracts and the \<open>orderbook\<close>
  of the second is still \<^verbatim>\<open>null\<close> in what \<^verbatim>\<open>fetchMarkets\<close> returns.
\<close>

theorem C5_counterexample:
  "map ticker (contracts (fetchMarkets sample_platform sample_env ''KXHIGHCHI'' ''2026-02-15'' listed_twice))
     = [''KXHIGHCHI-26FEB15-T40'', ''KXHIGHCHI-26FEB15-T40'']
   \<and> map orderbook (contracts (fetchMarkets sample_platform sample_env ''KXHIGHCHI'' ''2026-02-15'' listed_twice))
     = [Some (JObj [(''yes'', JArr [JArr [JNum 41, JNum 10]]), (''no'', JArr [])]), None]
   \<and> series_error (fetchMarkets sample_platform sample_env ''KXHIGHCHI'' ''2026-02-15'' listed_twice) = None"
proof -
  let ?data = "Some [Some [sample_market ''KXHIGHCHI-26FEB15-T40''], Some [sample_market ''KXHIGHCHI-26FEB15-T40'']]"
  let ?t40 = "''KXHIGHCHI-26FEB15-T40''"
  let ?c = "contract_of (sample_market ?t40)"
  let ?ob = "JObj [(''yes'', JArr [JArr [JNum 41, JNum 10]]), (''no'', JArr [])]"
  obtain he where he: "makeKalshiHeaders sample_platform sample_env 0 ''GET''
      (''/trade-api/v2'' @ events_path ''KXHIGHCHI'') = Inr he"
    using sample_signer by blast
  have ev: "body_of ''events''
        (fst (kalshiFetch sample_platform sample_env (events_path ''KXHIGHCHI'')
                (kalshi_events listed_twice (KALSHI_BASE @ events_path ''KXHIGHCHI'')))) = Inr ?data"
    using kalshiFetch_at_once [OF he, of "kalshi_events listed_twice (KALSHI_BASE @ events_path ''KXHIGHCHI'')"
        200 "Inr (WellFormed ?data)"]
    by (simp add: listed_twice_def ok_def resp_json_def body_of_def)
  have tok: "toTickerDate (date_fallback sample_platform) ''2026-02-15'' = ''26FEB15''"
    by (rule token_of_sample_date)
  have cs: "list_contracts ''26FEB15'' ?data = [?c, ?c]"
    by (simp add: list_contracts_def startsWith_def sample_market_def)
  have tc: "ticker ?c = ?t40" by (simp add: contract_of_def sample_market_def)
  obtain h40 where h40: "makeKalshiHeaders sample_platform sample_env 0 ''GET''
      (''/trade-api/v2'' @ orderbook_path ?t40) = Inr h40"
    using sample_signer by blast
  have task: "orderbook_task sample_platform sample_env listed_twice ?c = (?t40, ?ob)"
    using kalshiFetch_at_once [OF h40, of "kalshi_orderbook listed_twice (KALSHI_BASE @ orderbook_path ?t40)"
        200 "Inr sample_book"]
    by (simp add: orderbook_task_def tc listed_twice_def ok_def resp_json_def orderbook_of_def sample_book_def)
  have batch: "run_batch sample_platform sample_env listed_twice 0 [?c, ?c] = [?c\<lparr>orderbook := Some ?ob\<rparr>, ?c]"
    by (simp add: run_batch_def task tc)
  have "fetch_orderbooks sample_platform sample_env listed_twice 0 [?c, ?c]
      = fetch_orderbooks sample_platform sample_env listed_twice 5 [?c\<lparr>orderbook := Some ?ob\<rparr>, ?c]"
    by (subst fetch_orderbooks.simps) (simp add: batch)
  also have "\<dots> = [?c\<lparr>orderbook := Some ?ob\<rparr>, ?c]"
    by (subst fetch_orderbooks.simps) simp
  finally have fo: "fetch_orderbooks sample_platform sample_env listed_twice 0 [?c, ?c]
      = [?c\<lparr>orderbook := Some ?ob\<rparr>, ?c]" .
  have fm: "fetchMarkets sample_platform sample_env ''KXHIGHCHI'' ''2026-02-15'' listed_twice
      = \<lparr>contracts = [?c\<lparr>orderbook := Some ?ob\<rparr>, ?c], series_error = None\<rparr>"
    by (simp add: fetchMarkets_def Let_def ev tok cs fo)
  show ?thesis
    unfolding fm by (simp add: tc contract_of_def sample_market_def)
qed

section \<open>C1: one location's failure does not fail the response\<close>

text \<open>
  The handler calls the orchestrator once per resolved code, in request order, inside
  \<^verbatim>\<open>try\<close>/\<^verbatim>\<open>catch\<close>; a returned bundle is stored under the code, a thrown
  one is replaced by the placeholder and recorded in \<^verbatim>\<open>errors\<close>.  Storing is an
  assignment to an object property, so a code that was stored before is overwritten in
  place.
\<close>

lemma set_prop_fresh: "k \<notin> fst ` set kvs \<Longrightarrow> set_prop kvs k v = kvs @ [(k, v)]"
  by (induction kvs) auto

lemma collect_step_of:
  "collect_step acc cr = (set_prop (fst acc) (fst (fst cr)) (bundle_of cr), snd acc @ errors_of cr)"
  by (simp add: collect_step_def bundle_of_def errors_of_def split: outcome.splits)

lemma collect_distinct:
  assumes "distinct (map (\<lambda>cr. fst (fst cr)) xs)"
    and "fst ` set kvs \<inter> (\<lambda>cr. fst (fst cr)) ` set xs = {}"
  shows "foldl collect_step (kvs, es) xs
     = (kvs @ map (\<lambda>cr. (fst (fst cr), bundle_of cr)) xs, es @ concat (map errors_of xs))"
  using assms
proof (induction xs arbitrary: kvs es)
  case Nil
  then show ?case by simp
next
  case (Cons x xs)
  from Cons.prems(2) have fresh: "fst (fst x) \<notin> fst ` set kvs" by auto
  have step: "collect_step (kvs, es) x = (kvs @ [(fst (fst x), bundle_of x)], es @ errors_of x)"
    by (simp add: collect_step_of set_prop_fresh [OF fresh])
  from Cons.prems have d: "distinct (map (\<lambda>cr. fst (fst cr)) xs)"
    and disj: "fst ` set (kvs @ [(fst (fst x), bundle_of x)]) \<inter> (\<lambda>cr. fst (fst cr)) ` set xs = {}"
    by auto
  show ?case
    by (simp add: step Cons.IH [OF d disj])
qed

lemma lookup_configs_codes:
  assumes "set codes \<subseteq> set (map fst CITY_CONFIGS)"
  shows "map fst (lookup_configs codes) = codes"
  using assms
proof (induction codes)
  case Nil
  then show ?case by (simp add: lookup_configs_def)
next
  case (Cons c codes)
  from Cons.prems have "c \<in> fst ` set CITY_CONFIGS" by simp
  then obtain cfg where "map_of CITY_CONFIGS c = Some cfg"
    by (metis domD dom_map_of_conv_image_fst)
  moreover from Cons have "map fst (lookup_configs codes) = codes" by simp
  ultimately show ?case by (simp add: lookup_configs_def)
qed

lemma requested_codes_known:
  assumes "requested_codes uc cp = Some codes"
  shows "set codes \<subseteq> set (map fst CITY_CONFIGS) \<and> codes \<noteq> []"
proof -
  have all: "map fst CITY_CONFIGS \<noteq> []" by (simp add: CITY_CONFIGS_def)
  from assms show ?thesis
    using parse_codes_known all
    by (auto simp: requested_codes_def split: option.splits if_splits)
qed

lemma length_orchestrate: "length (fst (orchestrate orch e d ccs w)) = length ccs"
proof (induction ccs arbitrary: w)
  case Nil
  then show ?case by simp
next
  case (Cons a ccs)
  obtain r w1 where r: "orch e (fst a) (snd a) d w = (r, w1)" by (cases "orch e (fst a) (snd a) d w")
  obtain rs w2 where rs: "orchestrate orch e d ccs w1 = (rs, w2)" by (cases "orchestrate orch e d ccs w1")
  from Cons [of w1] rs have "length rs = length ccs" by simp
  with r rs show ?case by (simp split: prod.splits)
qed

lemma bundle_status:
  "resp_status (fst (fetch_handler uc orch e now
      \<lparr>pathname = ''/bundle'', date_param = dp, cities_param = cp\<rparr> w))
   = (if or_empty dp = [] \<or> \<not> matches_date_regex (or_empty dp) \<or> requested_codes uc cp = None then 400 else 200)"
  by (auto simp: fetch_handler_def bundle_response_def Let_def split: option.splits prod.splits)

lemma placeholder_shape:
  "at_path (placeholder_bundle cfg msg) [''city_name''] = Some (JStr (name cfg))
   \<and> at_path (placeholder_bundle cfg msg) [''markets'', ''high'', ''contracts''] = Some (JArr [])
   \<and> at_path (placeholder_bundle cfg msg) [''markets'', ''low'', ''contracts''] = Some (JArr [])
   \<and> at_path (placeholder_bundle cfg msg) [''weather'', ''error''] = Some (JStr msg)"
  by (simp add: at_path_def placeholder_bundle_def)

text \<open>
  C1, as it holds of the code.  For a \<^verbatim>\<open>/bundle\<close> request whose date has the
  required form and whose \<^verbatim>\<open>cities\<close> parameter resolves to the codes
  \<^term>\<open>codes\<close>, no code being requested twice, let the orchestrator be run on the
  locations in order, with outcomes \<^term>\<open>results\<close>.  Then the response has status
  200; \<^verbatim>\<open>cities\<close> maps, in request order, each code to exactly what its
  orchestration returned, or, when it threw, to the placeholder bundle made from that
  location's configuration and the message of what was thrown; \<^verbatim>\<open>errors\<close> lists,
  in request order, one object \<^verbatim>\<open>{city, error}\<close> for each orchestration that threw,
  and nothing else.  The placeholder bundle keeps the configured city name, has empty
  \<^verbatim>\<open>high\<close> and \<^verbatim>\<open>low\<close> contract lists and carries the message as its weather
  error.  Whatever the orchestrator does, the status of a \<^verbatim>\<open>/bundle\<close> response is
  400 exactly when the date is missing or malformed or no code resolves, and 200
  otherwise.
\<close>

theorem C1_location_isolation:
  assumes date: "matches_date_regex d" and codes: "requested_codes uc cp = Some codes"
    and once: "distinct codes"
    and run: "orchestrate orch e d (lookup_configs codes) w = (results, w')"
  shows "fetch_handler uc orch e now \<lparr>pathname = ''/bundle'', date_param = Some d, cities_param = cp\<rparr> w
      = (\<lparr>resp_status = 200,
          resp_body =
            JObj [(''generated_at'', JStr now), (''target_date'', JStr d),
                  (''cities'', JObj (map (\<lambda>cr. (fst (fst cr), bundle_of cr)) (zip (lookup_configs codes) results))),
                  (''errors'', JArr (concat (map errors_of (zip (lookup_configs codes) results))))]\<rparr>, w')
    \<and> map fst (lookup_configs codes) = codes \<and> length results = length codes
    \<and> (\<forall>cc reason. bundle_of (cc, Throws reason) = placeholder_bundle (snd cc) (reason_message reason)
          \<and> errors_of (cc, Throws reason)
              = [JObj [(''city'', JStr (fst cc)), (''error'', JStr (reason_message reason))]])
    \<and> (\<forall>cc v. bundle_of (cc, Returns v) = v \<and> errors_of (cc, Returns v) = [])
    \<and> (\<forall>cfg msg.
          at_path (placeholder_bundle cfg msg) [''city_name''] = Some (JStr (name cfg))
        \<and> at_path (placeholder_bundle cfg msg) [''markets'', ''high'', ''contracts''] = Some (JArr [])
        \<and> at_path (placeholder_bundle cfg msg) [''markets'', ''low'', ''contracts''] = Some (JArr [])
        \<and> at_path (placeholder_bundle cfg msg) [''weather'', ''error''] = Some (JStr msg))
    \<and> (\<forall>dp cp' w0. resp_status (fst (fetch_handler uc orch e now
              \<lparr>pathname = ''/bundle'', date_param = dp, cities_param = cp'\<rparr> w0))
          = (if or_empty dp = [] \<or> \<not> matches_date_regex (or_empty dp) \<or> requested_codes uc cp' = None
             then 400 else 200))"
proof -
  let ?ccs = "lookup_configs codes"
  have keys: "map fst ?ccs = codes"
    using requested_codes_known [OF codes] by (simp add: lookup_configs_codes)
  have len: "length results = length codes"
    using length_orchestrate [of orch e d ?ccs w] run keys by (metis fst_conv length_map)
  have zipkeys: "map (\<lambda>cr. fst (fst cr)) (zip ?ccs results) = codes"
  proof -
    have "map (\<lambda>cr. fst (fst cr)) (zip ?ccs results) = map fst (map fst (zip ?ccs results))"
      by simp
    also have "\<dots> = map fst ?ccs"
      using len keys by (metis length_map map_fst_zip)
    finally show ?thesis using keys by simp
  qed
  have coll: "foldl collect_step ([], []) (zip ?ccs results)
      = (map (\<lambda>cr. (fst (fst cr), bundle_of cr)) (zip ?ccs results),
         concat (map errors_of (zip ?ccs results)))"
    using collect_distinct [of "zip ?ccs results" "[]" "[]"] once zipkeys by simp
  have a: "fetch_handler uc orch e now \<lparr>pathname = ''/bundle'', date_param = Some d, cities_param = cp\<rparr> w
      = (\<lparr>resp_status = 200,
          resp_body =
            JObj [(''generated_at'', JStr now), (''target_date'', JStr d),
                  (''cities'', JObj (map (\<lambda>cr. (fst (fst cr), bundle_of cr)) (zip ?ccs results))),
                  (''errors'', JArr (concat (map errors_of (zip ?ccs results))))]\<rparr>, w')"
    by (simp add: handler_bundle [OF date codes] bundle_response_def run coll)
  have b: "\<forall>cc reason. bundle_of (cc, Throws reason) = placeholder_bundle (snd cc) (reason_message reason)
          \<and> errors_of (cc, Throws reason)
              = [JObj [(''city'', JStr (fst cc)), (''error'', JStr (reason_message reason))]]"
    by (simp add: bundle_of_def errors_of_def)
  have c: "\<forall>cc v. bundle_of (cc, Returns v) = v \<and> errors_of (cc, Returns v) = []"
    by (simp add: bundle_of_def errors_of_def)
  from a keys len b c placeholder_shape bundle_status [of uc orch e now] show ?thesis
    by blast
qed

text \<open>
  An instance: Chicago and New York are requested and the orchestration of New York
  throws.
\<close>

lemma nyc_run:
  "requested_codes sample_cases (Some (ascii ''CHI,NYC'')) = Some [''CHI'', ''NYC'']
   \<and> map fst (lookup_configs [''CHI'', ''NYC'']) = [''CHI'', ''NYC'']
   \<and> map (name \<circ> snd) (lookup_configs [''CHI'', ''NYC'']) = [''Chicago Midway'', ''New York (Central Park)'']"
  by code_simp

lemma nyc_results:
  "orchestrate nyc_down_orch sample_env ''2026-02-15'' (lookup_configs [''CHI'', ''NYC'']) ()
     = ([Returns (JStr ''CHI 2026-02-15''), Throws (Some ''upstream exploded'')], ())"
  by code_simp

theorem C1_location_isolation_witness:
  "matches_date_regex ''2026-02-15''
   \<and> requested_codes sample_cases (Some (ascii ''CHI,NYC'')) = Some [''CHI'', ''NYC'']
   \<and> distinct [''CHI'', ''NYC'']
   \<and> orchestrate nyc_down_orch sample_env ''2026-02-15'' (lookup_configs [''CHI'', ''NYC'']) ()
        = ([Returns (JStr ''CHI 2026-02-15''), Throws (Some ''upstream exploded'')], ())
   \<and> resp_status (fst (fetch_handler sample_cases nyc_down_orch sample_env ''2026-02-14T12:00:00.000Z''
        \<lparr>pathname = ''/bundle'', date_param = Some ''2026-02-15'', cities_param = Some (ascii ''CHI,NYC'')\<rparr> ())) = 200
   \<and> at_path (resp_body (fst (fetch_handler sample_cases nyc_down_orch sample_env ''2026-02-14T12:00:00.000Z''
        \<lparr>pathname = ''/bundle'', date_param = Some ''2026-02-15'', cities_param = Some (ascii ''CHI,NYC'')\<rparr> ())))
        [''cities'', ''CHI''] = Some (JStr ''CHI 2026-02-15'')
   \<and> at_path (resp_body (fst (fetch_handler sample_cases nyc_down_orch sample_env ''2026-02-14T12:00:00.000Z''
        \<lparr>pathname = ''/bundle'', date_param = Some ''2026-02-15'', cities_param = Some (ascii ''CHI,NYC'')\<rparr> ())))
        [''cities'', ''NYC'', ''city_name''] = Some (JStr ''New York (Central Park)'')
   \<and> at_path (resp_body (fst (fetch_handler sample_cases nyc_down_orch sample_env ''2026-02-14T12:00:00.000Z''
        \<lparr>pathname = ''/bundle'', date_param = Some ''2026-02-15'', cities_param = Some (ascii ''CHI,NYC'')\<rparr> ())))
        [''cities'', ''NYC'', ''markets'', ''high'', ''contracts''] = Some (JArr [])
   \<and> at_path (resp_body (fst (fetch_handler sample_cases nyc_down_orch sample_env ''2026-02-14T12:00:00.000Z''
        \<lparr>pathname = ''/bundle'', date_param = Some ''2026-02-15'', cities_param = Some (ascii ''CHI,NYC'')\<rparr> ())))
        [''errors''] = Some (JArr [JObj [(''city'', JStr ''NYC''), (''error'', JStr ''upstream exploded'')]])"
proof -
  have date: "matches_date_regex ''2026-02-15''" by code_simp
  have codes: "requested_codes sample_cases (Some (ascii ''CHI,NYC'')) = Some [''CHI'', ''NYC'']" using nyc_run by blast
  have once: "distinct [''CHI'', ''NYC'']" by simp
  note inst = C1_location_isolation [OF date codes once nyc_results, of "''2026-02-14T12:00:00.000Z''"]
  from inst have resp: "fetch_handler sample_cases nyc_down_orch sample_env ''2026-02-14T12:00:00.000Z''
        \<lparr>pathname = ''/bundle'', date_param = Some ''2026-02-15'', cities_param = Some (ascii ''CHI,NYC'')\<rparr> ()
      = (\<lparr>resp_status = 200,
          resp_body =
            JObj [(''generated_at'', JStr ''2026-02-14T12:00:00.000Z''), (''target_date'', JStr ''2026-02-15''),
                  (''cities'', JObj (map (\<lambda>cr. (fst (fst cr), bundle_of cr))
                      (zip (lookup_configs [''CHI'', ''NYC''])
                         [Returns (JStr ''CHI 2026-02-15''), Throws (Some ''upstream exploded'')]))),
                  (''errors'', JArr (concat (map errors_of
                      (zip (lookup_configs [''CHI'', ''NYC''])
                         [Returns (JStr ''CHI 2026-02-15''), Throws (Some ''upstream exploded'')]))))]\<rparr>, ())"
    by blast
  have cities: "map (\<lambda>cr. (fst (fst cr), bundle_of cr))
        (zip (lookup_configs [''CHI'', ''NYC''])
           [Returns (JStr ''CHI 2026-02-15''), Throws (Some ''upstream exploded'')])
      = [(''CHI'', JStr ''CHI 2026-02-15''),
         (''NYC'', placeholder_bundle (snd (lookup_configs [''CHI'', ''NYC''] ! 1)) ''upstream exploded'')]"
    by code_simp
  have nm: "name (snd (lookup_configs [''CHI'', ''NYC''] ! Suc 0)) = ''New York (Central Park)''"
    by (simp add: lookup_configs_def CITY_CONFIGS_def)
  have errs: "concat (map errors_of
        (zip (lookup_configs [''CHI'', ''NYC''])
           [Returns (JStr ''CHI 2026-02-15''), Throws (Some ''upstream exploded'')]))
      = [JObj [(''city'', JStr ''NYC''), (''error'', JStr ''upstream exploded'')]]"
    by code_simp
  show ?thesis
    by (simp add: date codes nyc_results resp cities errs nm at_path_def placeholder_bundle_def)
qed

text \<open>
  C1 as stated does not hold when a code is requested twice.  With \<^verbatim>\<open>cities=CHI,CHI\<close>
  and an orchestration that throws at its first call and returns at its second, the
  response has status 200 and \<^verbatim>\<open>errors\<close> names Chicago, yet Chicago is mapped to
  the bundle of the second call and not to a placeholder: it has no city name.
\<close>

theorem C1_counterexample:
  "matches_date_regex ''2026-02-15''
   \<and> requested_codes sample_cases (Some (ascii ''CHI,CHI'')) = Some [''CHI'', ''CHI'']
   \<and> fst (orchestrate first_call_fails sample_env ''2026-02-15'' (lookup_configs [''CHI'', ''CHI'']) 0)
        = [Throws (Some ''boom''), Returns (JStr ''CHI 2026-02-15'')]
   \<and> resp_status (fst (fetch_handler sample_cases first_call_fails sample_env ''2026-02-14T12:00:00.000Z''
        \<lparr>pathname = ''/bundle'', date_param = Some ''2026-02-15'', cities_param = Some (ascii ''CHI,CHI'')\<rparr> 0)) = 200
   \<and> at_path (resp_body (fst (fetch_handler sample_cases first_call_fails sample_env ''2026-02-14T12:00:00.000Z''
        \<lparr>pathname = ''/bundle'', date_param = Some ''2026-02-15'', cities_param = Some (ascii ''CHI,CHI'')\<rparr> 0)))
        [''errors''] = Some (JArr [JObj [(''city'', JStr ''CHI''), (''error'', JStr ''boom'')]])
   \<and> at_path (resp_body (fst (fetch_handler sample_cases first_call_fails sample_env ''2026-02-14T12:00:00.000Z''
        \<lparr>pathname = ''/bundle'', date_param = Some ''2026-02-15'', cities_param = Some (ascii ''CHI,CHI'')\<rparr> 0)))
        [''cities'', ''CHI''] = Some (JStr ''CHI 2026-02-15'')
   \<and> at_path (resp_body (fst (fetch_handler sample_cases first_call_fails sample_env ''2026-02-14T12:00:00.000Z''
        \<lparr>pathname = ''/bundle'', date_param = Some ''2026-02-15'', cities_param = Some (ascii ''CHI,CHI'')\<rparr> 0)))
        [''cities'', ''CHI'', ''city_name''] = None"
  by code_simp

section \<open>C10: the date check of the handler\<close>

lemma map_of_set_prop: "map_of (set_prop kvs k v) k' = (if k' = k then Some v else map_of kvs k')"
  by (induction kvs) auto

lemma collect_returns:
  "foldl collect_step (kvs, es) (map (\<lambda>cc. (cc, Returns (G cc))) ccs)
     = (foldl (\<lambda>acc cc. set_prop acc (fst cc) (G cc)) kvs ccs, es)"
  by (induction ccs arbitrary: kvs) (simp_all add: collect_step_def)

lemma map_of_stored:
  assumes "\<forall>cc \<in> set ccs. G cc = H (fst cc)"
  shows "map_of (foldl (\<lambda>acc cc. set_prop acc (fst cc) (G cc)) kvs ccs) k
     = (if k \<in> fst ` set ccs then Some (H k) else map_of kvs k)"
  using assms
proof (induction ccs arbitrary: kvs)
  case Nil
  then show ?case by simp
next
  case (Cons a ccs)
  from Cons.prems have rest: "\<forall>cc \<in> set ccs. G cc = H (fst cc)" and a: "G a = H (fst a)"
    by simp_all
  show ?case
    using Cons.IH [OF rest, of "set_prop kvs (fst a) (G a)"] a
    by (auto simp: map_of_set_prop)
qed

lemma lookup_configs_set:
  "set (lookup_configs codes) = {(c, cfg). c \<in> set codes \<and> map_of CITY_CONFIGS c = Some cfg}"
  by (auto simp: lookup_configs_def split: option.splits)

lemma worker_bundle:
  assumes "matches_date_regex d" and "requested_codes (upper_case pf) cp = Some codes"
  shows "worker pf up e now \<lparr>pathname = ''/bundle'', date_param = Some d, cities_param = cp\<rparr>
     = \<lparr>resp_status = 200,
        resp_body =
          JObj [(''generated_at'', JStr now), (''target_date'', JStr d),
                (''cities'',
                   JObj (foldl (\<lambda>acc cc. set_prop acc (fst cc) (fetchCityBundle pf e (fst cc) (snd cc) d up)) []
                           (lookup_configs codes))),
                (''errors'', JArr [])]\<rparr>"
proof -
  have z: "zip ccs (map f ccs) = map (\<lambda>cc. (cc, f cc)) ccs" for f :: "string \<times> config \<Rightarrow> outcome" and ccs
    by (induction ccs) simp_all
  show ?thesis
    by (simp add: worker_def handler_bundle [OF assms] bundle_response_def orchestrate_stateless z
        collect_returns)
qed

lemma run_batch_ticker: "map ticker (run_batch pf e up i cs) = map ticker cs"
proof -
  have "map ticker (foldl (\<lambda>acc r. set_orderbook (fst r) (snd r) acc) xs rs) = map ticker xs"
    for rs :: "(string \<times> json) list" and xs
    by (induction rs arbitrary: xs) (simp_all add: set_orderbook_ticker)
  then show ?thesis by (simp add: run_batch_def)
qed

lemma fetch_orderbooks_ticker: "map ticker (fetch_orderbooks pf e up i cs) = map ticker cs"
proof (induction pf e up i cs rule: fetch_orderbooks.induct)
  case (1 pf e up i cs)
  show ?case
  proof (cases "i < length cs")
    case True
    with "1.IH" show ?thesis
      by (subst fetch_orderbooks.simps) (simp add: run_batch_ticker)
  next
    case False
    then show ?thesis by (subst fetch_orderbooks.simps) simp
  qed
qed

lemma list_contracts_tickers:
  "map ticker (list_contracts t data) = filter (\<lambda>x. str_includes x t) (listed_tickers data)"
proof -
  have one: "map (\<lambda>x. ticker (contract_of x)) (filter (\<lambda>m. str_includes (m_ticker m) t) ms)
      = filter (\<lambda>x. str_includes x t) (map m_ticker ms)" for ms
    by (induction ms) (simp_all add: contract_of_def)
  show ?thesis
    by (simp add: list_contracts_def listed_tickers_def map_concat filter_concat o_def one)
qed

lemma toTickerDate_rollover:
  assumes re: "matches_date_regex s"
    and m: "1 \<le> iso_month s" "iso_month s \<le> 12"
    and d: "days_in_month (iso_year s) (iso_month s) < iso_day s" "iso_day s \<le> 31"
    and y: "10 \<le> iso_year s"
  shows "toTickerDate engine s =
       [s ! 2, s ! 3] @ months ! (iso_month s)
       @ [digit_char ((iso_day s - days_in_month (iso_year s) (iso_month s)) div 10),
          digit_char ((iso_day s - days_in_month (iso_year s) (iso_month s)) mod 10)]"
    and "yymmmdd_form (toTickerDate engine s)"
proof -
  from d have one: "1 \<le> iso_day s" by simp
  from d have dim: "days_in_month (iso_year s) (iso_month s) < 31" by simp
  then have m11: "iso_month s < 12"
    by (auto simp: days_in_month_def split: if_splits)
  have "toTickerDate engine s =
       [digit_char (iso_year s div 10 mod 10), digit_char (iso_year s mod 10)] @ months ! (iso_month s)
       @ [digit_char ((iso_day s - days_in_month (iso_year s) (iso_month s)) div 10),
          digit_char ((iso_day s - days_in_month (iso_year s) (iso_month s)) mod 10)]"
    using m d y m11 one
    by (simp add: toTickerDate_def new_Date_iso [OF re] make_day_def String_int_def slice_last2_dec
        padStart2_dec length_months)
  then show eq: "toTickerDate engine s =
       [s ! 2, s ! 3] @ months ! (iso_month s)
       @ [digit_char ((iso_day s - days_in_month (iso_year s) (iso_month s)) div 10),
          digit_char ((iso_day s - days_in_month (iso_year s) (iso_month s)) mod 10)]"
    using own_digits [OF re] by simp
  from re have len: "length s = 10" by (simp add: matches_date_regex_def)
  from own_digits [OF re] have dg: "is_digit (s ! 2)" "is_digit (s ! 3)"
    by (metis is_digit_digit_char)+
  show "yymmmdd_form (toTickerDate engine s)"
    using month_name [OF m11] dg by (simp add: eq yymmmdd_form_def is_digit_digit_char nth_append)
qed

text \<open>
  C10, as it holds of the code.  The handler tests the \<^verbatim>\<open>date\<close> parameter against the
  pattern only.  With any string \<open>d\<close> that matches, and codes that resolve, the answer
  has the status 200 and the target date \<open>d\<close>, and the orchestrator has been called with
  \<open>d\<close> for each location.  In the worker every requested location gets the bundle that
  \<^verbatim>\<open>fetchCityBundle\<close> makes for \<open>d\<close>: the weather, the ensemble and the two series are
  those of \<^verbatim>\<open>fetchWeather\<close>, \<^verbatim>\<open>fetchEnsemble\<close> and \<^verbatim>\<open>fetchMarkets\<close> called with \<open>d\<close>,
  and the contracts of a series are the listed markets whose ticker includes the token
  that \<^verbatim>\<open>toTickerDate\<close> returns on \<open>d\<close>.  \<^verbatim>\<open>toTickerDate\<close> returns on such a \<open>d\<close>
  whatever it says about the calendar, and what it returns does not depend on the
  engine's fallback parser.  With a month outside 01 to 12 or a day outside 01 to 31 the
  date is invalid and the token is \<^verbatim>\<open>aNundefinedNaN\<close>, which is not of the form YYMMMDD;
  so it is for \<^verbatim>\<open>2026-99-99\<close>.  With a month from 01 to 12 and a day up to 31 that the
  month does not have, the date is counted on into the next month: from the year 0010
  on the token is of the form YYMMMDD, made of the last two digits of the year, the
  abbreviation of the next month and the number of days past the end of the month.
\<close>

theorem C10_date_check_is_syntactic:
  assumes date: "matches_date_regex d" and codes: "requested_codes (upper_case pf) cp = Some codes"
  shows "resp_status (fst (fetch_handler (upper_case pf) orch e now
            \<lparr>pathname = ''/bundle'', date_param = Some d, cities_param = cp\<rparr> w)) = 200
    \<and> field (resp_body (fst (fetch_handler (upper_case pf) orch e now
            \<lparr>pathname = ''/bundle'', date_param = Some d, cities_param = cp\<rparr> w))) ''target_date'' = Some (JStr d)
    \<and> snd (fetch_handler (upper_case pf) orch e now
            \<lparr>pathname = ''/bundle'', date_param = Some d, cities_param = cp\<rparr> w)
        = snd (orchestrate orch e d (lookup_configs codes) w)
    \<and> resp_status (worker pf up e now \<lparr>pathname = ''/bundle'', date_param = Some d, cities_param = cp\<rparr>) = 200
    \<and> at_path (resp_body (worker pf up e now \<lparr>pathname = ''/bundle'', date_param = Some d, cities_param = cp\<rparr>))
          [''target_date''] = Some (JStr d)
    \<and> at_path (resp_body (worker pf up e now \<lparr>pathname = ''/bundle'', date_param = Some d, cities_param = cp\<rparr>))
          [''errors''] = Some (JArr [])
    \<and> (\<forall>c cfg. c \<in> set codes \<and> map_of CITY_CONFIGS c = Some cfg \<longrightarrow>
          at_path (resp_body (worker pf up e now \<lparr>pathname = ''/bundle'', date_param = Some d, cities_param = cp\<rparr>))
            [''cities'', c] = Some (fetchCityBundle pf e c cfg d up))
    \<and> (\<forall>c cfg. fetchCityBundle pf e c cfg d up
          = JObj [(''city_name'', JStr (name cfg)), (''station'', JStr (station cfg)),
                  (''weather'', JObj (weather_props (fetchWeather cfg d up)
                                       @ [(''ensemble'', ensemble_json (fetchEnsemble cfg d up))])),
                  (''markets'',
                     JObj [(''high'', JObj ((''series_ticker'', JStr (high cfg))
                                             # series_props (fetchMarkets pf e (high cfg) d up))),
                           (''low'', JObj ((''series_ticker'', JStr (low cfg))
                                            # series_props (fetchMarkets pf e (low cfg) d up)))])])
    \<and> (\<forall>st data. body_of ''events''
            (fst (kalshiFetch pf e (events_path st) (kalshi_events up (KALSHI_BASE @ events_path st)))) = Inr data
          \<longrightarrow> map ticker (contracts (fetchMarkets pf e st d up))
              = filter (\<lambda>t. str_includes t (toTickerDate (date_fallback pf) d)) (listed_tickers data))
    \<and> toTickerDate engine' d = toTickerDate engine d
    \<and> (\<not> (1 \<le> iso_month d \<and> iso_month d \<le> 12 \<and> 1 \<le> iso_day d \<and> iso_day d \<le> 31)
         \<longrightarrow> toTickerDate engine d = ''aNundefinedNaN'')
    \<and> \<not> yymmmdd_form ''aNundefinedNaN''
    \<and> (1 \<le> iso_month d \<and> iso_month d \<le> 12 \<and> days_in_month (iso_year d) (iso_month d) < iso_day d
         \<and> iso_day d \<le> 31 \<and> 10 \<le> iso_year d
         \<longrightarrow> toTickerDate engine d =
               [d ! 2, d ! 3] @ months ! (iso_month d)
               @ [digit_char ((iso_day d - days_in_month (iso_year d) (iso_month d)) div 10),
                  digit_char ((iso_day d - days_in_month (iso_year d) (iso_month d)) mod 10)]
             \<and> yymmmdd_form (toTickerDate engine d))
    \<and> calendar_date d
        = (1 \<le> iso_month d \<and> iso_month d \<le> 12 \<and> 1 \<le> iso_day d
           \<and> iso_day d \<le> days_in_month (iso_year d) (iso_month d))
    \<and> matches_date_regex ''2026-99-99''
    \<and> toTickerDate engine ''2026-99-99'' = ''aNundefinedNaN''"
proof -
  let ?req = "\<lparr>pathname = ''/bundle'', date_param = Some d, cities_param = cp\<rparr>"
  let ?G = "\<lambda>cc. fetchCityBundle pf e (fst cc) (snd cc) d up"
  let ?H = "\<lambda>c. fetchCityBundle pf e c (the (map_of CITY_CONFIGS c)) d up"
  have h: "fetch_handler (upper_case pf) orch e now ?req w = bundle_response orch e now d codes w"
    using date codes by (rule handler_bundle)
  have a1: "resp_status (fst (fetch_handler (upper_case pf) orch e now ?req w)) = 200"
    and a2: "field (resp_body (fst (fetch_handler (upper_case pf) orch e now ?req w))) ''target_date''
        = Some (JStr d)"
    using bundle_response_status [of orch e now d codes w] by (simp_all add: h)
  have a3: "snd (fetch_handler (upper_case pf) orch e now ?req w)
        = snd (orchestrate orch e d (lookup_configs codes) w)"
    by (simp add: h bundle_response_def Let_def split: prod.splits)
  note wb = worker_bundle [OF date codes, of up e now]
  have b1: "resp_status (worker pf up e now ?req) = 200"
    and b2: "at_path (resp_body (worker pf up e now ?req)) [''target_date''] = Some (JStr d)"
    and b3: "at_path (resp_body (worker pf up e now ?req)) [''errors''] = Some (JArr [])"
    by (simp_all add: wb at_path_def)
  have same: "\<forall>cc \<in> set (lookup_configs codes). ?G cc = ?H (fst cc)"
    by (auto simp: lookup_configs_set)
  have b4: "at_path (resp_body (worker pf up e now ?req)) [''cities'', c]
        = Some (fetchCityBundle pf e c cfg d up)"
    if "c \<in> set codes \<and> map_of CITY_CONFIGS c = Some cfg" for c cfg
  proof -
    from that have "(c, cfg) \<in> set (lookup_configs codes)"
      by (simp add: lookup_configs_set)
    then have "c \<in> fst ` set (lookup_configs codes)" by force
    with map_of_stored [OF same, of "[]" c] that show ?thesis
      by (simp add: wb at_path_def)
  qed
  have c: "\<forall>c cfg. fetchCityBundle pf e c cfg d up
          = JObj [(''city_name'', JStr (name cfg)), (''station'', JStr (station cfg)),
                  (''weather'', JObj (weather_props (fetchWeather cfg d up)
                                       @ [(''ensemble'', ensemble_json (fetchEnsemble cfg d up))])),
                  (''markets'',
                     JObj [(''high'', JObj ((''series_ticker'', JStr (high cfg))
                                             # series_props (fetchMarkets pf e (high cfg) d up))),
                           (''low'', JObj ((''series_ticker'', JStr (low cfg))
                                            # series_props (fetchMarkets pf e (low cfg) d up)))])]"
    by (simp add: fetchCityBundle_def Let_def)
  have m: "map ticker (contracts (fetchMarkets pf e st d up))
              = filter (\<lambda>t. str_includes t (toTickerDate (date_fallback pf) d)) (listed_tickers data)"
    if "body_of ''events''
          (fst (kalshiFetch pf e (events_path st) (kalshi_events up (KALSHI_BASE @ events_path st)))) = Inr data"
    for st data
    using that by (simp add: fetchMarkets_def Let_def fetch_orderbooks_ticker list_contracts_tickers)
  have det: "toTickerDate engine' d = toTickerDate engine d"
    by (simp add: toTickerDate_def new_Date_iso [OF date])
  have inv: "\<not> (1 \<le> iso_month d \<and> iso_month d \<le> 12 \<and> 1 \<le> iso_day d \<and> iso_day d \<le> 31)
         \<longrightarrow> toTickerDate engine d = ''aNundefinedNaN''"
    using toTickerDate_invalid [OF date] by blast
  have f: "\<not> yymmmdd_form ''aNundefinedNaN''"
    by (simp add: yymmmdd_form_def)
  have roll: "1 \<le> iso_month d \<and> iso_month d \<le> 12 \<and> days_in_month (iso_year d) (iso_month d) < iso_day d
         \<and> iso_day d \<le> 31 \<and> 10 \<le> iso_year d
         \<longrightarrow> toTickerDate engine d =
               [d ! 2, d ! 3] @ months ! (iso_month d)
               @ [digit_char ((iso_day d - days_in_month (iso_year d) (iso_month d)) div 10),
                  digit_char ((iso_day d - days_in_month (iso_year d) (iso_month d)) mod 10)]
             \<and> yymmmdd_form (toTickerDate engine d)"
    using toTickerDate_rollover [OF date, of engine] by blast
  have cal: "calendar_date d
        = (1 \<le> iso_month d \<and> iso_month d \<le> 12 \<and> 1 \<le> iso_day d
           \<and> iso_day d \<le> days_in_month (iso_year d) (iso_month d))"
    by (simp add: calendar_date_def)
  have g: "matches_date_regex ''2026-99-99''"
    by code_simp
  have i: "toTickerDate engine ''2026-99-99'' = ''aNundefinedNaN''"
    by code_simp
  from a1 a2 a3 b1 b2 b3 b4 c m det inv f roll cal g i show ?thesis
    by blast
qed

text \<open>
  The theorem at the date \<^verbatim>\<open>2026-02-30\<close>, which the calendar does not have, for a
  request for Chicago to the worker: the answer is the bundle made for that date, and
  the contracts of the high series are the markets of 2 March.  And the theorem at the
  date \<^verbatim>\<open>2026-99-99\<close>, for a request without \<^verbatim>\<open>cities\<close>.
\<close>

theorem C10_date_check_is_syntactic_witness:
  "matches_date_regex ''2026-02-30''
   \<and> requested_codes (upper_case sample_platform) (Some (ascii ''chi'')) = Some [''CHI'']
   \<and> map_of CITY_CONFIGS ''CHI'' = Some chicago
   \<and> iso_year ''2026-02-30'' = 2026 \<and> iso_month ''2026-02-30'' = 2 \<and> iso_day ''2026-02-30'' = 30
   \<and> days_in_month 2026 2 = 28
   \<and> resp_status (worker sample_platform march_listing sample_env ''2026-02-14T09:00:00.000Z''
        \<lparr>pathname = ''/bundle'', date_param = Some ''2026-02-30'', cities_param = Some (ascii ''chi'')\<rparr>) = 200
   \<and> at_path (resp_body (worker sample_platform march_listing sample_env ''2026-02-14T09:00:00.000Z''
        \<lparr>pathname = ''/bundle'', date_param = Some ''2026-02-30'', cities_param = Some (ascii ''chi'')\<rparr>))
        [''target_date''] = Some (JStr ''2026-02-30'')
   \<and> at_path (resp_body (worker sample_platform march_listing sample_env ''2026-02-14T09:00:00.000Z''
        \<lparr>pathname = ''/bundle'', date_param = Some ''2026-02-30'', cities_param = Some (ascii ''chi'')\<rparr>))
        [''cities'', ''CHI'']
       = Some (fetchCityBundle sample_platform sample_env ''CHI'' chicago ''2026-02-30'' march_listing)
   \<and> body_of ''events''
        (fst (kalshiFetch sample_platform sample_env (events_path ''KXHIGHCHI'')
                (kalshi_events march_listing (KALSHI_BASE @ events_path ''KXHIGHCHI''))))
       = Inr (Some [Some [sample_market ''KXHIGHCHI-26FEB28-T40'', sample_market ''KXHIGHCHI-26MAR02-T40'']])
   \<and> toTickerDate (date_fallback sample_platform) ''2026-02-30'' = ''26MAR02''
   \<and> yymmmdd_form (toTickerDate (date_fallback sample_platform) ''2026-02-30'')
   \<and> map ticker (contracts (fetchMarkets sample_platform sample_env ''KXHIGHCHI'' ''2026-02-30'' march_listing))
       = [''KXHIGHCHI-26MAR02-T40'']
   \<and> matches_date_regex ''2026-99-99''
   \<and> requested_codes (upper_case sample_platform) None = Some (map fst CITY_CONFIGS)
   \<and> iso_month ''2026-99-99'' = 99
   \<and> resp_status (fst (fetch_handler (upper_case sample_platform) echo_orch sample_env ''2026-02-14T09:00:00.000Z''
        \<lparr>pathname = ''/bundle'', date_param = Some ''2026-99-99'', cities_param = None\<rparr> ())) = 200
   \<and> toTickerDate no_fallback ''2026-99-99'' = ''aNundefinedNaN''"
proof -
  let ?now = "''2026-02-14T09:00:00.000Z''"
  let ?d = "''2026-02-30''"
  let ?data = "Some [Some [sample_market ''KXHIGHCHI-26FEB28-T40'', sample_market ''KXHIGHCHI-26MAR02-T40'']]"
  have uc: "upper_case sample_platform = sample_cases" and fb: "date_fallback sample_platform = no_fallback"
    by (simp_all add: sample_platform_def)
  have re: "matches_date_regex ?d" by code_simp
  have "requested_codes sample_cases (Some (ascii ''chi'')) = Some [''CHI'']" by code_simp
  then have rc: "requested_codes (upper_case sample_platform) (Some (ascii ''chi'')) = Some [''CHI'']"
    by (simp only: uc)
  have cfg: "map_of CITY_CONFIGS ''CHI'' = Some chicago"
    by (simp add: CITY_CONFIGS_def chicago_def)
  have y: "iso_year ?d = 2026" and m: "iso_month ?d = 2" and dd: "iso_day ?d = 30"
    and dim: "days_in_month 2026 2 = 28"
    by code_simp+
  note inst = C10_date_check_is_syntactic [OF re rc, where up = march_listing and e = sample_env
      and now = ?now and orch = echo_orch and w = "()" and engine = "date_fallback sample_platform"
      and engine' = no_fallback]
  from inst have st: "resp_status (worker sample_platform march_listing sample_env ?now
        \<lparr>pathname = ''/bundle'', date_param = Some ?d, cities_param = Some (ascii ''chi'')\<rparr>) = 200"
    and td: "at_path (resp_body (worker sample_platform march_listing sample_env ?now
        \<lparr>pathname = ''/bundle'', date_param = Some ?d, cities_param = Some (ascii ''chi'')\<rparr>))
        [''target_date''] = Some (JStr ?d)"
    by blast+
  have "''CHI'' \<in> set [''CHI''] \<and> map_of CITY_CONFIGS ''CHI'' = Some chicago"
    using cfg by simp
  with inst have bd: "at_path (resp_body (worker sample_platform march_listing sample_env ?now
        \<lparr>pathname = ''/bundle'', date_param = Some ?d, cities_param = Some (ascii ''chi'')\<rparr>))
        [''cities'', ''CHI'']
       = Some (fetchCityBundle sample_platform sample_env ''CHI'' chicago ?d march_listing)"
    by blast
  obtain he where he: "makeKalshiHeaders sample_platform sample_env 0 ''GET''
      (''/trade-api/v2'' @ events_path ''KXHIGHCHI'') = Inr he"
    using sample_signer by blast
  have ev: "body_of ''events''
        (fst (kalshiFetch sample_platform sample_env (events_path ''KXHIGHCHI'')
                (kalshi_events march_listing (KALSHI_BASE @ events_path ''KXHIGHCHI'')))) = Inr ?data"
    using kalshiFetch_at_once [OF he, of "kalshi_events march_listing (KALSHI_BASE @ events_path ''KXHIGHCHI'')"
        200 "Inr (WellFormed ?data)"]
    by (simp add: march_listing_def ok_def resp_json_def body_of_def)
  have range: "1 \<le> iso_month ?d \<and> iso_month ?d \<le> 12 \<and> days_in_month (iso_year ?d) (iso_month ?d) < iso_day ?d
         \<and> iso_day ?d \<le> 31 \<and> 10 \<le> iso_year ?d"
    by (simp add: y m dd dim)
  with inst have tk0: "toTickerDate (date_fallback sample_platform) ?d =
               [?d ! 2, ?d ! 3] @ months ! (iso_month ?d)
               @ [digit_char ((iso_day ?d - days_in_month (iso_year ?d) (iso_month ?d)) div 10),
                  digit_char ((iso_day ?d - days_in_month (iso_year ?d) (iso_month ?d)) mod 10)]"
    and form: "yymmmdd_form (toTickerDate (date_fallback sample_platform) ?d)"
    by blast+
  from tk0 have tok: "toTickerDate (date_fallback sample_platform) ?d = ''26MAR02''"
    by (simp add: y m dd dim months_def digit_char_def)
  from inst ev have "map ticker (contracts (fetchMarkets sample_platform sample_env ''KXHIGHCHI'' ?d march_listing))
      = filter (\<lambda>t. str_includes t (toTickerDate (date_fallback sample_platform) ?d)) (listed_tickers ?data)"
    by blast
  then have cs: "map ticker (contracts (fetchMarkets sample_platform sample_env ''KXHIGHCHI'' ?d march_listing))
      = [''KXHIGHCHI-26MAR02-T40'']"
    by (simp add: tok listed_tickers_def sample_market_def startsWith_def)
  have re9: "matches_date_regex ''2026-99-99''" by code_simp
  have rc9: "requested_codes (upper_case sample_platform) None = Some (map fst CITY_CONFIGS)"
    by (simp add: requested_codes_def)
  have m9: "iso_month ''2026-99-99'' = 99" by code_simp
  note inst9 = C10_date_check_is_syntactic [OF re9 rc9, where up = offline and e = sample_env
      and now = ?now and orch = echo_orch and w = "()" and engine = no_fallback and engine' = no_fallback]
  from inst9 have st9: "resp_status (fst (fetch_handler (upper_case sample_platform) echo_orch sample_env ?now
        \<lparr>pathname = ''/bundle'', date_param = Some ''2026-99-99'', cities_param = None\<rparr> ())) = 200"
    by blast
  have "\<not> (1 \<le> iso_month ''2026-99-99'' \<and> iso_month ''2026-99-99'' \<le> 12
      \<and> 1 \<le> iso_day ''2026-99-99'' \<and> iso_day ''2026-99-99'' \<le> 31)"
    by (simp add: m9)
  with inst9 have tk9: "toTickerDate no_fallback ''2026-99-99'' = ''aNundefinedNaN''"
    by blast
  from re rc cfg y m dd dim st td bd ev tok form cs re9 rc9 m9 st9 tk9 show ?thesis
    by blast
qed

text \<open>
  The claim as stated, that an accepted string which is no date of the calendar gives an
  invalid date and a token that is not of the form YYMMMDD, fails for a day from 29 to 31
  that its month does not have.  \<^verbatim>\<open>2026-02-30\<close> passes the check though February 2026
  has 28 days, the orchestrator is called with it, and its token is \<^verbatim>\<open>26MAR02\<close>, the
  well-formed token of 2 March 2026.
\<close>

theorem C10_counterexample:
  "matches_date_regex ''2026-02-30'' \<and> \<not> calendar_date ''2026-02-30''
   \<and> days_in_month (iso_year ''2026-02-30'') (iso_month ''2026-02-30'') = 28
   \<and> resp_status (fst (fetch_handler sample_cases echo_orch sample_env ''2026-02-14T09:00:00.000Z''
        \<lparr>pathname = ''/bundle'', date_param = Some ''2026-02-30'', cities_param = Some (ascii ''CHI'')\<rparr> ())) = 200
   \<and> at_path (resp_body (fst (fetch_handler sample_cases echo_orch sample_env ''2026-02-14T09:00:00.000Z''
        \<lparr>pathname = ''/bundle'', date_param = Some ''2026-02-30'', cities_param = Some (ascii ''CHI'')\<rparr> ())))
        [''cities'', ''CHI''] = Some (JStr ''CHI 2026-02-30'')
   \<and> toTickerDate no_fallback ''2026-02-30'' = ''26MAR02''
   \<and> yymmmdd_form (toTickerDate no_fallback ''2026-02-30'')
   \<and> toTickerDate no_fallback ''2026-03-02'' = ''26MAR02''"
  by code_simp

end
